theory Spec2Isabelle
  imports Complex_Main "HOL-Library.Word" "HOL-Library.Log_Nat"
begin

unbundle bit_operations_syntax

section \<open>Machine integers and small vectors\<close>

text \<open>
  The DirectX12 renderer works on fixed-width unsigned integers: \<open>uint32_t\<close> / \<open>UINT32\<close> /
  \<open>UINT\<close> are 32 bits, \<open>uint64_t\<close> / \<open>UINT64\<close> / \<open>size_t\<close> are 64 bits (the program links
  against the 64-bit Direct3D 12 libraries), \<open>UINT16\<close> is 16 bits.  Arithmetic on them wraps.
\<close>

type_synonym u8 = "8 word"
type_synonym u16 = "16 word"
type_synonym u32 = "32 word"
type_synonym u64 = "64 word"

text \<open>\<open>SA::Vec2ui\<close>: a pair of \<open>uint32_t\<close> components named \<open>x\<close> and \<open>y\<close> in the source.\<close>

datatype Vec2ui = Vec2ui (x_of: u32) (y_of: u32)

section \<open>GenerateMipMaps\<close>

text \<open>
  \<open>std::floor(std::log2(n))\<close> for an integer \<open>n \<ge> 1\<close>.  The source evaluates it in double
  precision; every 32-bit \<open>n\<close> is a double, and the value modelled here is the exact one
  (\<open>floor_log2_real\<close> below relates it to the real logarithm).
\<close>

fun floor_log2 :: "nat \<Rightarrow> nat" where
  "floor_log2 n = (if n < 2 then 0 else Suc (floor_log2 (n div 2)))"

declare floor_log2.simps [simp del]

text \<open>\<open>if (d > 1) d >>= 1;\<close> on one component of the extent.\<close>

definition halve_dim :: "u32 \<Rightarrow> u32" where
  "halve_dim d = (if 1 < d then drop_bit 1 d else d)"

definition halve_extent :: "Vec2ui \<Rightarrow> Vec2ui" where
  "halve_extent e = Vec2ui (halve_dim (x_of e)) (halve_dim (y_of e))"

text \<open>
  \<open>_extent.x * _extent.y * _channelNum * _layerNum * sizeof(stbi_uc)\<close>: the four \<open>uint32_t\<close>
  factors are multiplied in 32 bits, then the product is converted to \<open>size_t\<close> for the
  multiplication by \<open>sizeof(stbi_uc) = 1\<close>.
\<close>

definition level_size :: "Vec2ui \<Rightarrow> u32 \<Rightarrow> u32 \<Rightarrow> u64" where
  "level_size e c l = ucast (x_of e * y_of e * c * l) * 1"

text \<open>\<open>_outTotalSize += s\<close> with a 32-bit left-hand side and a 64-bit right-hand side.\<close>

definition add_assign_u32 :: "u32 \<Rightarrow> u64 \<Rightarrow> u32" where
  "add_assign_u32 t s = ucast (ucast t + s)"

text \<open>\<open>std::vector::resize\<close>: keeps the first \<open>n\<close> elements, pads with value-initialised ones.\<close>

definition resize_vec :: "nat \<Rightarrow> 'a \<Rightarrow> 'a list \<Rightarrow> 'a list" where
  "resize_vec n d xs = take n xs @ replicate (n - length xs) d"

text \<open>
  The first loop of \<open>GenerateMipMaps\<close> ("Compute Total Size \<open>&\<close> extents"), with the loop
  counter \<open>i\<close>, the bound \<open>_outMipLevels\<close>, the running \<open>_extent\<close>, \<open>_outTotalSize\<close> and
  \<open>_outExtents\<close>.
\<close>

function extents_loop ::
  "nat \<Rightarrow> nat \<Rightarrow> Vec2ui \<Rightarrow> u32 \<Rightarrow> u32 \<Rightarrow> u32 \<Rightarrow> Vec2ui list \<Rightarrow> u32 \<times> Vec2ui list" where
  "extents_loop i n e c l tot exts =
     (if i < n
      then extents_loop (Suc i) n (halve_extent e) c l
             (add_assign_u32 tot (level_size e c l)) (exts[i := e])
      else (tot, exts))"
  by pat_completeness auto
termination
  by (relation "measure (\<lambda>(i, n, e, c, l, tot, exts). n - i)") auto

declare extents_loop.simps [simp del]

text \<open>
  \<open>stbir_resize_uint8_linear\<close> is an external library routine.  It is a parameter of the
  model: given the input pixels, the input and output dimensions (as \<open>int32_t\<close>) and the
  pixel layout, it yields the output pixels, or \<open>None\<close> when it reports failure (a null
  result, converted to \<open>false\<close> by the source).
\<close>

type_synonym resizer = "u8 list \<Rightarrow> int \<Rightarrow> int \<Rightarrow> int \<Rightarrow> int \<Rightarrow> u32 \<Rightarrow> u8 list option"

text \<open>A loop either runs to its end or the enclosing function returns from inside it.\<close>

datatype 'a flow = Next 'a | Returned 'a

definition write_at :: "nat \<Rightarrow> 'a list \<Rightarrow> 'a list \<Rightarrow> 'a list" where
  "write_at off bs buf = take off buf @ bs @ drop (off + length bs) buf"

text \<open>
  The inner loop over the layers (counter \<open>j\<close>).  The pointers \<open>src\<close> and \<open>dst\<close> are
  offsets into \<open>_data\<close>.  A read or write outside the vector is undefined behaviour in the
  source and \<open>None\<close> here.
\<close>

function layers_loop ::
  "resizer \<Rightarrow> nat \<Rightarrow> nat \<Rightarrow> Vec2ui \<Rightarrow> Vec2ui \<Rightarrow> u32 \<Rightarrow> u64 \<Rightarrow> u64 \<Rightarrow>
     u8 list \<times> nat \<times> nat \<Rightarrow> (u8 list \<times> nat \<times> nat) flow option" where
  "layers_loop stbir j l prev cur c srcLayerOffset currLayerOffset (buf, src, dst) =
     (if j < l
      then if length buf < src + unat srcLayerOffset \<or> length buf < dst + unat currLayerOffset
        then None
        else (case stbir (take (unat srcLayerOffset) (drop src buf))
                     (sint (x_of prev)) (sint (y_of prev)) (sint (x_of cur)) (sint (y_of cur)) c of
                None \<Rightarrow> Some (Returned (buf, src, dst))
              | Some px \<Rightarrow>
                  layers_loop stbir (Suc j) l prev cur c srcLayerOffset currLayerOffset
                    (write_at dst (take (unat currLayerOffset) px) buf,
                     src + unat srcLayerOffset, dst + unat currLayerOffset))
      else Some (Next (buf, src, dst)))"
  by pat_completeness auto
termination
  by (relation "measure (\<lambda>(stbir, j, l, rest). l - j)") auto

declare layers_loop.simps [simp del]

text \<open>The outer loop of the "Generate" block (counter \<open>i\<close>, starting at 1).\<close>

function generate_loop ::
  "resizer \<Rightarrow> nat \<Rightarrow> nat \<Rightarrow> Vec2ui list \<Rightarrow> u32 \<Rightarrow> u32 \<Rightarrow> u8 list \<times> nat \<Rightarrow>
     (u8 list \<times> nat) flow option" where
  "generate_loop stbir i n exts c l (buf, src) =
     (if i < n
      then let srcLayerOffset = (ucast (x_of (exts ! (i - 1)) * y_of (exts ! (i - 1)) * c) * 1 :: u64);
               currLayerOffset = (ucast (x_of (exts ! i) * y_of (exts ! i) * c) * 1 :: u64);
               dst = src + unat (srcLayerOffset * ucast l)
           in (case layers_loop stbir 0 (unat l) (exts ! (i - 1)) (exts ! i) c
                      srcLayerOffset currLayerOffset (buf, src, dst) of
                 None \<Rightarrow> None
               | Some (Returned (buf', src', dst')) \<Rightarrow> Some (Returned (buf', src'))
               | Some (Next (buf', src', dst')) \<Rightarrow> generate_loop stbir (Suc i) n exts c l (buf', src'))
      else Some (Next (buf, src)))"
  by pat_completeness auto
termination
  by (relation "measure (\<lambda>(stbir, i, n, rest). n - i)") auto

declare generate_loop.simps [simp del]

text \<open>
  What \<open>GenerateMipMaps\<close> leaves behind: its three out-parameters, the \<open>_data\<close> vector and
  the messages it logged.  The function returns \<open>void\<close>.
\<close>

record mip_result =
  outMipLevels :: u32
  outTotalSize :: u32
  outExtents :: "Vec2ui list"
  outData :: "u8 list"
  mipLog :: "string list"

text \<open>
  \<open>static_cast<uint32_t>(std::floor(std::log2(max(_extent.x, _extent.y)))) + 1\<close>, for a
  non-zero maximum.
\<close>

definition mip_count :: "Vec2ui \<Rightarrow> u32" where
  "mip_count extent = word_of_nat (floor_log2 (unat (max (x_of extent) (y_of extent)))) + 1"

text \<open>
  \<open>GenerateMipMaps(_extent, _data, _outMipLevels, _outTotalSize, _outExtents, _channelNum,
  _layerNum)\<close>.  \<open>_outMipLevels\<close> is only written.  \<open>_outTotalSize\<close> and \<open>_outExtents\<close> are
  references that the function reads before it writes them, so their incoming values
  \<open>total0\<close> and \<open>exts0\<close> are arguments.  With \<open>max(_extent.x, _extent.y) = 0\<close> the source
  converts \<open>-\<infinity>\<close> to \<open>uint32_t\<close>, which is undefined: \<open>None\<close>.
\<close>

definition GenerateMipMaps ::
  "resizer \<Rightarrow> Vec2ui \<Rightarrow> u8 list \<Rightarrow> u32 \<Rightarrow> Vec2ui list \<Rightarrow> u32 \<Rightarrow> u32 \<Rightarrow> mip_result option" where
  "GenerateMipMaps stbir extent buf0 total0 exts0 channelNum layerNum =
     (let m = max (x_of extent) (y_of extent) in
      if m = 0 then None
      else
        let mips = mip_count extent;
            (tot, exts) = extents_loop 0 (unat mips) extent channelNum layerNum total0
                            (resize_vec (unat mips) (Vec2ui 0 0) exts0);
            buf = resize_vec (unat tot) 0 buf0
        in (case generate_loop stbir 1 (unat mips) exts channelNum layerNum (buf, 0) of
              None \<Rightarrow> None
            | Some (Next (buf', src')) \<Rightarrow>
                Some \<lparr>outMipLevels = mips, outTotalSize = tot, outExtents = exts,
                      outData = buf', mipLog = []\<rparr>
            | Some (Returned (buf', src')) \<Rightarrow>
                Some \<lparr>outMipLevels = mips, outTotalSize = tot, outExtents = exts,
                      outData = buf', mipLog = [''Mip map creation failed!'']\<rparr>))"

section \<open>Direct3D 12 objects of the renderer\<close>

text \<open>
  The resources the renderer creates, by the name of the global that holds them.  A staging
  buffer is created afresh by every upload; its number tells the uploads apart.
\<close>

datatype resource =
    SwapchainImage nat
  | CameraBuffer nat
  | ObjectBuffer
  | PointLightBuffer
  | SphereVertexBuffer nat
  | SphereIndexBuffer
  | Texture nat
  | StagingBuffer nat

text \<open>
  \<open>D3D12_RESOURCE_STATES\<close> is a bit mask.  The values are those of the Direct3D 12 header;
  \<open>COMMON\<close> and \<open>PRESENT\<close> are the same state there.
\<close>

type_synonym D3D12_RESOURCE_STATES = u32

definition D3D12_RESOURCE_STATE_COMMON :: D3D12_RESOURCE_STATES where
  "D3D12_RESOURCE_STATE_COMMON = 0"

definition D3D12_RESOURCE_STATE_PRESENT :: D3D12_RESOURCE_STATES where
  "D3D12_RESOURCE_STATE_PRESENT = 0"

definition D3D12_RESOURCE_STATE_RENDER_TARGET :: D3D12_RESOURCE_STATES where
  "D3D12_RESOURCE_STATE_RENDER_TARGET = 0x4"

definition D3D12_RESOURCE_STATE_COPY_DEST :: D3D12_RESOURCE_STATES where
  "D3D12_RESOURCE_STATE_COPY_DEST = 0x400"

text \<open>
  The calls the program records into a command list.  \<open>CopyBufferRegion\<close> carries the
  destination, its offset, the source, its offset and the byte count; \<open>CopyTextureRegion\<close>
  the destination texture and its \<open>SubresourceIndex\<close>, then the source buffer with the
  \<open>Offset\<close>, \<open>Width\<close>, \<open>Height\<close> and \<open>RowPitch\<close> of its placed footprint;
  \<open>ResourceBarrier\<close> the resource, \<open>StateBefore\<close> and \<open>StateAfter\<close> of one transition.
\<close>

datatype command =
    CopyBufferRegion resource u64 resource u64 u64
  | CopyTextureRegion resource u32 resource u64 u32 u32 u32
  | ResourceBarrier resource D3D12_RESOURCE_STATES D3D12_RESOURCE_STATES
  | OMSetRenderTargets u32
  | ClearRenderTargetView u32
  | ClearDepthStencilView
  | RSSetViewports
  | RSSetScissorRects
  | SetDescriptorHeaps
  | SetGraphicsRootSignature
  | SetGraphicsRootConstantBufferView u32 resource
  | SetGraphicsRootDescriptorTable u32 u32
  | SetPipelineState
  | IASetPrimitiveTopology
  | IASetVertexBuffers
  | IASetIndexBuffer
  | DrawIndexedInstanced

text \<open>The two fences of the program, and what reaches the single graphics queue.\<close>

datatype fence = DeviceFence | SwapchainFence

datatype queue_op =
    ExecuteCommandLists "command list"
  | Present u32 u32
  | Signal fence u64

text \<open>
  The globals of the renderer that the upload helpers and the frame loop read and write.
  \<open>now\<close> is the time on the CPU's clock, in ticks; \<open>mapped\<close> holds what the CPU wrote
  into upload-heap buffers; \<open>logged\<close> is the output of \<open>SA_LOG\<close>.
\<close>

record renderer =
  swapchainFrameIndex :: u32
  swapchainFenceValues :: "u32 list"
  deviceFenceValue :: u32
  cmdLists :: "command list list"
  graphicsQueue :: "queue_op list"
  mapped :: "(resource \<times> u8 list) list"
  logged :: "string list"
  now :: nat

text \<open>\<open>constexpr uint32_t bufferingCount = 3;\<close>\<close>

definition bufferingCount :: nat where
  "bufferingCount = 3"

text \<open>
  \<open>return EXIT_FAILURE;\<close> from \<open>main\<close>, after the \<open>SA_LOG\<close> of the given message.
\<close>

datatype exit = EXIT_FAILURE string

section \<open>Waiting for a fence\<close>

text \<open>
  The GPU is the environment: a fence is given by its completed value at every tick.
  \<open>fence->SetEventOnCompletion(v, event); WaitForSingleObjectEx(event, INFINITE, FALSE);\<close>
  returns at the first tick from now on at which the fence has reached \<open>v\<close>, and never
  returns (\<open>None\<close>) when there is no such tick.
\<close>

partial_function (option) wait_fence :: "(nat \<Rightarrow> u64) \<Rightarrow> u64 \<Rightarrow> nat \<Rightarrow> nat option" where
  "wait_fence fence_at v t = (if v \<le> fence_at t then Some t else wait_fence fence_at v (Suc t))"

declare wait_fence.simps [code]

text \<open>\<open>WaitDeviceIdle()\<close>.  The result of \<open>SetEventOnCompletion\<close> is not looked at.\<close>

definition WaitDeviceIdle :: "(nat \<Rightarrow> u64) \<Rightarrow> renderer \<Rightarrow> renderer option" where
  "WaitDeviceIdle device_fence_at st =
     (let st1 = st\<lparr>graphicsQueue := graphicsQueue st @ [Signal DeviceFence (ucast (deviceFenceValue st))]\<rparr>
      in case wait_fence device_fence_at (ucast (deviceFenceValue st1)) (now st1) of
           None \<Rightarrow> None
         | Some t \<Rightarrow> Some (st1\<lparr>now := t, deviceFenceValue := deviceFenceValue st1 + 1\<rparr>))"

section \<open>Uploading to the GPU\<close>

text \<open>
  What the device answers to an upload: whether \<open>CreateCommittedResource\<close> fails for a
  staging buffer whose description is valid, which buffer it creates, and whether \<open>Map\<close>
  fails on it.
\<close>

record upload_env =
  hrStagBufferCreated_failed :: bool
  stagingId :: nat
  hrMap_failed :: bool

text \<open>
  \<open>FAILED(hrStagBufferCreated)\<close> for the staging buffer, whose description has
  \<open>Dimension = D3D12_RESOURCE_DIMENSION_BUFFER\<close> and \<open>Width = width\<close>.  Direct3D 12
  requires the width of a buffer to be at least 1 and rejects a description of width 0 with
  \<open>E_INVALIDARG\<close>; for any other width the creation fails or not as the device answers.
\<close>

definition FAILED_hrStagBufferCreated :: "upload_env \<Rightarrow> u64 \<Rightarrow> bool" where
  "FAILED_hrStagBufferCreated env width \<longleftrightarrow> width = 0 \<or> hrStagBufferCreated_failed env"

text \<open>
  \<open>std::memcpy(data, _data, n)\<close> reads \<open>n\<close> bytes from the source.  A source pointer is
  \<open>None\<close> for \<open>nullptr\<close>, otherwise the bytes of the object it points to.  Reading through
  a null pointer or past the end of the object is undefined: \<open>None\<close>.
\<close>

definition memcpy_src :: "u8 list option \<Rightarrow> u64 \<Rightarrow> u8 list option" where
  "memcpy_src src n =
     (case src of
        None \<Rightarrow> None
      | Some bs \<Rightarrow> if unat n \<le> length bs then Some (take (unat n) bs) else None)"

text \<open>
  \<open>SubmitBufferToGPU(_gpuBuffer, _size, _data, _stateAfter)\<close>.  The result is the returned
  \<open>bool\<close> with the globals it leaves; \<open>None\<close> when the call has no defined result or
  never returns from \<open>WaitDeviceIdle\<close>.  The status that \<open>Map\<close> returns is dropped: when
  \<open>Map\<close> fails, \<open>data\<close> is still \<open>nullptr\<close> and \<open>std::memcpy\<close> writes through it, which is
  undefined.  The results of \<open>Close\<close> and of the two \<open>Reset\<close> calls are dropped as well.
\<close>

definition SubmitBufferToGPU ::
  "(nat \<Rightarrow> u64) \<Rightarrow> upload_env \<Rightarrow> resource \<Rightarrow> u64 \<Rightarrow> u8 list option \<Rightarrow>
     D3D12_RESOURCE_STATES \<Rightarrow> renderer \<Rightarrow> (bool \<times> renderer) option" where
  "SubmitBufferToGPU device_fence_at env gpuBuffer size0 src stateAfter st =
     (if FAILED_hrStagBufferCreated env size0
      then Some (False, st\<lparr>logged := logged st @ [''Create Staging Buffer failed!'']\<rparr>)
      else if hrMap_failed env then None
      else
        (case memcpy_src src size0 of
           None \<Rightarrow> None
         | Some bytes \<Rightarrow>
             let stagingBuffer = StagingBuffer (stagingId env);
                 st1 = st\<lparr>mapped := mapped st @ [(stagingBuffer, bytes)]\<rparr>;
                 st2 = st1\<lparr>cmdLists := (cmdLists st1)[0 := cmdLists st1 ! 0 @
                         [CopyBufferRegion gpuBuffer 0 stagingBuffer 0 size0,
                          ResourceBarrier gpuBuffer D3D12_RESOURCE_STATE_COPY_DEST stateAfter]]\<rparr>;
                 st3 = st2\<lparr>graphicsQueue := graphicsQueue st2 @ [ExecuteCommandLists (cmdLists st2 ! 0)]\<rparr>
             in (case WaitDeviceIdle device_fence_at st3 of
                   None \<Rightarrow> None
                 | Some st4 \<Rightarrow> Some (True, st4\<lparr>cmdLists := (cmdLists st4)[0 := []]\<rparr>))))"

text \<open>
  The copy loop of \<open>SubmitTextureToGPU\<close> (counter \<open>i\<close>, a \<open>UINT16\<close>, against
  \<open>resDesc.MipLevels\<close>), with the running \<open>offset\<close> and the commands recorded so far.
  \<open>_extents[i]\<close> outside the vector is undefined: \<open>None\<close>.  The three \<open>uint32_t\<close> factors
  of the increment are multiplied in 32 bits before they are added to the 64-bit offset.
\<close>

function copy_loop ::
  "nat \<Rightarrow> nat \<Rightarrow> resource \<Rightarrow> resource \<Rightarrow> Vec2ui list \<Rightarrow> u32 \<Rightarrow> u64 \<Rightarrow> command list \<Rightarrow>
     (u64 \<times> command list) option" where
  "copy_loop i n gpuTexture stagingBuffer extents channelNum offset cmds =
     (if i < n
      then if length extents \<le> i then None
        else copy_loop (Suc i) n gpuTexture stagingBuffer extents channelNum
               (offset + ucast (x_of (extents ! i) * y_of (extents ! i) * channelNum))
               (cmds @ [CopyTextureRegion gpuTexture (word_of_nat i) stagingBuffer offset
                          (x_of (extents ! i)) (y_of (extents ! i))
                          (x_of (extents ! i) * channelNum)])
      else Some (offset, cmds))"
  by pat_completeness auto
termination
  by (relation "measure (\<lambda>(i, n, rest). n - i)") auto

declare copy_loop.simps [simp del]

text \<open>
  \<open>SubmitTextureToGPU(_gpuTexture, _extents, _totalSize, _channelNum, _data, _stateAfter)\<close>;
  \<open>mipLevels\<close> is \<open>_gpuTexture->GetDesc().MipLevels\<close>.
\<close>

definition SubmitTextureToGPU ::
  "(nat \<Rightarrow> u64) \<Rightarrow> upload_env \<Rightarrow> resource \<Rightarrow> u16 \<Rightarrow> Vec2ui list \<Rightarrow> u64 \<Rightarrow> u32 \<Rightarrow>
     u8 list option \<Rightarrow> D3D12_RESOURCE_STATES \<Rightarrow> renderer \<Rightarrow> (bool \<times> renderer) option" where
  "SubmitTextureToGPU device_fence_at env gpuTexture mipLevels extents totalSize channelNum src
       stateAfter st =
     (if FAILED_hrStagBufferCreated env totalSize
      then Some (False, st\<lparr>logged := logged st @ [''Create Staging Buffer failed!'']\<rparr>)
      else if hrMap_failed env then None
      else
        (case memcpy_src src totalSize of
           None \<Rightarrow> None
         | Some bytes \<Rightarrow>
             let stagingBuffer = StagingBuffer (stagingId env);
                 st1 = st\<lparr>mapped := mapped st @ [(stagingBuffer, bytes)]\<rparr>
             in (case copy_loop 0 (unat mipLevels) gpuTexture stagingBuffer extents channelNum 0
                        (cmdLists st1 ! 0) of
                   None \<Rightarrow> None
                 | Some (offset, cmds) \<Rightarrow>
                     let st2 = st1\<lparr>cmdLists := (cmdLists st1)[0 := cmds @
                                 [ResourceBarrier gpuTexture D3D12_RESOURCE_STATE_COPY_DEST stateAfter]]\<rparr>;
                         st3 = st2\<lparr>graphicsQueue := graphicsQueue st2 @
                                 [ExecuteCommandLists (cmdLists st2 ! 0)]\<rparr>
                     in (case WaitDeviceIdle device_fence_at st3 of
                           None \<Rightarrow> None
                         | Some st4 \<Rightarrow> Some (True, st4\<lparr>cmdLists := (cmdLists st4)[0 := []]\<rparr>)))))"

section \<open>Loading a texture at startup\<close>

text \<open>
  What the "Albedo" block of \<open>main\<close> gets from outside: the result of \<open>stbi_load\<close> (\<open>None\<close>
  for a null result, otherwise width, height, channel count and the pixels it returned),
  whether \<open>CreateCommittedResource\<close> fails for the texture, and the answer to the upload.
\<close>

record texture_env =
  stbi_image :: "(u32 \<times> u32 \<times> u32 \<times> u8 list) option"
  hrBufferCreated_failed :: bool
  upload :: upload_env

definition D3D12_RESOURCE_STATE_PIXEL_SHADER_RESOURCE :: D3D12_RESOURCE_STATES where
  "D3D12_RESOURCE_STATE_PIXEL_SHADER_RESOURCE = 0x80"

text \<open>
  The "Albedo" block of the "Textures" part of \<open>main\<close>: \<open>stbi_load\<close>, the copy of
  \<open>width * height * channels\<close> bytes into \<open>data\<close>, \<open>GenerateMipMaps\<close> with \<open>totalSize = 0u\<close>
  and an empty \<open>mipExtents\<close>, the creation of the texture and \<open>SubmitTextureToGPU\<close>.
  \<open>GenerateMipMaps\<close> returns \<open>void\<close>: what it logged is all that is left of a failure in it.
  The result is \<open>Inl\<close> for \<open>return EXIT_FAILURE\<close> and \<open>Inr\<close> when \<open>main\<close> goes on.
\<close>

definition load_albedo_texture ::
  "resizer \<Rightarrow> (nat \<Rightarrow> u64) \<Rightarrow> texture_env \<Rightarrow> renderer \<Rightarrow> (exit + renderer) option" where
  "load_albedo_texture stbir device_fence_at env st =
     (case stbi_image env of
        None \<Rightarrow> Some (Inl (EXIT_FAILURE ''STBI Texture Loading failed''))
      | Some (width, height, channels, inData) \<Rightarrow>
          if length inData < unat width * unat height * unat channels then None
          else
            (case GenerateMipMaps stbir (Vec2ui width height)
                    (take (unat width * unat height * unat channels) inData) 0 [] channels 1 of
               None \<Rightarrow> None
             | Some r \<Rightarrow>
                 let st1 = st\<lparr>logged := logged st @ mipLog r\<rparr>
                 in if hrBufferCreated_failed env
                    then Some (Inl (EXIT_FAILURE ''Create RustedIron2 Albedo Texture failed!''))
                    else
                      (case SubmitTextureToGPU device_fence_at (upload env) (Texture 0)
                              (ucast (outMipLevels r)) (outExtents r) (ucast (outTotalSize r))
                              channels (Some (outData r))
                              D3D12_RESOURCE_STATE_PIXEL_SHADER_RESOURCE st1 of
                         None \<Rightarrow> None
                       | Some (ok, st2) \<Rightarrow>
                           if ok then Some (Inr st2)
                           else Some (Inl (EXIT_FAILURE ''RustedIron2 Albedo Texture submit failed!'')))))"

section \<open>The frame loop of the DirectX12 renderer\<close>

text \<open>
  What one iteration of \<open>while (!glfwWindowShouldClose(window))\<close> gets from outside: the
  time its "Inputs" and "Fixed Update" blocks take, the index that
  \<open>swapchain->GetCurrentBackBufferIndex()\<close> returns, the bytes of the camera constants it
  computes (floating point, not modelled), and whether \<open>SetEventOnCompletion\<close>, \<open>Present\<close>
  and \<open>Signal\<close> fail.
\<close>

record frame_env =
  elapsed :: nat
  backBufferIndex :: u32
  hrSetEvent_failed :: bool
  cameraUBO :: "u8 list"
  hrPresent_failed :: bool
  hrFenceSignal_failed :: bool

definition loop_inputs :: "frame_env \<Rightarrow> renderer \<Rightarrow> renderer" where
  "loop_inputs env st = st\<lparr>now := now st + elapsed env\<rparr>"

text \<open>
  The "Swapchain Begin" block.  \<open>prevFenceValue\<close> is read at the frame index of the previous
  iteration, \<open>currFenceValue\<close> at the new one.  The indices are those of a \<open>std::array\<close> of
  \<open>bufferingCount\<close> elements; DXGI returns an index below the buffer count.  \<open>None\<close>: the
  wait never returns.
\<close>

definition swapchain_begin :: "(nat \<Rightarrow> u64) \<Rightarrow> frame_env \<Rightarrow> renderer \<Rightarrow> (exit + renderer) option" where
  "swapchain_begin swapchain_fence_at env st =
     (let prevFenceValue = swapchainFenceValues st ! unat (swapchainFrameIndex st);
          st1 = st\<lparr>swapchainFrameIndex := backBufferIndex env\<rparr>;
          currFenceValue = swapchainFenceValues st1 ! unat (swapchainFrameIndex st1);
          set_next = (\<lambda>s. s\<lparr>swapchainFenceValues :=
                        (swapchainFenceValues s)[unat (swapchainFrameIndex s) := prevFenceValue + 1]\<rparr>)
      in if swapchain_fence_at (now st1) < ucast currFenceValue
         then if hrSetEvent_failed env
           then Some (Inl (EXIT_FAILURE ''Fence SetEventOnCompletion failed.''))
           else (case wait_fence swapchain_fence_at (ucast currFenceValue) (now st1) of
                   None \<Rightarrow> None
                 | Some t \<Rightarrow> Some (Inr (set_next (st1\<lparr>now := t\<rparr>))))
         else Some (Inr (set_next st1)))"

text \<open>The "Update camera" block: the CPU writes \<open>cameraBuffers[swapchainFrameIndex]\<close>.\<close>

definition update_camera :: "frame_env \<Rightarrow> renderer \<Rightarrow> renderer" where
  "update_camera env st =
     st\<lparr>mapped := mapped st @ [(CameraBuffer (unat (swapchainFrameIndex st)), cameraUBO env)]\<rparr>"

text \<open>The calls recorded for the frame with index \<open>i\<close>, in the order of the source.\<close>

definition frame_commands :: "u32 \<Rightarrow> command list" where
  "frame_commands i =
     [ResourceBarrier (SwapchainImage (unat i)) D3D12_RESOURCE_STATE_COMMON
        D3D12_RESOURCE_STATE_RENDER_TARGET,
      OMSetRenderTargets i,
      ClearRenderTargetView i,
      ClearDepthStencilView,
      RSSetViewports,
      RSSetScissorRects,
      SetDescriptorHeaps,
      SetGraphicsRootSignature,
      SetGraphicsRootConstantBufferView 0 (CameraBuffer (unat i)),
      SetGraphicsRootConstantBufferView 1 ObjectBuffer,
      SetGraphicsRootDescriptorTable 2 0,
      SetGraphicsRootDescriptorTable 3 1,
      SetPipelineState,
      IASetPrimitiveTopology,
      IASetVertexBuffers,
      IASetIndexBuffer,
      DrawIndexedInstanced,
      ResourceBarrier (SwapchainImage (unat i)) D3D12_RESOURCE_STATE_RENDER_TARGET
        D3D12_RESOURCE_STATE_PRESENT]"

text \<open>
  The "Register Commands" block: \<open>cmdAlloc->Reset(); cmd->Reset(...)\<close> empty the command
  list of the slot, the calls are recorded, \<open>cmd->Close()\<close>, and the list goes to the queue.
\<close>

definition register_commands :: "renderer \<Rightarrow> renderer" where
  "register_commands st =
     (let i = unat (swapchainFrameIndex st);
          st1 = st\<lparr>cmdLists := (cmdLists st)[i := []]\<rparr>;
          st2 = st1\<lparr>cmdLists := (cmdLists st1)[i := cmdLists st1 ! i @
                    frame_commands (swapchainFrameIndex st1)]\<rparr>
      in st2\<lparr>graphicsQueue := graphicsQueue st2 @ [ExecuteCommandLists (cmdLists st2 ! i)]\<rparr>)"

text \<open>The "Swapchain End" block: \<open>Present(1, 0)\<close>, then the \<open>Signal\<close> of the slot's value.\<close>

definition swapchain_end :: "frame_env \<Rightarrow> renderer \<Rightarrow> exit + renderer" where
  "swapchain_end env st =
     (if hrPresent_failed env then Inl (EXIT_FAILURE ''Swapchain Present failed'')
      else
        let st1 = st\<lparr>graphicsQueue := graphicsQueue st @ [Present 1 0]\<rparr>;
            currFenceValue = (ucast (swapchainFenceValues st1 ! unat (swapchainFrameIndex st1)) :: u64)
        in if hrFenceSignal_failed env then Inl (EXIT_FAILURE ''Swapchain Fence Signal failed'')
           else Inr (st1\<lparr>graphicsQueue := graphicsQueue st1 @ [Signal SwapchainFence currFenceValue]\<rparr>))"

text \<open>One iteration of the loop, and the iterations for a list of environments.\<close>

definition render_frame :: "(nat \<Rightarrow> u64) \<Rightarrow> frame_env \<Rightarrow> renderer \<Rightarrow> (exit + renderer) option" where
  "render_frame swapchain_fence_at env st =
     (case swapchain_begin swapchain_fence_at env (loop_inputs env st) of
        None \<Rightarrow> None
      | Some (Inl e) \<Rightarrow> Some (Inl e)
      | Some (Inr st1) \<Rightarrow> Some (swapchain_end env (register_commands (update_camera env st1))))"

fun run_frames :: "(nat \<Rightarrow> u64) \<Rightarrow> frame_env list \<Rightarrow> renderer \<Rightarrow> (exit + renderer) option" where
  "run_frames swapchain_fence_at [] st = Some (Inr st)"
| "run_frames swapchain_fence_at (env # envs) st =
     (case render_frame swapchain_fence_at env st of
        None \<Rightarrow> None
      | Some (Inl e) \<Rightarrow> Some (Inl e)
      | Some (Inr st') \<Rightarrow> run_frames swapchain_fence_at envs st')"

text \<open>The values that the queue has been asked to signal on the swapchain fence, in order.\<close>

fun swapchain_signals :: "queue_op list \<Rightarrow> u64 list" where
  "swapchain_signals [] = []"
| "swapchain_signals (Signal SwapchainFence v # ops) = v # swapchain_signals ops"
| "swapchain_signals (op # ops) = swapchain_signals ops"

text \<open>
  The presentation engine hands out the back buffers round-robin, starting at \<open>s\<close>: the
  \<open>m\<close>-th iteration (from 0) gets index \<open>(s + m) mod bufferingCount\<close>.
\<close>

definition round_robin :: "nat \<Rightarrow> frame_env list \<Rightarrow> bool" where
  "round_robin s envs =
     (map (\<lambda>env. unat (backBufferIndex env)) envs =
      map (\<lambda>m. (s + m) mod bufferingCount) [0..<length envs])"

text \<open>
  Iteration \<open>m\<close> of the list is the last one that rendered into the slot \<open>j\<close>.
\<close>

definition last_use :: "frame_env list \<Rightarrow> u32 \<Rightarrow> nat \<Rightarrow> bool" where
  "last_use envs j m \<longleftrightarrow>
     m < length envs \<and> backBufferIndex (envs ! m) = j \<and>
     (\<forall>m'. m < m' \<and> m' < length envs \<longrightarrow> backBufferIndex (envs ! m') \<noteq> j)"

text \<open>
  \<open>t'\<close> is the first tick from \<open>t\<close> on at which the fence has reached \<open>v\<close>.
\<close>

definition first_reached :: "(nat \<Rightarrow> u64) \<Rightarrow> u64 \<Rightarrow> nat \<Rightarrow> nat \<Rightarrow> bool" where
  "first_reached fence_at v t t' \<longleftrightarrow>
     t \<le> t' \<and> v \<le> fence_at t' \<and> (\<forall>u. t \<le> u \<and> u < t' \<longrightarrow> fence_at u < v)"

section \<open>The three main functions, call by call\<close>

text \<open>
  The repository holds three \<open>main\<close> functions: the Vulkan renderer and a second, earlier
  DirectX12 renderer (both in \<open>Sources/mainVK.cpp\<close>) and the DirectX12 renderer whose helpers
  and frame loop are modelled above.  Here a \<open>main\<close> is followed statement by statement as
  the sequence of calls it makes: calls of GLFW, Vulkan, DXGI, Direct3D 12, Win32, Assimp, stb
  and the logger, and of the helper functions of its file, whose bodies are followed in turn.
  A call is recorded, by the name of the function called, when it is a statement of its own or
  initialises a variable.  A call that only supplies an argument or a field of a description
  (\<open>Get()\<close>, \<open>GetGPUVirtualAddress()\<close>, \<open>GetBufferPointer()\<close>, \<open>glfwGetWin32Window(window)\<close>) is
  not recorded, nor are the constructors and members of the C++ library, and what the calls
  are given as data is left out.  Of the messages of \<open>SA_LOG\<close> those of level \<open>Error\<close> are
  kept, with the number that replaces \<open>%1\<close> in them.

  A run of \<open>main\<close> is the calls made so far, the errors logged so far, and how far it has got:
  it is running, it has returned a value, or it waits for a fence that the GPU never signals.
\<close>

datatype progress = Running | Exited int | Waiting

record run =
  calls :: "string list"
  errors :: "(string \<times> nat) list"
  progress :: progress

type_synonym stmt = "run \<Rightarrow> run"

definition run0 :: run where
  "run0 = \<lparr>calls = [], errors = [], progress = Running\<rparr>"

text \<open>
  The statements.  Once \<open>main\<close> has returned, or waits for ever, nothing more happens: every
  statement leaves such a run as it is.
\<close>

definition call :: "string \<Rightarrow> stmt" where
  "call f r = (if progress r = Running then r\<lparr>calls := calls r @ [f]\<rparr> else r)"

definition log_error :: "string \<Rightarrow> nat \<Rightarrow> stmt" where
  "log_error m i r = (if progress r = Running then r\<lparr>errors := errors r @ [(m, i)]\<rparr> else r)"

definition return_with :: "int \<Rightarrow> stmt" where
  "return_with code r = (if progress r = Running then r\<lparr>progress := Exited code\<rparr> else r)"

definition wait_for_ever :: stmt where
  "wait_for_ever r = (if progress r = Running then r\<lparr>progress := Waiting\<rparr> else r)"

primrec block :: "stmt list \<Rightarrow> stmt" where
  "block [] r = r"
| "block (s # ss) r = block ss (s r)"

definition if_then :: "bool \<Rightarrow> stmt \<Rightarrow> stmt" where
  "if_then c s r = (if c then s r else r)"

text \<open>\<open>for (uint32_t i = 0; i < n; ++i) body\<close>\<close>

definition for_each :: "nat \<Rightarrow> (nat \<Rightarrow> stmt) \<Rightarrow> stmt" where
  "for_each n body = block (map body [0..<n])"

text \<open>
  What the outside answers to a run.  \<open>fires m i\<close>: the check that logs the error \<open>m\<close> finds
  what it checks for (a failure code, a null pointer, a count of zero), in the iteration \<open>i\<close>
  when the check stands in a loop and with \<open>i = 0\<close> otherwise; where several checks log the
  same message, \<open>i\<close> numbers them.  The two conditions of the second renderer that log
  nothing go by their own text.  \<open>staging_fails b\<close>: the creation of the staging buffer fails
  in the upload to the resource \<open>b\<close>.  \<open>never_signalled b\<close>: the GPU never signals the device
  fence awaited at the end of that upload.  \<open>mip_levels t\<close>: the \<open>MipLevels\<close> of the texture \<open>t\<close>.
  \<open>SA_DEBUG\<close> is the macro of that name.
\<close>

record answers =
  SA_DEBUG :: bool
  fires :: "string \<Rightarrow> nat \<Rightarrow> bool"
  staging_fails :: "string \<Rightarrow> bool"
  never_signalled :: "string \<Rightarrow> bool"
  mip_levels :: "string \<Rightarrow> nat"

text \<open>
  \<open>if (check) { SA_LOG(m, Error, ...); return code; }\<close> after a call.  \<open>EXIT_FAILURE\<close> is 1
  and \<open>EXIT_SUCCESS\<close> is 0.
\<close>

definition return_if :: "('a answers_scheme) \<Rightarrow> string \<Rightarrow> nat \<Rightarrow> int \<Rightarrow> stmt" where
  "return_if env m i code = if_then (fires env m i) (block [log_error m i, return_with code])"

text \<open>\<open>if (check) { SA_LOG(m, Error, ...); }\<close>, after which \<open>main\<close> goes on.\<close>

definition log_if :: "('a answers_scheme) \<Rightarrow> string \<Rightarrow> nat \<Rightarrow> stmt" where
  "log_if env m i = if_then (fires env m i) (log_error m i)"

subsection \<open>The Vulkan renderer\<close>

text \<open>
  What the Vulkan renderer is told about a queue family and about a physical device: the
  \<open>queueFlags\<close>, whether \<open>vkGetPhysicalDeviceSurfaceSupportKHR\<close> fails and the \<open>presentSupport\<close>
  it writes; whether the two calls of \<open>vkEnumerateDeviceExtensionProperties\<close> fail, the names
  of the extensions and the queue families.
\<close>

record queue_family =
  queueFlags :: u32
  vrSupportKHR_failed :: bool
  presentSupport :: u32

record physical_device =
  vrEnumDeviceExtsCount_failed :: bool
  vrEnumDeviceExts_failed :: bool
  supportedExts :: "string list"
  queueFamilies :: "queue_family list"

record vulkan_answers = answers +
  availableLayers :: "string list"
  physicalDevices :: "physical_device list"

definition validationLayers :: "string list" where
  "validationLayers = [''VK_LAYER_KHRONOS_validation'']"

definition vkDeviceReqExts :: "string list" where
  "vkDeviceReqExts = [''VK_KHR_swapchain'']"

definition VK_QUEUE_GRAPHICS_BIT :: u32 where
  "VK_QUEUE_GRAPHICS_BIT = 1"

definition VK_SUCCESS :: u32 where
  "VK_SUCCESS = 0"

text \<open>The "GLFW" block.\<close>

definition vulkan_GLFW :: "vulkan_answers \<Rightarrow> stmt" where
  "vulkan_GLFW env =
     block [call ''glfwSetErrorCallback'',
            call ''glfwInit'',
            call ''glfwWindowHint'',
            call ''glfwCreateWindow'',
            return_if env ''GLFW create window failed!'' 0 1,
            call ''glfwSetInputMode'',
            call ''glfwGetRequiredInstanceExtensions'']"

text \<open>
  The "Instance" block.  With \<open>SA_DEBUG\<close> it first looks for every validation layer among
  the available ones.
\<close>

definition vulkan_Instance :: "vulkan_answers \<Rightarrow> stmt" where
  "vulkan_Instance env =
     block [if_then (SA_DEBUG env)
              (block [call ''vkEnumerateInstanceLayerProperties'',
                      call ''vkEnumerateInstanceLayerProperties'',
                      for_each (length validationLayers)
                        (\<lambda>i. if_then (validationLayers ! i \<notin> set (availableLayers env))
                               (block [log_error ''Validation Layers [%1] not supported!'' i,
                                       return_with 1]))]),
            call ''vkCreateInstance'',
            return_if env ''Create VkInstance failed!'' 0 1]"

definition vulkan_Surface :: "vulkan_answers \<Rightarrow> stmt" where
  "vulkan_Surface env =
     block [call ''glfwCreateWindowSurface'',
            return_if env ''Create Window Surafce failed!'' 0 1]"

text \<open>
  The loop over the queue families of one physical device, with the counter \<open>i\<close> and the
  graphics and present family found so far (\<open>uint32_t(-1)\<close> for none).  The present family
  is taken where \<open>presentSupport == VK_SUCCESS\<close>, as the source has it.  A failure of
  \<open>vkGetPhysicalDeviceSurfaceSupportKHR\<close> makes \<open>main\<close> return \<open>EXIT_SUCCESS\<close>.
\<close>

fun find_queue_families :: "queue_family list \<Rightarrow> nat \<Rightarrow> u32 \<times> u32 \<Rightarrow> run \<Rightarrow> (u32 \<times> u32) \<times> run" where
  "find_queue_families [] i (graphicsFamily, presentFamily) r = ((graphicsFamily, presentFamily), r)"
| "find_queue_families (q # qs) i (graphicsFamily, presentFamily) r =
     (let graphicsFamily' =
            (if graphicsFamily = - 1 \<and> queueFlags q AND VK_QUEUE_GRAPHICS_BIT \<noteq> 0
             then word_of_nat i else graphicsFamily)
      in if presentFamily = - 1
         then let r1 = call ''vkGetPhysicalDeviceSurfaceSupportKHR'' r
              in if vrSupportKHR_failed q
                 then ((graphicsFamily', presentFamily),
                       block [log_error ''Physical Device Surface Support failed.'' 0,
                              return_with 0] r1)
                 else find_queue_families qs (Suc i)
                        (graphicsFamily',
                         if presentSupport q = VK_SUCCESS then word_of_nat i else presentFamily) r1
         else find_queue_families qs (Suc i) (graphicsFamily', presentFamily) r)"

text \<open>
  The loop over the physical devices ("Find first suitable device"): \<open>continue\<close> goes to the
  next device, \<open>break\<close> ends the loop with the device found.  The result is the number of the
  device chosen, if any, and \<open>None\<close> stands for \<open>physicalDevice == VK_NULL_HANDLE\<close>.
\<close>

fun select_physical_device :: "physical_device list \<Rightarrow> nat \<Rightarrow> run \<Rightarrow> nat option \<times> run" where
  "select_physical_device [] k r = (None, r)"
| "select_physical_device (d # ds) k r =
     (let r1 = call ''vkEnumerateDeviceExtensionProperties'' r
      in if vrEnumDeviceExtsCount_failed d
         then (None, block [log_error ''Enumerate Devices extensions count failed!'' 0,
                            return_with 1] r1)
         else
           let r2 = call ''vkEnumerateDeviceExtensionProperties'' r1
           in if vrEnumDeviceExts_failed d
              then (None, block [log_error ''Enumerate Devices extensions failed!'' 0,
                                 return_with 1] r2)
              else if \<not> list_all (\<lambda>reqExt. reqExt \<in> set (supportedExts d)) vkDeviceReqExts
              then select_physical_device ds (Suc k) r2
              else
                let r3 = block [call ''vkGetPhysicalDeviceQueueFamilyProperties'',
                                call ''vkGetPhysicalDeviceQueueFamilyProperties''] r2;
                    (families, r4) = find_queue_families (queueFamilies d) 0 (- 1, - 1) r3
                in if progress r4 \<noteq> Running then (None, r4)
                   else if fst families = - 1 \<or> snd families = - 1
                   then select_physical_device ds (Suc k) r4
                   else (Some k, r4))"

definition vulkan_select_device :: "vulkan_answers \<Rightarrow> stmt" where
  "vulkan_select_device env r =
     (case select_physical_device (physicalDevices env) 0 r of
        (None, r') \<Rightarrow> block [log_error ''No suitable PhysicalDevice found.'' 0, return_with 1] r'
      | (Some k, r') \<Rightarrow> r')"

text \<open>The "Device" block; \<open>deviceCount == 0\<close> is an empty list of physical devices.\<close>

definition vulkan_Device :: "vulkan_answers \<Rightarrow> stmt" where
  "vulkan_Device env =
     block [call ''vkEnumeratePhysicalDevices'',
            return_if env ''Enumerate Physical Devices Count failed!'' 0 1,
            if_then (physicalDevices env = [])
              (block [log_error ''No GPU with Vulkan support found!'' 0, return_with 1]),
            call ''vkEnumeratePhysicalDevices'',
            return_if env ''Enumerate Physical Devices failed!'' 0 1,
            vulkan_select_device env,
            call ''vkCreateDevice'',
            return_if env ''Create Logical Device failed.'' 0 1,
            call ''vkGetDeviceQueue'',
            call ''vkGetDeviceQueue'']"

definition vulkan_Swapchain :: "vulkan_answers \<Rightarrow> stmt" where
  "vulkan_Swapchain env =
     block [call ''vkGetPhysicalDeviceSurfaceCapabilitiesKHR'',
            return_if env ''Get Physical Device Surface Capabilities failed!'' 0 1,
            call ''vkGetPhysicalDeviceSurfaceFormatsKHR'',
            return_if env ''Get Physical Device Surface Formats Count failed!'' 0 1,
            return_if env ''No physical device surface formats found!'' 0 1,
            call ''vkGetPhysicalDeviceSurfaceFormatsKHR'',
            return_if env ''Get Physical Device Surface Formats failed!'' 0 1,
            call ''vkGetPhysicalDeviceSurfacePresentModesKHR'',
            return_if env ''Get Physical Device Surface PresentModes Count failed!'' 0 1,
            return_if env ''No physical device present modes found!'' 0 1,
            call ''vkGetPhysicalDeviceSurfacePresentModesKHR'',
            return_if env ''Get Physical Device Surface present modes failed!'' 0 1,
            call ''vkCreateSwapchainKHR'',
            return_if env ''Create Swapchain failed!'' 0 1,
            call ''vkGetSwapchainImagesKHR'',
            return_if env ''Get Swapchain Images failed!'' 0 1,
            for_each bufferingCount
              (\<lambda>i. block [call ''vkCreateImageView'',
                          return_if env ''Create Swapchain ImageView failed!'' i 1]),
            for_each bufferingCount
              (\<lambda>i. block [call ''vkCreateSemaphore'',
                          return_if env ''Create Swapchain Acquire Semaphore [%1] failed!'' i 1,
                          call ''vkCreateSemaphore'',
                          return_if env ''Create Swapchain Present Semaphore [%1] failed!'' i 1,
                          call ''vkCreateFence'',
                          return_if env ''Create Swapchain Fence [%1] failed!'' i 1])]"

definition vulkan_Commands :: "vulkan_answers \<Rightarrow> stmt" where
  "vulkan_Commands env =
     block [call ''vkCreateCommandPool'',
            return_if env ''Create Command Pool failed!'' 0 1,
            call ''vkAllocateCommandBuffers'',
            return_if env ''Allocate Command buffers failed!'' 0 1]"

text \<open>
  \<open>FindMemoryType\<close>, a helper of the file: it asks for the memory properties and logs an
  error when no memory type suits; its result is not checked.
\<close>

definition FindMemoryType :: "vulkan_answers \<Rightarrow> stmt" where
  "FindMemoryType env =
     block [call ''vkGetPhysicalDeviceMemoryProperties'',
            log_if env ''Failed to find suitable memory type!'' 0]"

text \<open>The "Scene Resources" block: the depth image, its memory and its view.\<close>

definition vulkan_Scene_Resources :: "vulkan_answers \<Rightarrow> stmt" where
  "vulkan_Scene_Resources env =
     block [call ''vkCreateImage'',
            return_if env ''Create Scene Depth Image failed!'' 0 1,
            call ''vkGetImageMemoryRequirements'',
            FindMemoryType env,
            call ''vkAllocateMemory'',
            return_if env ''Create Scene Depth Image Memory failed!'' 0 1,
            call ''vkBindImageMemory'',
            return_if env ''Bind Scene Depth Image Memory failed!'' 0 1,
            call ''vkCreateImageView'',
            return_if env ''Create Scene Depth Image View failed!'' 0 1]"

definition vulkan_Render_Pass :: "vulkan_answers \<Rightarrow> stmt" where
  "vulkan_Render_Pass env =
     block [call ''vkCreateRenderPass'',
            return_if env ''Create RenderPass failed!'' 0 1]"

definition vulkan_Framebuffers :: "vulkan_answers \<Rightarrow> stmt" where
  "vulkan_Framebuffers env =
     for_each bufferingCount
       (\<lambda>i. block [call ''vkCreateFramebuffer'',
                   return_if env ''Create FrameBuffer [%1] failed!'' i 1])"

definition vulkan_DescriptorSet :: "vulkan_answers \<Rightarrow> stmt" where
  "vulkan_DescriptorSet env =
     block [call ''vkCreateDescriptorSetLayout'',
            return_if env ''Create Lit DescriptorSet Layout failed!'' 0 1]"

text \<open>
  \<open>CompileShaderFromFile\<close>, a helper of the file, for the shader number \<open>i\<close>: it returns
  \<open>false\<close> when the file does not open, and otherwise compiles; \<open>main\<close> drops its result.
\<close>

definition CompileShaderFromFile :: "vulkan_answers \<Rightarrow> nat \<Rightarrow> stmt" where
  "CompileShaderFromFile env i r =
     (if fires env ''Failed to open shader file {%1}'' i
      then log_error ''Failed to open shader file {%1}'' i r
      else block [call ''CompileGlslToSpv'',
                  log_if env ''Compile Shader {%1} failed!'' i] r)"

definition vulkan_Pipeline :: "vulkan_answers \<Rightarrow> stmt" where
  "vulkan_Pipeline env =
     block [call ''vkCreatePipelineLayout'',
            return_if env ''Create Lit Pipeline Layout failed!'' 0 1,
            CompileShaderFromFile env 0,
            call ''vkCreateShaderModule'',
            return_if env ''Create Lit Vertex Shader failed!'' 0 1,
            CompileShaderFromFile env 1,
            call ''vkCreateShaderModule'',
            return_if env ''Create Lit Fragment Shader failed!'' 0 1,
            call ''vkCreateGraphicsPipelines'',
            return_if env ''Create Lit Pipeline failed!'' 0 1]"

text \<open>The "Initialization" block of the Vulkan renderer.\<close>

definition vulkan_Initialization :: "vulkan_answers \<Rightarrow> stmt" where
  "vulkan_Initialization env =
     block [call ''SA::Debug::InitDefaultLogger'',
            vulkan_GLFW env,
            vulkan_Instance env,
            vulkan_Surface env,
            vulkan_Device env,
            vulkan_Swapchain env,
            vulkan_Commands env,
            vulkan_Scene_Resources env,
            vulkan_Render_Pass env,
            vulkan_Framebuffers env,
            vulkan_DescriptorSet env,
            vulkan_Pipeline env]"

text \<open>The "Loop" block of the Vulkan renderer is \<open>{ }\<close>: it has no statement.\<close>

definition vulkan_Loop :: stmt where
  "vulkan_Loop = block []"

text \<open>The "Uninitialization" block of the Vulkan renderer.\<close>

definition vulkan_Uninitialization :: stmt where
  "vulkan_Uninitialization =
     block [call ''vkDestroyPipeline'',
            call ''vkDestroyShaderModule'',
            call ''vkDestroyShaderModule'',
            call ''vkDestroyPipelineLayout'',
            call ''vkDestroyDescriptorSetLayout'',
            for_each bufferingCount (\<lambda>i. call ''vkDestroyFramebuffer''),
            call ''vkDestroyRenderPass'',
            call ''vkDestroyImageView'',
            call ''vkFreeMemory'',
            call ''vkDestroyImage'',
            call ''vkFreeCommandBuffers'',
            call ''vkDestroyCommandPool'',
            for_each bufferingCount
              (\<lambda>i. block [call ''vkDestroySemaphore'',
                          call ''vkDestroySemaphore'',
                          call ''vkDestroyFence'']),
            for_each bufferingCount (\<lambda>i. call ''vkDestroyImageView''),
            call ''vkDestroySwapchainKHR'',
            call ''vkDestroyDevice'',
            call ''vkDestroySurfaceKHR'',
            call ''vkDestroyInstance'',
            call ''glfwDestroyWindow'',
            call ''glfwTerminate'']"

text \<open>\<open>main\<close> of the Vulkan renderer, from its first statement to \<open>return 0\<close>.\<close>

definition vulkan_main :: "vulkan_answers \<Rightarrow> run" where
  "vulkan_main env =
     block [vulkan_Initialization env, vulkan_Loop, vulkan_Uninitialization, return_with 0] run0"

subsection \<open>The helpers of the DirectX12 renderers, call by call\<close>

text \<open>
  \<open>WaitDeviceIdle\<close> for the upload to the resource \<open>b\<close>: the wait with \<open>INFINITE\<close> returns
  unless the GPU never signals the fence.
\<close>

definition WaitDeviceIdle_calls :: "('a answers_scheme) \<Rightarrow> string \<Rightarrow> stmt" where
  "WaitDeviceIdle_calls env b =
     block [call ''Signal'',
            call ''SetEventOnCompletion'',
            call ''WaitForSingleObjectEx'',
            if_then (never_signalled env b) wait_for_ever]"

text \<open>
  \<open>SubmitBufferToGPU(b, ...)\<close> of the DirectX12 renderer, with the \<open>bool\<close> it returns.
\<close>

definition SubmitBufferToGPU_calls :: "('a answers_scheme) \<Rightarrow> string \<Rightarrow> run \<Rightarrow> bool \<times> run" where
  "SubmitBufferToGPU_calls env b r =
     (let r1 = call ''CreateCommittedResource'' r
      in if staging_fails env b
         then (False, log_error ''Create Staging Buffer failed!'' 0 r1)
         else (True, block [call ''Map'',
                            call ''std::memcpy'',
                            call ''Unmap'',
                            call ''CopyBufferRegion'',
                            call ''ResourceBarrier'',
                            call ''Close'',
                            call ''ExecuteCommandLists'',
                            WaitDeviceIdle_calls env b,
                            call ''Reset'',
                            call ''Reset''] r1))"

text \<open>
  \<open>SubmitTextureToGPU(t, ...)\<close> of the DirectX12 renderer: one \<open>CopyTextureRegion\<close> for each of
  the \<open>MipLevels\<close> of the texture.
\<close>

definition SubmitTextureToGPU_calls :: "('a answers_scheme) \<Rightarrow> string \<Rightarrow> run \<Rightarrow> bool \<times> run" where
  "SubmitTextureToGPU_calls env t r =
     (let r1 = call ''CreateCommittedResource'' r
      in if staging_fails env t
         then (False, log_error ''Create Staging Buffer failed!'' 0 r1)
         else (True, block [call ''Map'',
                            call ''std::memcpy'',
                            call ''Unmap'',
                            call ''GetDesc'',
                            for_each (mip_levels env t) (\<lambda>i. call ''CopyTextureRegion''),
                            call ''ResourceBarrier'',
                            call ''Close'',
                            call ''ExecuteCommandLists'',
                            WaitDeviceIdle_calls env t,
                            call ''Reset'',
                            call ''Reset''] r1))"

text \<open>
  \<open>const bool bSubmitSuccess = helper(...); if (!bSubmitSuccess) { SA_LOG(m, Error, ...);
  return EXIT_FAILURE; }\<close>
\<close>

definition submit_checked :: "(run \<Rightarrow> bool \<times> run) \<Rightarrow> string \<Rightarrow> stmt" where
  "submit_checked helper m r =
     (case helper r of
        (bSubmitSuccess, r') \<Rightarrow>
          if_then (\<not> bSubmitSuccess) (block [log_error m 0, return_with 1]) r')"

subsection \<open>The DirectX12 renderer\<close>

definition dx12_GLFW :: "answers \<Rightarrow> stmt" where
  "dx12_GLFW env =
     block [call ''glfwSetErrorCallback'',
            call ''glfwInit'',
            call ''glfwWindowHint'',
            call ''glfwCreateWindow'',
            return_if env ''GLFW create window failed!'' 0 1,
            call ''glfwSetInputMode'']"

text \<open>
  The "Factory" block.  With \<open>SA_DEBUG\<close> it asks for the debug interface and enables the
  debug layer when it gets one.
\<close>

definition dx12_Factory :: "answers \<Rightarrow> stmt" where
  "dx12_Factory env =
     block [if_then (SA_DEBUG env)
              (block [call ''D3D12GetDebugInterface'',
                      if_then (\<not> fires env ''Validation layer initialization failed.'' 0)
                        (block [call ''EnableDebugLayer'', call ''SetEnableGPUBasedValidation'']),
                      log_if env ''Validation layer initialization failed.'' 0]),
            call ''CreateDXGIFactory2'',
            return_if env ''Create Factory failed!'' 0 1]"

definition dx12_Device :: "answers \<Rightarrow> stmt" where
  "dx12_Device env =
     block [call ''EnumAdapterByGpuPreference'',
            return_if env ''Physical Device not found!'' 0 1,
            call ''D3D12CreateDevice'',
            return_if env ''Create Device failed!'' 0 1,
            if_then (SA_DEBUG env)
              (block [call ''QueryInterface'',
                      if_then (\<not> fires env
                                 ''Device query info queue to enable validation layers failed.'' 0)
                        (block [call ''RegisterMessageCallback'',
                                call ''SetBreakOnSeverity'',
                                call ''SetBreakOnSeverity'',
                                call ''SetBreakOnSeverity'']),
                      log_if env ''Device query info queue to enable validation layers failed.'' 0]),
            call ''CreateCommandQueue'',
            return_if env ''Create Graphics Queue failed!'' 0 1,
            call ''CreateEvent'',
            return_if env ''Create Device Fence Event failed!'' 0 1,
            call ''CreateFence'',
            return_if env ''Create Device Fence failed!'' 0 1]"

definition dx12_Swapchain :: "answers \<Rightarrow> stmt" where
  "dx12_Swapchain env =
     block [call ''CreateSwapChainForHwnd'',
            return_if env ''Create Swapchain failed!'' 0 1,
            call ''As'',
            return_if env ''Swapchain cast failed!'' 0 1,
            call ''CreateEvent'',
            return_if env ''Create Swapchain Fence Event failed!'' 0 1,
            call ''CreateFence'',
            return_if env ''Create Swapchain Fence failed!'' 0 1,
            for_each bufferingCount
              (\<lambda>i. block [call ''GetBuffer'',
                          return_if env ''Get Swapchain Buffer [%1] failed!'' i 1])]"

definition dx12_Commands :: "answers \<Rightarrow> stmt" where
  "dx12_Commands env =
     for_each bufferingCount
       (\<lambda>i. block [call ''CreateCommandAllocator'',
                   return_if env ''Create Command Allocator [%1] failed!'' i 1,
                   call ''CreateCommandList'',
                   return_if env ''Create Command List [%1] failed!'' i 1,
                   call ''Close''])"

text \<open>
  The "Scene Resources" block: the descriptor heaps, the render target views and the depth
  texture.
\<close>

definition dx12_Scene_Resources :: "answers \<Rightarrow> stmt" where
  "dx12_Scene_Resources env =
     block [call ''CreateDescriptorHeap'',
            return_if env ''Create RenderTarget ViewHeap failed.'' 0 1,
            call ''GetCPUDescriptorHandleForHeapStart'',
            call ''GetDescriptorHandleIncrementSize'',
            for_each bufferingCount (\<lambda>i. call ''CreateRenderTargetView''),
            call ''CreateCommittedResource'',
            return_if env ''Create Scene Depth Texture failed.'' 0 1,
            call ''CreateDescriptorHeap'',
            return_if env ''Create Depth ViewHeap failed.'' 0 1,
            call ''CreateDepthStencilView'',
            call ''CreateDescriptorHeap'',
            return_if env ''Create SRV ViewHeap failed.'' 0 1]"

definition dx12_Pipeline :: "answers \<Rightarrow> stmt" where
  "dx12_Pipeline env =
     block [call ''D3D12SerializeVersionedRootSignature'',
            return_if env ''Serialized Lit RootSignature failed.'' 0 1,
            call ''CreateRootSignature'',
            return_if env ''Create Lit RootSignature failed.'' 0 1,
            call ''D3DCompileFromFile'',
            return_if env ''Shader {LitShader.hlsl, mainVS} compilation failed.'' 0 1,
            call ''D3DCompileFromFile'',
            return_if env ''Shader {LitShader.hlsl, mainPS} compilation failed.'' 0 1,
            call ''CreateGraphicsPipelineState'',
            return_if env ''Create Lit PipelineState failed.'' 0 1]"

text \<open>
  One buffer of the "Meshes" block, and likewise the object buffer and the point light
  buffer: the buffer \<open>b\<close> is created, then filled through \<open>SubmitBufferToGPU\<close>.
\<close>

definition dx12_buffer :: "answers \<Rightarrow> string \<Rightarrow> string \<Rightarrow> string \<Rightarrow> stmt" where
  "dx12_buffer env b create_failed submit_failed =
     block [call ''CreateCommittedResource'',
            return_if env create_failed 0 1,
            submit_checked (SubmitBufferToGPU_calls env b) submit_failed]"

text \<open>
  One texture of the "Textures" block, the \<open>k\<close>-th: the image is loaded, its mip chain is
  generated by \<open>GenerateMipMaps\<close>, the texture \<open>t\<close> is created and filled through
  \<open>SubmitTextureToGPU\<close>, and its view is created.  \<open>GenerateMipMaps\<close>, which calls nothing but
  the image resizer, is recorded as one call; its result is \<open>void\<close> and the error it may log
  is all that \<open>main\<close> gets of a failure in it.
\<close>

definition dx12_texture :: "answers \<Rightarrow> nat \<Rightarrow> string \<Rightarrow> string \<Rightarrow> string \<Rightarrow> stmt" where
  "dx12_texture env k t create_failed submit_failed =
     block [call ''stbi_load'',
            return_if env ''STBI Texture Loading failed'' k 1,
            call ''GenerateMipMaps'',
            log_if env ''Mip map creation failed!'' k,
            call ''CreateCommittedResource'',
            return_if env create_failed 0 1,
            submit_checked (SubmitTextureToGPU_calls env t) submit_failed,
            call ''stbi_image_free'',
            call ''CreateShaderResourceView'']"

text \<open>The "Resources" block.\<close>

definition dx12_Resources :: "answers \<Rightarrow> stmt" where
  "dx12_Resources env =
     block [call ''Reset'',
            call ''ReadFile'',
            return_if env ''Assimp loading failed!'' 0 1,
            dx12_buffer env ''sphereVertexBuffers[0]''
              ''Create Sphere Vertex Position Buffer failed!''
              ''Sphere Vertex Position Buffer submit failed!'',
            dx12_buffer env ''sphereVertexBuffers[1]''
              ''Create Sphere Vertex Normal Buffer failed!''
              ''Sphere Vertex Normal Buffer submit failed!'',
            dx12_buffer env ''sphereVertexBuffers[2]''
              ''Create Sphere Vertex Tangent Buffer failed!''
              ''Sphere Vertex Tangent Buffer submit failed!'',
            dx12_buffer env ''sphereVertexBuffers[3]''
              ''Create Sphere Vertex UV Buffer failed!''
              ''Sphere Vertex UV Buffer submit failed!'',
            dx12_buffer env ''sphereIndexBuffer''
              ''Create Sphere Index Buffer failed!''
              ''Sphere Index Buffer submit failed!'',
            call ''stbi_set_flip_vertically_on_load'',
            call ''GetDescriptorHandleIncrementSize'',
            call ''GetCPUDescriptorHandleForHeapStart'',
            dx12_texture env 0 ''rustedIron2AlbedoTexture''
              ''Create RustedIron2 Albedo Texture failed!''
              ''RustedIron2 Albedo Texture submit failed!'',
            dx12_texture env 1 ''rustedIron2NormalTexture''
              ''Create RustedIron2 Normal Texture failed!''
              ''RustedIron2 Normal Texture submit failed!'',
            dx12_texture env 2 ''rustedIron2MetallicTexture''
              ''Create RustedIron2 Metallic Texture failed!''
              ''RustedIron2 Metallic Texture submit failed!'',
            dx12_texture env 3 ''rustedIron2RoughnessTexture''
              ''Create RustedIron2 Roughness Texture failed!''
              ''RustedIron2 Roughness Texture submit failed!'',
            for_each bufferingCount
              (\<lambda>i. block [call ''CreateCommittedResource'',
                          return_if env ''Create Camera Buffer failed!'' i 1]),
            dx12_buffer env ''objectBuffer''
              ''Create Sphere Object Buffer failed!''
              ''Sphere Object Buffer submit failed!'',
            dx12_buffer env ''pointLightBuffer''
              ''Create PointLight Buffer failed!''
              ''Sphere PointLight submit failed!'',
            call ''GetCPUDescriptorHandleForHeapStart'',
            call ''CreateShaderResourceView'',
            call ''Close'']"

text \<open>The "Initialization" block of the DirectX12 renderer.\<close>

definition dx12_Initialization :: "answers \<Rightarrow> stmt" where
  "dx12_Initialization env =
     block [call ''SA::Debug::InitDefaultLogger'',
            dx12_GLFW env,
            dx12_Factory env,
            dx12_Device env,
            dx12_Swapchain env,
            dx12_Commands env,
            dx12_Scene_Resources env,
            dx12_Pipeline env,
            dx12_Resources env]"

subsection \<open>The second DirectX12 renderer\<close>

text \<open>
  The second DirectX12 renderer is an earlier state of the first.  Its \<open>SubmitBufferToGPU\<close>
  returns nothing (its \<open>return 1;\<close> after the failed creation of the staging buffer only
  leaves the helper), waits on the device fence itself, and \<open>main\<close> does not look at what it
  did.
\<close>

definition second_SubmitBufferToGPU :: "answers \<Rightarrow> string \<Rightarrow> stmt" where
  "second_SubmitBufferToGPU env b r =
     (let r1 = call ''CreateCommittedResource'' r
      in if staging_fails env b
         then log_error ''Create Staging Buffer failed!'' 0 r1
         else block [call ''Map'',
                     call ''std::memcpy'',
                     call ''Unmap'',
                     call ''CopyBufferRegion'',
                     call ''ResourceBarrier'',
                     call ''Close'',
                     call ''ExecuteCommandLists'',
                     call ''Signal'',
                     call ''SetEventOnCompletion'',
                     call ''WaitForSingleObject'',
                     if_then (never_signalled env b) wait_for_ever,
                     call ''Reset'',
                     call ''Reset''] r1)"

definition second_GLFW :: "answers \<Rightarrow> stmt" where
  "second_GLFW env =
     block [call ''glfwSetErrorCallback'',
            call ''glfwInit'',
            call ''glfwWindowHint'',
            call ''glfwCreateWindow'',
            return_if env ''GLFW create window failed!'' 0 1,
            call ''glfwSetInputMode'']"

definition second_Factory :: "answers \<Rightarrow> stmt" where
  "second_Factory env =
     block [if_then (SA_DEBUG env)
              (block [call ''D3D12GetDebugInterface'',
                      if_then (\<not> fires env ''Validation layer initialization failed.'' 0)
                        (block [call ''EnableDebugLayer'', call ''SetEnableGPUBasedValidation'']),
                      log_if env ''Validation layer initialization failed.'' 0]),
            call ''CreateDXGIFactory2'',
            return_if env ''Create Factory failed!'' 0 1]"

text \<open>
  The "Device" block.  When no adapter is found or the device is not created, this \<open>main\<close>
  returns 0.
\<close>

definition second_Device :: "answers \<Rightarrow> stmt" where
  "second_Device env =
     block [call ''EnumAdapterByGpuPreference'',
            return_if env ''Physical Device not found!'' 0 0,
            call ''D3D12CreateDevice'',
            return_if env ''Create Device failed!'' 0 0,
            if_then (SA_DEBUG env)
              (block [call ''QueryInterface'',
                      if_then (\<not> fires env
                                 ''Device query info queue to enable validation layers failed.'' 0)
                        (block [call ''RegisterMessageCallback'',
                                call ''SetBreakOnSeverity'',
                                call ''SetBreakOnSeverity'',
                                call ''SetBreakOnSeverity'']),
                      log_if env ''Device query info queue to enable validation layers failed.'' 0]),
            call ''CreateCommandQueue'',
            return_if env ''Create Graphics Queue failed!'' 0 1]"

definition second_Swapchain :: "answers \<Rightarrow> stmt" where
  "second_Swapchain env =
     block [call ''CreateSwapChainForHwnd'',
            return_if env ''Create Swapchain failed!'' 0 1,
            call ''As'',
            return_if env ''Swapchain cast failed!'' 0 1,
            call ''CreateEvent'',
            return_if env ''Create Swapchain Fence Event failed!'' 0 1,
            call ''CreateFence'',
            return_if env ''Create Swapchain Fence failed!'' 0 1,
            for_each bufferingCount
              (\<lambda>i. block [call ''GetBuffer'',
                          return_if env ''Get Swapchain Buffer [%1] failed!'' i 1])]"

definition second_Commands :: "answers \<Rightarrow> stmt" where
  "second_Commands env =
     for_each bufferingCount
       (\<lambda>i. block [call ''CreateCommandAllocator'',
                   return_if env ''Create Command Allocator [%1] failed!'' i 1,
                   call ''CreateCommandList'',
                   return_if env ''Create Command List [%1] failed!'' i 1,
                   call ''Close''])"

definition second_buffer :: "answers \<Rightarrow> string \<Rightarrow> string \<Rightarrow> stmt" where
  "second_buffer env b create_failed =
     block [call ''CreateCommittedResource'',
            return_if env create_failed 0 1,
            second_SubmitBufferToGPU env b]"

text \<open>
  One texture of the second renderer.  It calls a \<open>SubmitTextureToGPU\<close> of seven arguments
  that this state of the file does not define: the call is recorded and nothing is known of
  what it does.
\<close>

definition second_texture :: "answers \<Rightarrow> nat \<Rightarrow> string \<Rightarrow> stmt" where
  "second_texture env k create_failed =
     block [call ''stbi_load'',
            return_if env ''STBI Texture Loading failed'' k 1,
            call ''CreateCommittedResource'',
            return_if env create_failed 0 1,
            call ''SubmitTextureToGPU'',
            call ''stbi_image_free'']"

definition second_Resources :: "answers \<Rightarrow> stmt" where
  "second_Resources env =
     block [call ''Reset'',
            call ''ReadFile'',
            return_if env ''Assimp loading failed!'' 0 1,
            second_buffer env ''sphereVertexBuffers[0]'' ''Create Sphere Vertex Buffer failed!'',
            second_buffer env ''sphereVertexBuffers[1]'' ''Create Sphere Normal Buffer failed!'',
            second_buffer env ''sphereVertexBuffers[2]'' ''Create Sphere Tangent Buffer failed!'',
            second_buffer env ''sphereVertexBuffers[3]'' ''Create Sphere UV Buffer failed!'',
            second_buffer env ''sphereIndexBuffer'' ''Create Sphere Index Buffer failed!'',
            call ''stbi_set_flip_vertically_on_load'',
            second_texture env 0 ''Create RustedIron2 Albedo Texture failed!'',
            second_texture env 1 ''Create RustedIron2 Normal Texture failed!'',
            second_texture env 2 ''Create RustedIron2 Metallic Texture failed!'',
            second_texture env 3 ''Create RustedIron2 Roughness Texture failed!'',
            call ''Close'']"

text \<open>The "Initialization" block of the second DirectX12 renderer.\<close>

definition second_Initialization :: "answers \<Rightarrow> stmt" where
  "second_Initialization env =
     block [call ''SA::Debug::InitDefaultLogger'',
            second_GLFW env,
            second_Factory env,
            second_Device env,
            second_Swapchain env,
            second_Commands env,
            second_Resources env]"

text \<open>
  The "Loop" block of the second DirectX12 renderer.  What an iteration gets from outside is
  whether the user asks to close the window, which \<open>glfwPollEvents\<close> notes in the window's
  close flag, and whether the Escape key is down.  The loop runs over the iterations it is
  given for as long as \<open>glfwWindowShouldClose\<close> finds the flag unset; the result tells whether
  the loop has been left.
\<close>

record loop_input =
  close_requested :: bool
  escape_pressed :: bool

definition second_iteration :: "loop_input \<Rightarrow> stmt" where
  "second_iteration inp =
     block [call ''glfwPollEvents'',
            call ''glfwGetKey'',
            if_then (escape_pressed inp) (call ''glfwSetWindowShouldClose''),
            call ''SA_LOG_END_OF_FRAME'']"

fun second_Loop :: "loop_input list \<Rightarrow> bool \<Rightarrow> run \<Rightarrow> bool \<times> run" where
  "second_Loop inps True r = (True, call ''glfwWindowShouldClose'' r)"
| "second_Loop [] False r = (False, r)"
| "second_Loop (inp # inps) False r =
     second_Loop inps (close_requested inp \<or> escape_pressed inp)
       (second_iteration inp (call ''glfwWindowShouldClose'' r))"

text \<open>
  The "Uninitialization" block of the second DirectX12 renderer.  With \<open>SA_DEBUG\<close> it
  unregisters the message callback when \<open>VLayerCallbackCookie\<close> is set and the info queue
  is obtained, and reports the live objects when it gets the debug interface.
\<close>

definition second_Uninitialization :: "answers \<Rightarrow> stmt" where
  "second_Uninitialization env =
     block [call ''CloseHandle'',
            if_then (SA_DEBUG env \<and> fires env ''VLayerCallbackCookie'' 0)
              (block [call ''QueryInterface'',
                      if_then (fires env ''QueryInterface == S_OK'' 0)
                        (call ''UnregisterMessageCallback'')]),
            if_then (SA_DEBUG env)
              (block [call ''DXGIGetDebugInterface1'',
                      if_then (\<not> fires env ''Validation layer uninitialized failed.'' 0)
                        (call ''ReportLiveObjects''),
                      log_if env ''Validation layer uninitialized failed.'' 0]),
            call ''glfwDestroyWindow'',
            call ''glfwTerminate'']"

text \<open>
  \<open>main\<close> of the second DirectX12 renderer over the iterations it is given: when they do not
  close the window, the run is still in the loop.
\<close>

definition second_main :: "answers \<Rightarrow> loop_input list \<Rightarrow> run" where
  "second_main env inps =
     (case second_Loop inps False (second_Initialization env run0) of
        (True, r) \<Rightarrow> block [second_Uninitialization env, return_with 0] r
      | (False, r) \<Rightarrow> r)"

subsection \<open>The calls by which a program uploads and renders\<close>

text \<open>
  The entry points of Vulkan by which a program creates and fills a buffer, copies it,
  records commands and a draw, submits them and presents the image; and those of Direct3D 12
  by which a program builds a root signature and a pipeline state, records a draw and
  presents.
\<close>

definition vulkan_upload_and_render_calls :: "string list" where
  "vulkan_upload_and_render_calls =
     [''vkCreateBuffer'', ''vkMapMemory'', ''vkCmdCopyBuffer'', ''vkCmdCopyBufferToImage'',
      ''vkBeginCommandBuffer'', ''vkCmdBeginRenderPass'', ''vkCmdBindPipeline'', ''vkCmdDraw'',
      ''vkCmdDrawIndexed'', ''vkEndCommandBuffer'', ''vkQueueSubmit'', ''vkAcquireNextImageKHR'',
      ''vkQueuePresentKHR'']"

definition d3d12_pipeline_and_render_calls :: "string list" where
  "d3d12_pipeline_and_render_calls =
     [''D3D12SerializeVersionedRootSignature'', ''CreateRootSignature'', ''D3DCompileFromFile'',
      ''CreateGraphicsPipelineState'', ''SetPipelineState'', ''DrawInstanced'',
      ''DrawIndexedInstanced'', ''Present'']"

text \<open>The calls that the loop of the second DirectX12 renderer can make.\<close>

definition second_loop_calls :: "string list" where
  "second_loop_calls =
     [''glfwWindowShouldClose'', ''glfwPollEvents'', ''glfwGetKey'', ''glfwSetWindowShouldClose'',
      ''SA_LOG_END_OF_FRAME'']"

subsection \<open>What a statement can be known to do\<close>

text \<open>
  Three properties of statements: a statement adds only calls of a given set; it keeps
  the calls made before it and does not bring a finished run back to life; a run still
  running after it has called a given function.
\<close>

definition only_calls :: "string set \<Rightarrow> stmt \<Rightarrow> bool" where
  "only_calls A s \<longleftrightarrow> (\<forall>r. set (calls (s r)) \<subseteq> set (calls r) \<union> A)"

definition steady :: "stmt \<Rightarrow> bool" where
  "steady s \<longleftrightarrow>
     (\<forall>r. set (calls r) \<subseteq> set (calls (s r)) \<and> (progress (s r) = Running \<longrightarrow> progress r = Running))"

definition makes :: "string \<Rightarrow> stmt \<Rightarrow> bool" where
  "makes f s \<longleftrightarrow> (\<forall>r. progress (s r) = Running \<longrightarrow> f \<in> set (calls (s r)))"

section \<open>Sizes of a mip chain, as numbers\<close>

text \<open>
  Width or height of level \<open>i\<close> of a chain whose level 0 measures \<open>w\<close>: halved \<open>i\<close>
  times, rounding down, and never below 1.
\<close>

definition mip_dim :: "nat \<Rightarrow> nat \<Rightarrow> nat" where
  "mip_dim w i = max 1 (w div 2 ^ i)"

definition chain_bytes :: "nat \<Rightarrow> nat \<Rightarrow> nat \<Rightarrow> nat \<Rightarrow> nat" where
  "chain_bytes w h c n = (\<Sum>i<n. mip_dim w i * mip_dim h i * c)"

text \<open>
  The specification's formula for the same quantity, in its own words: the sum over the
  levels of \<open>\<lceil>W/2^i\<rceil> \<times> \<lceil>H/2^i\<rceil> \<times> C\<close>, each dimension clamped to be at least 1.
\<close>

definition spec_mip_dim :: "nat \<Rightarrow> nat \<Rightarrow> nat" where
  "spec_mip_dim w i = max 1 ((w + 2 ^ i - 1) div 2 ^ i)"

definition spec_chain_bytes :: "nat \<Rightarrow> nat \<Rightarrow> nat \<Rightarrow> nat \<Rightarrow> nat" where
  "spec_chain_bytes w h c n = (\<Sum>i<n. spec_mip_dim w i * spec_mip_dim h i * c)"

text \<open>
  The byte size of a whole chain in the 32-bit arithmetic of the source: the sum of
  \<open>x * y * _channelNum * _layerNum\<close> over the levels.
\<close>

definition chain_size :: "Vec2ui \<Rightarrow> u32 \<Rightarrow> u32 \<Rightarrow> u32" where
  "chain_size extent c l =
     (\<Sum>k<unat (mip_count extent).
        x_of ((halve_extent ^^ k) extent) * y_of ((halve_extent ^^ k) extent) * c * l)"



section \<open>Concrete collaborators for worked examples\<close>

text \<open>A resizer that always succeeds and writes black pixels, and one that always fails.\<close>

definition resize_blank :: resizer where
  "resize_blank px iw ih ow oh c = Some (replicate (nat (ow * oh) * unat c) 0)"

definition resize_fail :: resizer where
  "resize_fail px iw ih ow oh c = None"

text \<open>A GPU that completes one fence value per tick, and one that completes nothing.\<close>

definition fence_ticking :: "nat \<Rightarrow> u64" where
  "fence_ticking t = word_of_nat t"

definition fence_stalled :: "nat \<Rightarrow> u64" where
  "fence_stalled t = 0"

text \<open>
  The globals as the initialisation leaves them before the first upload: zero-initialised
  counters and fence values, three empty command lists, nothing queued.
\<close>

definition renderer0 :: renderer where
  "renderer0 = \<lparr>swapchainFrameIndex = 0, swapchainFenceValues = [0, 0, 0], deviceFenceValue = 0,
                 cmdLists = [[], [], []], graphicsQueue = [], mapped = [], logged = [], now = 0\<rparr>"

text \<open>
  An iteration in which nothing fails: one tick of CPU work, back buffer \<open>i\<close>.  And one in
  which \<open>SetEventOnCompletion\<close> fails.
\<close>

definition frame_ok :: "u32 \<Rightarrow> frame_env" where
  "frame_ok i = \<lparr>elapsed = 1, backBufferIndex = i, hrSetEvent_failed = False, cameraUBO = [],
                 hrPresent_failed = False, hrFenceSignal_failed = False\<rparr>"

definition frame_no_event :: "u32 \<Rightarrow> frame_env" where
  "frame_no_event i = \<lparr>elapsed = 1, backBufferIndex = i, hrSetEvent_failed = True, cameraUBO = [],
                       hrPresent_failed = False, hrFenceSignal_failed = False\<rparr>"

text \<open>The fence values and the frame index after three frames on the slots 0, 1, 2.\<close>

definition renderer3 :: renderer where
  "renderer3 = renderer0\<lparr>swapchainFrameIndex := 2, swapchainFenceValues := [1, 2, 3], now := 3\<rparr>"

text \<open>
  Answers under which every check passes and every wait returns, in a build without
  \<open>SA_DEBUG\<close>, the textures having two mip levels each.  And the same for the Vulkan renderer,
  with one physical device that has the swapchain extension and two queue families: the first
  does graphics and can present; the second only transfers and, for it,
  \<open>vkGetPhysicalDeviceSurfaceSupportKHR\<close> writes \<open>VK_FALSE\<close>.
\<close>

definition all_well :: answers where
  "all_well = \<lparr>SA_DEBUG = False, fires = (\<lambda>m i. False), staging_fails = (\<lambda>b. False),
                never_signalled = (\<lambda>b. False), mip_levels = (\<lambda>t. 2)\<rparr>"

definition vulkan_all_well :: vulkan_answers where
  "vulkan_all_well =
     \<lparr>SA_DEBUG = False, fires = (\<lambda>m i. False), staging_fails = (\<lambda>b. False),
      never_signalled = (\<lambda>b. False), mip_levels = (\<lambda>t. 2), availableLayers = [],
      physicalDevices =
        [\<lparr>vrEnumDeviceExtsCount_failed = False, vrEnumDeviceExts_failed = False,
          supportedExts = [''VK_KHR_swapchain''],
          queueFamilies = [\<lparr>queueFlags = 1, vrSupportKHR_failed = False, presentSupport = 1\<rparr>,
                           \<lparr>queueFlags = 4, vrSupportKHR_failed = False, presentSupport = 0\<rparr>]\<rparr>]\<rparr>"

text \<open>An iteration in which nothing happens, and one in which the Escape key is down.\<close>

definition idle :: loop_input where
  "idle = \<lparr>close_requested = False, escape_pressed = False\<rparr>"

definition escape :: loop_input where
  "escape = \<lparr>close_requested = False, escape_pressed = True\<rparr>"

text \<open>An upload whose staging buffer, number 0, is created and mapped.\<close>

definition upload_ok :: upload_env where
  "upload_ok = \<lparr>hrStagBufferCreated_failed = False, stagingId = 0, hrMap_failed = False\<rparr>"

text \<open>A \<open>2 \<times> 2\<close> image with four channels, a texture and a staging buffer that get created.\<close>

definition texture_2x2 :: texture_env where
  "texture_2x2 = \<lparr>stbi_image = Some (2, 2, 4, replicate 16 9), hrBufferCreated_failed = False,
                   upload = upload_ok\<rparr>"

section \<open>Properties of the mip chain\<close>




lemma add_assign_u32_eq: "add_assign_u32 t (level_size e c l) = t + x_of e * y_of e * c * l"
proof -
  let ?p = "x_of e * y_of e * c * l"
  have up: "unat (ucast w :: u64) = unat w" for w :: u32
  proof -
    have "unat w < 2 ^ 32" using unsigned_less [of w] by simp
    then have "unat w < 2 ^ 64" by simp
    then show ?thesis by (simp add: unsigned_ucast_eq take_bit_nat_eq_self)
  qed
  have "unat (ucast ((ucast t :: u64) + ucast ?p) :: u32) = unat (t + ?p)"
    by (simp add: unsigned_ucast_eq [where 'c=32] unat_word_ariths take_bit_eq_mod up mod_mod_cancel)
  then have "(ucast ((ucast t :: u64) + ucast ?p) :: u32) = t + ?p"
    by (simp only: word_unat_eq_iff)
  then show ?thesis by (simp add: add_assign_u32_def level_size_def)
qed

lemma extents_loop_total:
  "fst (extents_loop i n e c l tot exts) =
     tot + (\<Sum>k<n - i. x_of ((halve_extent ^^ k) e) * y_of ((halve_extent ^^ k) e) * c * l)"
proof (induction i n e c l tot exts rule: extents_loop.induct)
  case (1 i n e c l tot exts)
  let ?f = "\<lambda>e. x_of e * y_of e * c * l"
  show ?case
  proof (cases "i < n")
    case True
    then have nk: "n - i = Suc (n - Suc i)" by simp
    have "(\<Sum>k<n - i. ?f ((halve_extent ^^ k) e)) =
          ?f e + (\<Sum>k<n - Suc i. ?f ((halve_extent ^^ k) (halve_extent e)))"
      by (subst nk, subst sum.lessThan_Suc_shift) (simp add: funpow_swap1)
    with True 1 [OF True] show ?thesis
      by (subst extents_loop.simps) (simp add: add_assign_u32_eq add.assoc)
  next
    case False
    then show ?thesis by (subst extents_loop.simps) simp
  qed
qed


lemma funpow_shift: "Suc i \<le> j \<Longrightarrow> (f ^^ (j - Suc i)) (f x) = (f ^^ (j - i)) x"
proof -
  assume "Suc i \<le> j"
  then have "j - i = Suc (j - Suc i)" by arith
  then show ?thesis by (simp add: funpow_swap1)
qed

lemma extents_loop_nth:
  "j < length exts \<Longrightarrow> snd (extents_loop i n e c l tot exts) ! j =
     (if i \<le> j \<and> j < n then (halve_extent ^^ (j - i)) e else exts ! j)"
proof (induction i n e c l tot exts rule: extents_loop.induct)
  case (1 i n e c l tot exts)
  show ?case
  proof (cases "i < n")
    case True
    have "j < length (exts[i := e])" using 1(2) by simp
    from 1(1) [OF True this] 1(2) True show ?thesis
      by (subst extents_loop.simps) (auto simp: nth_list_update funpow_shift)
  next
    case False
    then show ?thesis by (subst extents_loop.simps) auto
  qed
qed

lemma halve_dim_unat: "unat (halve_dim d) = (if 1 < unat d then unat d div 2 else unat d)"
  by (simp add: halve_dim_def word_less_nat_alt unat_drop_bit_eq drop_bit_eq_div unat_div)

lemma halve_dim_funpow: "0 < unat d \<Longrightarrow> unat ((halve_dim ^^ k) d) = max 1 (unat d div 2 ^ k)"
proof (induction k)
  case 0
  then show ?case by simp
next
  case (Suc k)
  have "unat d div 2 ^ Suc k = unat d div 2 ^ k div 2"
    by (simp only: power_Suc2 div_mult2_eq)
  with Suc show ?case
    by (simp add: halve_dim_unat) 
qed

lemma halve_extent_funpow:
  "(halve_extent ^^ k) e = Vec2ui ((halve_dim ^^ k) (x_of e)) ((halve_dim ^^ k) (y_of e))"
  by (induction k) (simp_all add: halve_extent_def)

text \<open>The "Generate" loops never change the size of the buffer.\<close>

lemma write_at_length:
  "off + length bs \<le> length buf \<Longrightarrow> length (write_at off bs buf) = length buf"
  by (simp add: write_at_def)

lemma layers_loop_length:
  "layers_loop stbir j l prev cur c so co (buf, src, dst) = Some r \<Longrightarrow>
     length (fst (case r of Next s \<Rightarrow> s | Returned s \<Rightarrow> s)) = length buf"
proof (induction stbir j l prev cur c so co "(buf, src, dst)" arbitrary: buf src dst rule: layers_loop.induct)
  case (1 stbir j l prev cur c so co buf src dst)
  show ?case
  proof (cases "j < l")
    case False
    with 1(2) show ?thesis by (subst (asm) layers_loop.simps) auto
  next
    case True
    note jl = this
    show ?thesis
    proof (cases "length buf < src + unat so \<or> length buf < dst + unat co")
      case True
      with jl 1(2) show ?thesis by (subst (asm) layers_loop.simps) simp
    next
      case False
      note inb = this
      show ?thesis
      proof (cases "stbir (take (unat so) (drop src buf)) (sint (x_of prev)) (sint (y_of prev)) (sint (x_of cur)) (sint (y_of cur)) c")
        case None
        with jl inb 1(2) show ?thesis by (subst (asm) layers_loop.simps) auto
      next
        case (Some px)
        from jl inb Some 1(2) have rec:
          "layers_loop stbir (Suc j) l prev cur c so co
             (write_at dst (take (unat co) px) buf, src + unat so, dst + unat co) = Some r"
          by (subst (asm) layers_loop.simps) simp
        from inb have "dst + unat co \<le> length buf" by simp
        moreover have "length (take (unat co) px) \<le> unat co" by simp
        ultimately have "dst + length (take (unat co) px) \<le> length buf" by linarith
        then have "length (write_at dst (take (unat co) px) buf) = length buf"
          by (rule write_at_length)
        with 1(1) [OF jl inb Some rec] show ?thesis by simp
      qed
    qed
  qed
qed

lemma generate_loop_length:
  "generate_loop stbir i n exts c l (buf, src) = Some r \<Longrightarrow>
     length (fst (case r of Next s \<Rightarrow> s | Returned s \<Rightarrow> s)) = length buf"
proof (induction stbir i n exts c l "(buf, src)" arbitrary: buf src rule: generate_loop.induct)
  case (1 stbir i n exts c l buf src)
  show ?case
  proof (cases "i < n")
    case False
    with 1(2) show ?thesis by (subst (asm) generate_loop.simps) auto
  next
    case True
    let ?so = "(ucast (x_of (exts ! (i - 1)) * y_of (exts ! (i - 1)) * c) * 1 :: u64)"
    let ?co = "(ucast (x_of (exts ! i) * y_of (exts ! i) * c) * 1 :: u64)"
    let ?dst = "src + unat (?so * ucast l)"
    let ?inner = "layers_loop stbir 0 (unat l) (exts ! (i - 1)) (exts ! i) c ?so ?co (buf, src, ?dst)"
    from True 1(2) obtain q where q: "?inner = Some q"
      by (subst (asm) generate_loop.simps) (auto simp: Let_def split: option.splits)
    from layers_loop_length [OF q] have len: "length (fst (case q of Next s \<Rightarrow> s | Returned s \<Rightarrow> s)) = length buf" .
    show ?thesis
    proof (cases q)
      case (Returned s)
      obtain b' s' d' where s: "s = (b', s', d')" by (cases s)
      from True 1(2) q Returned s have "r = Returned (b', s')"
        by (subst (asm) generate_loop.simps) (simp add: Let_def)
      with len Returned s show ?thesis by simp
    next
      case (Next s)
      obtain b' s' d' where s: "s = (b', s', d')" by (cases s)
      from True 1(2) q Next s have rec: "generate_loop stbir (Suc i) n exts c l (b', s') = Some r"
        by (subst (asm) generate_loop.simps) (simp add: Let_def)
      from 1(1) [OF True refl refl refl q Next s [symmetric] refl rec] len Next s show ?thesis
        by simp
    qed
  qed
qed



lemma GenerateMipMaps_Some:
  assumes "GenerateMipMaps stbir e buf0 total0 exts0 c l = Some r"
  shows "max (x_of e) (y_of e) \<noteq> 0"
    and "outMipLevels r = mip_count e"
    and "outTotalSize r = fst (extents_loop 0 (unat (mip_count e)) e c l total0
             (resize_vec (unat (mip_count e)) (Vec2ui 0 0) exts0))"
    and "outExtents r = snd (extents_loop 0 (unat (mip_count e)) e c l total0
             (resize_vec (unat (mip_count e)) (Vec2ui 0 0) exts0))"
    and "length (outData r) = unat (outTotalSize r)"
proof -
  let ?n = "unat (mip_count e)"
  let ?el = "extents_loop 0 ?n e c l total0 (resize_vec ?n (Vec2ui 0 0) exts0)"
  let ?buf = "resize_vec (unat (fst ?el)) 0 buf0"
  from assms show nz: "max (x_of e) (y_of e) \<noteq> 0"
    by (auto simp: GenerateMipMaps_def Let_def split: if_splits)
  from assms nz obtain q where q: "generate_loop stbir 1 ?n (snd ?el) c l (?buf, 0) = Some q"
    by (auto simp: GenerateMipMaps_def Let_def split_beta split: option.splits)
  have len: "length (fst (case q of Next s \<Rightarrow> s | Returned s \<Rightarrow> s)) = unat (fst ?el)"
    using generate_loop_length [OF q] by (simp add: resize_vec_def)
  from assms nz q show "outMipLevels r = mip_count e"
    by (auto simp: GenerateMipMaps_def Let_def split_beta split: flow.splits)
  from assms nz q show "outTotalSize r = fst ?el"
    by (auto simp: GenerateMipMaps_def Let_def split_beta split: flow.splits)
  from assms nz q show "outExtents r = snd ?el"
    by (auto simp: GenerateMipMaps_def Let_def split_beta split: flow.splits)
  from assms nz q len show "length (outData r) = unat (outTotalSize r)"
    by (auto simp: GenerateMipMaps_def Let_def split_beta split: flow.splits)
qed

lemma total_is_offset:
  "fst (extents_loop 0 (unat (mip_count e)) e c l total0 exts) = total0 + chain_size e c l"
  by (simp add: extents_loop_total chain_size_def)

text \<open>The level sizes of the source are the numbers \<open>mip_dim\<close>, read in 32 bits.\<close>

lemma level_dims_of_nat:
  assumes "W \<noteq> 0" "H \<noteq> 0"
  shows "x_of ((halve_extent ^^ k) (Vec2ui W H)) = word_of_nat (mip_dim (unat W) k)"
    and "y_of ((halve_extent ^^ k) (Vec2ui W H)) = word_of_nat (mip_dim (unat H) k)"
proof -
  from assms have "0 < unat W" "0 < unat H" by (simp_all add: unat_gt_0)
  then have "unat ((halve_dim ^^ k) W) = mip_dim (unat W) k" "unat ((halve_dim ^^ k) H) = mip_dim (unat H) k"
    by (simp_all add: halve_dim_funpow mip_dim_def)
  then have "word_of_nat (unat ((halve_dim ^^ k) W)) = (word_of_nat (mip_dim (unat W) k) :: u32)"
    "word_of_nat (unat ((halve_dim ^^ k) H)) = (word_of_nat (mip_dim (unat H) k) :: u32)"
    by simp_all
  then show "x_of ((halve_extent ^^ k) (Vec2ui W H)) = word_of_nat (mip_dim (unat W) k)"
    and "y_of ((halve_extent ^^ k) (Vec2ui W H)) = word_of_nat (mip_dim (unat H) k)"
    by (simp_all add: halve_extent_funpow)
qed

lemma chain_size_of_nat:
  assumes "W \<noteq> 0" "H \<noteq> 0"
  shows "chain_size (Vec2ui W H) C L =
    word_of_nat (chain_bytes (unat W) (unat H) (unat C * unat L) (unat (mip_count (Vec2ui W H))))"
proof -
  have "x_of ((halve_extent ^^ k) (Vec2ui W H)) * y_of ((halve_extent ^^ k) (Vec2ui W H)) * C * L =
        word_of_nat (mip_dim (unat W) k * mip_dim (unat H) k * (unat C * unat L))" for k
    by (simp add: level_dims_of_nat [OF assms] mult.assoc)
  then show ?thesis
    by (simp add: chain_size_def chain_bytes_def)
qed






text \<open>
  With \<open>_outTotalSize = 0\<close>, one layer and a chain that fits 32 bits, every access of the
  "Generate" loops is inside the buffer, and \<open>GenerateMipMaps\<close> returns.
\<close>

lemma unat_ucast_up: "unat (ucast w :: u64) = unat w" for w :: u32
proof -
  have "unat w < 2 ^ 32" using unsigned_less [of w] by simp
  then have "unat w < 2 ^ 64" by simp
  then show ?thesis by (simp add: unsigned_ucast_eq take_bit_nat_eq_self)
qed

lemma sum_prefix_le: "a \<le> b \<Longrightarrow> (\<Sum>k<a. g k) \<le> (\<Sum>k<b. (g k :: nat))" for a b :: nat
  by (rule sum_mono2) auto

lemma layers_loop_single:
  assumes "src + unat so \<le> length buf" and "dst + unat co \<le> length buf"
  shows "layers_loop stbir 0 1 prev cur c so co (buf, src, dst) =
     (case stbir (take (unat so) (drop src buf))
             (sint (x_of prev)) (sint (y_of prev)) (sint (x_of cur)) (sint (y_of cur)) c of
        None \<Rightarrow> Some (Returned (buf, src, dst))
      | Some px \<Rightarrow> Some (Next (write_at dst (take (unat co) px) buf, src + unat so, dst + unat co)))"
  using assms
  by (subst layers_loop.simps) (simp add: not_less layers_loop.simps [of _ "Suc 0"] split: option.splits)

lemma generate_loop_returns:
  assumes "Suc 0 \<le> i"
    and "src = (\<Sum>k<i - 1. unat (x_of (exts ! k) * y_of (exts ! k) * c))"
    and "(\<Sum>k<n. unat (x_of (exts ! k) * y_of (exts ! k) * c)) \<le> length buf"
  shows "\<exists>r. generate_loop stbir i n exts c 1 (buf, src) = Some r"
  using assms
proof (induction "n - i" arbitrary: i buf src)
  case 0
  then have "\<not> i < n" by simp
  then show ?case by (subst generate_loop.simps) simp
next
  case (Suc m)
  let ?sz = "\<lambda>k. unat (x_of (exts ! k) * y_of (exts ! k) * c)"
  let ?so = "(ucast (x_of (exts ! (i - 1)) * y_of (exts ! (i - 1)) * c) * 1 :: u64)"
  let ?co = "(ucast (x_of (exts ! i) * y_of (exts ! i) * c) * 1 :: u64)"
  from Suc.hyps(2) have i: "i < n" by simp
  have so: "unat ?so = ?sz (i - 1)" and co: "unat ?co = ?sz i"
    by (simp_all add: unat_ucast_up)
  have one: "unat (?so * 1) = ?sz (i - 1)"
    by (simp add: unat_ucast_up)
  from Suc.prems(1) have si: "Suc (i - 1) = i" by simp
  have a: "src + ?sz (i - 1) = (\<Sum>k<i. ?sz k)"
  proof -
    have "(\<Sum>k<Suc (i - 1). ?sz k) = (\<Sum>k<i - 1. ?sz k) + ?sz (i - 1)"
      by (rule sum.lessThan_Suc)
    then show ?thesis by (simp only: si Suc.prems(2))
  qed
  have b: "(\<Sum>k<i. ?sz k) + ?sz i = (\<Sum>k<Suc i. ?sz k)" by simp
  have le1: "(\<Sum>k<i. ?sz k) \<le> length buf"
    using sum_prefix_le [of i n ?sz] i Suc.prems(3) by simp
  have le2: "(\<Sum>k<Suc i. ?sz k) \<le> length buf"
    using sum_prefix_le [of "Suc i" n ?sz] i Suc.prems(3) by simp
  let ?dst = "src + unat (?so * 1)"
  have in1: "src + unat ?so \<le> length buf" using a le1 so by simp
  have in2: "?dst + unat ?co \<le> length buf" using a b le2 one co by simp
  note ll = layers_loop_single [OF in1 in2, of stbir "exts ! (i - 1)" "exts ! i" c]
  show ?case
  proof (cases "stbir (take (unat ?so) (drop src buf)) (sint (x_of (exts ! (i - 1))))
                  (sint (y_of (exts ! (i - 1)))) (sint (x_of (exts ! i))) (sint (y_of (exts ! i))) c")
    case None
    have "generate_loop stbir i n exts c 1 (buf, src) = Some (Returned (buf, src))"
      by (subst generate_loop.simps)
         (simp only: i if_True Let_def unsigned_1 ll None option.case flow.case prod.case)
    then show ?thesis by simp
  next
    case (Some px)
    let ?buf' = "write_at ?dst (take (unat ?co) px) buf"
    have len: "length ?buf' = length buf"
      by (rule write_at_length) (use in2 in simp)
    have m: "m = n - Suc i" using Suc.hyps(2) by simp
    have src': "src + unat ?so = (\<Sum>k<Suc i - 1. ?sz k)" using a so by simp
    have tot: "(\<Sum>k<n. ?sz k) \<le> length ?buf'" using Suc.prems(3) len by simp
    from Suc.hyps(1) [OF m _ src' tot] obtain r where
      "generate_loop stbir (Suc i) n exts c 1 (?buf', src + unat ?so) = Some r" by auto
    moreover have "generate_loop stbir i n exts c 1 (buf, src) =
                   generate_loop stbir (Suc i) n exts c 1 (?buf', src + unat ?so)"
      by (subst generate_loop.simps)
         (simp only: i if_True Let_def unsigned_1 ll Some option.case flow.case prod.case)
    ultimately show ?thesis by simp
  qed
qed

lemma length_resize_vec: "length (resize_vec n d xs) = n"
  by (simp add: resize_vec_def)

lemma GenerateMipMaps_returns:
  assumes nz: "W \<noteq> 0" "H \<noteq> 0"
    and fits: "chain_bytes (unat W) (unat H) (unat C) (unat (mip_count (Vec2ui W H))) < 2 ^ 32"
  shows "\<exists>r. GenerateMipMaps stbir (Vec2ui W H) buf0 0 exts0 C 1 = Some r"
proof -
  let ?e = "Vec2ui W H"
  let ?n = "unat (mip_count ?e)"
  let ?el = "extents_loop 0 ?n ?e C 1 0 (resize_vec ?n (Vec2ui 0 0) exts0)"
  let ?N = "chain_bytes (unat W) (unat H) (unat C) ?n"
  let ?lvl = "\<lambda>k. mip_dim (unat W) k * mip_dim (unat H) k * unat C"
  have m: "max (x_of ?e) (y_of ?e) \<noteq> 0" using nz by (simp add: max_def)
  have "fst ?el = word_of_nat ?N"
    by (simp add: total_is_offset chain_size_of_nat [OF nz])
  then have tot: "unat (fst ?el) = ?N"
    using fits by (simp only: unat_of_nat) simp
  have len0: "length (resize_vec ?n (Vec2ui 0 0) exts0) = ?n" by (simp add: resize_vec_def)
  have ext: "snd ?el ! k = (halve_extent ^^ k) ?e" if "k < ?n" for k
    using that by (simp add: extents_loop_nth len0)
  have lvl_le: "?lvl k \<le> ?N" if "k < ?n" for k
    unfolding chain_bytes_def by (rule member_le_sum) (use that in simp_all)
  have sz: "unat (x_of (snd ?el ! k) * y_of (snd ?el ! k) * C) = ?lvl k" if "k < ?n" for k
  proof -
    have "x_of (snd ?el ! k) * y_of (snd ?el ! k) * C = word_of_nat (?lvl k)"
      by (simp add: ext [OF that] level_dims_of_nat [OF nz])
    moreover have "?lvl k < 2 ^ 32" using lvl_le [OF that] fits by simp
    ultimately show ?thesis by (simp only: unat_of_nat) simp
  qed
  have "(\<Sum>k<?n. unat (x_of (snd ?el ! k) * y_of (snd ?el ! k) * C)) = (\<Sum>k<?n. ?lvl k)"
    by (rule sum.cong) (simp_all add: sz)
  then have total: "(\<Sum>k<?n. unat (x_of (snd ?el ! k) * y_of (snd ?el ! k) * C)) \<le>
                    length (resize_vec (unat (fst ?el)) 0 buf0)"
    by (simp only: length_resize_vec tot chain_bytes_def)
  have "\<exists>r. generate_loop stbir 1 ?n (snd ?el) C 1 (resize_vec (unat (fst ?el)) 0 buf0, 0) = Some r"
    by (rule generate_loop_returns [OF _ _ total]) simp_all
  then obtain q where
    q: "generate_loop stbir 1 ?n (snd ?el) C 1 (resize_vec (unat (fst ?el)) 0 buf0, 0) = Some q" ..
  show ?thesis
    using m q by (cases q) (auto simp: GenerateMipMaps_def Let_def split_beta)
qed

section \<open>Properties of waiting\<close>

text \<open>A wait that returns does so at the first tick at which the fence has the value.\<close>

lemma wait_fence_Some:
  assumes "wait_fence fence_at v t = Some t'"
  shows "t \<le> t' \<and> v \<le> fence_at t' \<and> (\<forall>u. t \<le> u \<and> u < t' \<longrightarrow> fence_at u < v)"
proof (rule wait_fence.raw_induct [OF _ assms])
  fix wf and f :: "nat \<Rightarrow> u64" and w s s'
  assume IH: "\<And>f w s s'. wf f w s = Some s' \<Longrightarrow>
                 s \<le> s' \<and> w \<le> f s' \<and> (\<forall>u. s \<le> u \<and> u < s' \<longrightarrow> f u < w)"
    and eq: "(if w \<le> f s then Some s else wf f w (Suc s)) = Some s'"
  show "s \<le> s' \<and> w \<le> f s' \<and> (\<forall>u. s \<le> u \<and> u < s' \<longrightarrow> f u < w)"
  proof (cases "w \<le> f s")
    case True
    with eq show ?thesis by auto
  next
    case False
    with eq have "wf f w (Suc s) = Some s'" by simp
    from IH [OF this] have a: "Suc s \<le> s'" and b: "w \<le> f s'"
      and c: "\<forall>u. Suc s \<le> u \<and> u < s' \<longrightarrow> f u < w" by auto
    have "f u < w" if "s \<le> u" "u < s'" for u
    proof (cases "u = s")
      case True
      with False show ?thesis by (simp add: not_le)
    next
      case False
      with that have "Suc s \<le> u" by simp
      with c that show ?thesis by simp
    qed
    with a b show ?thesis by auto
  qed
qed

lemma wait_fence_returns: "v \<le> fence_at (t + k) \<Longrightarrow> \<exists>t'. wait_fence fence_at v t = Some t'"
proof (induction k arbitrary: t)
  case 0
  then show ?case by (subst wait_fence.simps) simp
next
  case (Suc k)
  then have "v \<le> fence_at (Suc t + k)" by simp
  from Suc.IH [OF this] show ?case by (subst wait_fence.simps) simp
qed

lemma wait_fence_None: "(\<forall>u\<ge>t. fence_at u < v) \<Longrightarrow> wait_fence fence_at v t = None"
proof (rule ccontr)
  assume stall: "\<forall>u\<ge>t. fence_at u < v" and "wait_fence fence_at v t \<noteq> None"
  then obtain t' where "wait_fence fence_at v t = Some t'" by auto
  from wait_fence_Some [OF this] stall show False by (auto simp: not_le [symmetric])
qed

lemma wait_fence_now: "v \<le> fence_at t \<Longrightarrow> wait_fence fence_at v t = Some t"
  by (subst wait_fence.simps) simp

section \<open>Properties of the uploads\<close>







lemma WaitDeviceIdle_Some:
  assumes "WaitDeviceIdle dfa st = Some st'"
  shows "graphicsQueue st' = graphicsQueue st @ [Signal DeviceFence (ucast (deviceFenceValue st))]"
    and "cmdLists st' = cmdLists st"
    and "logged st' = logged st"
    and "mapped st' = mapped st"
    and "swapchainFenceValues st' = swapchainFenceValues st"
    and "swapchainFrameIndex st' = swapchainFrameIndex st"
  using assms by (auto simp: WaitDeviceIdle_def Let_def split: option.splits)



text \<open>What \<open>SubmitBufferToGPU\<close> returns and leaves on the queue, and when it returns.\<close>

lemma SubmitBufferToGPU_result:
  assumes run: "SubmitBufferToGPU dfa env gpuBuffer size0 src stateAfter st = Some (ok, st')"
    and lists: "cmdLists st \<noteq> []"
  shows "(ok \<longleftrightarrow> \<not> FAILED_hrStagBufferCreated env size0) \<and>
         (\<not> ok \<longrightarrow> graphicsQueue st' = graphicsQueue st \<and> cmdLists st' = cmdLists st \<and>
                  logged st' = logged st @ [''Create Staging Buffer failed!'']) \<and>
         (ok \<longrightarrow> graphicsQueue st' = graphicsQueue st @
                  [ExecuteCommandLists (cmdLists st ! 0 @
                     [CopyBufferRegion gpuBuffer 0 (StagingBuffer (stagingId env)) 0 size0,
                      ResourceBarrier gpuBuffer D3D12_RESOURCE_STATE_COPY_DEST stateAfter]),
                   Signal DeviceFence (ucast (deviceFenceValue st))])"
proof (cases "FAILED_hrStagBufferCreated env size0")
  case True
  with run show ?thesis by (auto simp: SubmitBufferToGPU_def)
next
  case False
  from run False have nm: "\<not> hrMap_failed env"
    by (auto simp: SubmitBufferToGPU_def split: if_splits)
  from run False nm obtain bytes where b: "memcpy_src src size0 = Some bytes"
    by (auto simp: SubmitBufferToGPU_def split: option.splits)
  let ?stg = "StagingBuffer (stagingId env)"
  let ?st1 = "st\<lparr>mapped := mapped st @ [(?stg, bytes)]\<rparr>"
  let ?rec = "cmdLists st ! 0 @ [CopyBufferRegion gpuBuffer 0 ?stg 0 size0,
                ResourceBarrier gpuBuffer D3D12_RESOURCE_STATE_COPY_DEST stateAfter]"
  let ?st3 = "?st1\<lparr>cmdLists := (cmdLists ?st1)[0 := ?rec],
                   graphicsQueue := graphicsQueue ?st1 @ [ExecuteCommandLists ?rec]\<rparr>"
  from run False nm b lists obtain st4 where w: "WaitDeviceIdle dfa ?st3 = Some st4"
    and ok: "ok" and st': "st' = st4\<lparr>cmdLists := (cmdLists st4)[0 := []]\<rparr>"
    by (auto simp: SubmitBufferToGPU_def Let_def split: option.splits)
  from WaitDeviceIdle_Some(1) [OF w] st' ok False show ?thesis by simp
qed

lemma SubmitBufferToGPU_returns:
  assumes "\<not> FAILED_hrStagBufferCreated env size0" and "unat size0 \<le> length bs"
    and "ucast (deviceFenceValue st) \<le> dfa (now st + k)" and "\<not> hrMap_failed env"
  shows "\<exists>st'. SubmitBufferToGPU dfa env gpuBuffer size0 (Some bs) stateAfter st = Some (True, st')"
proof -
  let ?stg = "StagingBuffer (stagingId env)"
  let ?st1 = "st\<lparr>mapped := mapped st @ [(?stg, take (unat size0) bs)]\<rparr>"
  let ?rec = "cmdLists st ! 0 @ [CopyBufferRegion gpuBuffer 0 ?stg 0 size0,
                ResourceBarrier gpuBuffer D3D12_RESOURCE_STATE_COPY_DEST stateAfter]"
  let ?st3 = "?st1\<lparr>cmdLists := (cmdLists ?st1)[0 := ?rec],
                   graphicsQueue := graphicsQueue ?st1 @ [ExecuteCommandLists ((cmdLists ?st1)[0 := ?rec] ! 0)]\<rparr>"
  from wait_fence_returns [of "ucast (deviceFenceValue st)" dfa "now st" k, OF assms(3)] obtain t where
    "wait_fence dfa (ucast (deviceFenceValue st)) (now st) = Some t" ..
  then have "\<exists>st4. WaitDeviceIdle dfa ?st3 = Some st4"
    by (simp add: WaitDeviceIdle_def Let_def)
  then obtain st4 where "WaitDeviceIdle dfa ?st3 = Some st4" ..
  with assms(1,2,4) show ?thesis
    by (simp add: SubmitBufferToGPU_def memcpy_src_def Let_def)
qed

section \<open>Properties of the frame loop\<close>

text \<open>The blocks of one iteration, in closed form.\<close>

lemma swapchain_begin_Inr:
  assumes "swapchain_begin f env st = Some (Inr st1)"
  shows "st1 = st\<lparr>swapchainFrameIndex := backBufferIndex env,
                   swapchainFenceValues := (swapchainFenceValues st)[unat (backBufferIndex env) :=
                      swapchainFenceValues st ! unat (swapchainFrameIndex st) + 1],
                   now := now st1\<rparr>"
    and "first_reached f (ucast (swapchainFenceValues st ! unat (backBufferIndex env))) (now st) (now st1)"
proof -
  let ?curr = "swapchainFenceValues st ! unat (backBufferIndex env)"
  show "st1 = st\<lparr>swapchainFrameIndex := backBufferIndex env,
                   swapchainFenceValues := (swapchainFenceValues st)[unat (backBufferIndex env) :=
                      swapchainFenceValues st ! unat (swapchainFrameIndex st) + 1],
                   now := now st1\<rparr>"
    using assms by (auto simp: swapchain_begin_def Let_def split: if_splits option.splits)
  show "first_reached f (ucast ?curr) (now st) (now st1)"
  proof (cases "f (now st) < ucast ?curr")
    case True
    with assms obtain t where w: "wait_fence f (ucast ?curr) (now st) = Some t" and t: "now st1 = t"
      by (auto simp: swapchain_begin_def Let_def split: if_splits option.splits)
    from wait_fence_Some [OF w] t show ?thesis by (simp add: first_reached_def)
  next
    case False
    with assms have "now st1 = now st"
      by (auto simp: swapchain_begin_def Let_def split: if_splits option.splits)
    with False show ?thesis by (auto simp: first_reached_def not_less)
  qed
qed

lemma swapchain_begin_no_wait:
  assumes "ucast (swapchainFenceValues st ! unat (backBufferIndex env)) \<le> f (now st)"
  shows "swapchain_begin f env st =
     Some (Inr (st\<lparr>swapchainFrameIndex := backBufferIndex env,
                   swapchainFenceValues := (swapchainFenceValues st)[unat (backBufferIndex env) :=
                      swapchainFenceValues st ! unat (swapchainFrameIndex st) + 1]\<rparr>))"
  using assms by (simp add: swapchain_begin_def Let_def not_less [symmetric])

lemma swapchain_begin_cases:
  "swapchain_begin f env st =
     (if ucast (swapchainFenceValues st ! unat (backBufferIndex env)) \<le> f (now st)
      then Some (Inr (st\<lparr>swapchainFrameIndex := backBufferIndex env,
                   swapchainFenceValues := (swapchainFenceValues st)[unat (backBufferIndex env) :=
                      swapchainFenceValues st ! unat (swapchainFrameIndex st) + 1]\<rparr>))
      else if hrSetEvent_failed env then Some (Inl (EXIT_FAILURE ''Fence SetEventOnCompletion failed.''))
      else map_option (\<lambda>t. Inr (st\<lparr>swapchainFrameIndex := backBufferIndex env,
                   swapchainFenceValues := (swapchainFenceValues st)[unat (backBufferIndex env) :=
                      swapchainFenceValues st ! unat (swapchainFrameIndex st) + 1],
                   now := t\<rparr>))
             (wait_fence f (ucast (swapchainFenceValues st ! unat (backBufferIndex env))) (now st)))"
  by (auto simp: swapchain_begin_def Let_def not_less split: option.splits)

lemma swapchain_end_Inr:
  assumes "swapchain_end env st = Inr st'"
  shows "st' = st\<lparr>graphicsQueue := graphicsQueue st @
            [Present 1 0,
             Signal SwapchainFence (ucast (swapchainFenceValues st ! unat (swapchainFrameIndex st)))]\<rparr>"
  using assms by (auto simp: swapchain_end_def Let_def split: if_splits)

lemma register_commands_eq:
  "register_commands st =
     st\<lparr>cmdLists := (cmdLists st)[unat (swapchainFrameIndex st) := frame_commands (swapchainFrameIndex st)],
        graphicsQueue := graphicsQueue st @
          [ExecuteCommandLists ((cmdLists st)[unat (swapchainFrameIndex st) :=
              frame_commands (swapchainFrameIndex st)] ! unat (swapchainFrameIndex st))]\<rparr>"
  by (cases "unat (swapchainFrameIndex st) < length (cmdLists st)")
     (simp_all add: register_commands_def Let_def list_update_beyond not_less)

lemma render_frame_Inr:
  assumes "render_frame f env st = Some (Inr st')"
  shows "\<exists>st1. swapchain_begin f env (loop_inputs env st) = Some (Inr st1) \<and>
               swapchain_end env (register_commands (update_camera env st1)) = Inr st'"
  using assms by (auto simp: render_frame_def split: option.splits sum.splits)

lemma render_frame_fields:
  assumes "render_frame f env st = Some (Inr st')"
  shows "swapchainFrameIndex st' = backBufferIndex env"
    and "swapchainFenceValues st' = (swapchainFenceValues st)[unat (backBufferIndex env) :=
           swapchainFenceValues st ! unat (swapchainFrameIndex st) + 1]"
    and "cmdLists st' = (cmdLists st)[unat (backBufferIndex env) := frame_commands (backBufferIndex env)]"
    and "graphicsQueue st' = graphicsQueue st @
           [ExecuteCommandLists (cmdLists st' ! unat (backBufferIndex env)), Present 1 0,
            Signal SwapchainFence (ucast (swapchainFenceValues st' ! unat (backBufferIndex env)))]"
    and "first_reached f (ucast (swapchainFenceValues st ! unat (backBufferIndex env)))
           (now st + elapsed env) (now st')"
    and "deviceFenceValue st' = deviceFenceValue st"
proof -
  from render_frame_Inr [OF assms] obtain st1 where
    b: "swapchain_begin f env (loop_inputs env st) = Some (Inr st1)" and
    e: "swapchain_end env (register_commands (update_camera env st1)) = Inr st'" by blast
  note b1 = swapchain_begin_Inr(1) [OF b] and b2 = swapchain_begin_Inr(2) [OF b]
  note e1 = swapchain_end_Inr [OF e]
  have i: "swapchainFrameIndex st1 = backBufferIndex env" by (subst b1) simp
  have v: "swapchainFenceValues st1 = (swapchainFenceValues st)[unat (backBufferIndex env) :=
           swapchainFenceValues st ! unat (swapchainFrameIndex st) + 1]"
    by (subst b1) (simp add: loop_inputs_def)
  have c: "cmdLists st1 = cmdLists st" by (subst b1) (simp add: loop_inputs_def)
  have q: "graphicsQueue st1 = graphicsQueue st" by (subst b1) (simp add: loop_inputs_def)
  have d: "deviceFenceValue st1 = deviceFenceValue st" by (subst b1) (simp add: loop_inputs_def)
  show "swapchainFrameIndex st' = backBufferIndex env"
    by (subst e1) (simp add: register_commands_eq update_camera_def i)
  show "swapchainFenceValues st' = (swapchainFenceValues st)[unat (backBufferIndex env) :=
           swapchainFenceValues st ! unat (swapchainFrameIndex st) + 1]"
    by (subst e1) (simp add: register_commands_eq update_camera_def v)
  show "cmdLists st' = (cmdLists st)[unat (backBufferIndex env) := frame_commands (backBufferIndex env)]"
    by (subst e1) (simp add: register_commands_eq update_camera_def i c)
  show "graphicsQueue st' = graphicsQueue st @
           [ExecuteCommandLists (cmdLists st' ! unat (backBufferIndex env)), Present 1 0,
            Signal SwapchainFence (ucast (swapchainFenceValues st' ! unat (backBufferIndex env)))]"
    by (subst (1 2 3) e1) (simp add: register_commands_eq update_camera_def i c q)
  have "now st' = now st1" by (subst e1) (simp add: register_commands_eq update_camera_def)
  with b2 show "first_reached f (ucast (swapchainFenceValues st ! unat (backBufferIndex env)))
           (now st + elapsed env) (now st')"
    by (simp add: loop_inputs_def)
  show "deviceFenceValue st' = deviceFenceValue st"
    by (subst e1) (simp add: register_commands_eq update_camera_def d)
qed

text \<open>Runs of several iterations: what the slots hold and what has been signalled.\<close>

lemma run_frames_snoc:
  "run_frames f (envs @ [env]) st =
     (case run_frames f envs st of
        None \<Rightarrow> None
      | Some (Inl e) \<Rightarrow> Some (Inl e)
      | Some (Inr s) \<Rightarrow> render_frame f env s)"
  by (induction envs arbitrary: st) (auto split: option.splits sum.splits)

lemma swapchain_signals_frame:
  "swapchain_signals (q @ [ExecuteCommandLists c, Present a b, Signal SwapchainFence v]) =
     swapchain_signals q @ [v]"
  by (induction q rule: swapchain_signals.induct) simp_all

lemma run_frames_snoc_Inr:
  assumes "run_frames f (envs @ [env]) st0 = Some (Inr st')"
  obtains st where "run_frames f envs st0 = Some (Inr st)" and "render_frame f env st = Some (Inr st')"
  using assms by (auto simp: run_frames_snoc split: option.splits sum.splits)

lemma render_frame_signals:
  assumes "render_frame f env st = Some (Inr st')"
  shows "swapchain_signals (graphicsQueue st') =
         swapchain_signals (graphicsQueue st) @
           [ucast (swapchainFenceValues st' ! unat (backBufferIndex env))]"
  by (simp add: render_frame_fields(4) [OF assms] swapchain_signals_frame)

lemma run_frames_length:
  "run_frames f envs st0 = Some (Inr st) \<Longrightarrow>
     length (swapchainFenceValues st) = length (swapchainFenceValues st0) \<and>
     length (swapchain_signals (graphicsQueue st)) =
       length (swapchain_signals (graphicsQueue st0)) + length envs"
proof (induction envs arbitrary: st rule: rev_induct)
  case Nil
  then show ?case by simp
next
  case (snoc env envs)
  from snoc.prems obtain s where r: "run_frames f envs st0 = Some (Inr s)"
    and fr: "render_frame f env s = Some (Inr st)" by (rule run_frames_snoc_Inr)
  from snoc.IH [OF r] show ?case
    by (simp add: render_frame_fields(2) [OF fr] render_frame_signals [OF fr])
qed

lemma run_frames_unused:
  "run_frames f envs st0 = Some (Inr st) \<Longrightarrow>
   \<forall>m<length envs. backBufferIndex (envs ! m) \<noteq> j \<Longrightarrow>
   swapchainFenceValues st ! unat j = swapchainFenceValues st0 ! unat j"
proof (induction envs arbitrary: st rule: rev_induct)
  case Nil
  then show ?case by simp
next
  case (snoc env envs)
  from snoc.prems(1) obtain s where r: "run_frames f envs st0 = Some (Inr s)"
    and fr: "render_frame f env s = Some (Inr st)" by (rule run_frames_snoc_Inr)
  from snoc.prems(2) have "\<forall>m<length envs. backBufferIndex (envs ! m) \<noteq> j"
    by (auto simp: nth_append split: if_splits)
  from snoc.IH [OF r this] have ih: "swapchainFenceValues s ! unat j = swapchainFenceValues st0 ! unat j" .
  from snoc.prems(2) have "backBufferIndex env \<noteq> j"
    by (auto simp: nth_append dest: spec [of _ "length envs"])
  then have "unat (backBufferIndex env) \<noteq> unat j" by (simp add: word_unat_eq_iff)
  with ih show ?case by (simp add: render_frame_fields(2) [OF fr])
qed

lemma run_frames_last_use:
  "run_frames f envs st0 = Some (Inr st) \<Longrightarrow>
   swapchain_signals (graphicsQueue st0) = [] \<Longrightarrow>
   \<forall>env\<in>set envs. unat (backBufferIndex env) < length (swapchainFenceValues st0) \<Longrightarrow>
   last_use envs j m \<Longrightarrow>
   swapchain_signals (graphicsQueue st) ! m = ucast (swapchainFenceValues st ! unat j)"
proof (induction envs arbitrary: st m rule: rev_induct)
  case Nil
  then show ?case by (simp add: last_use_def)
next
  case (snoc env envs)
  from snoc.prems(1) obtain s where r: "run_frames f envs st0 = Some (Inr s)"
    and fr: "render_frame f env s = Some (Inr st)" by (rule run_frames_snoc_Inr)
  note len = run_frames_length [OF r]
  from snoc.prems(3) have rng: "\<forall>e\<in>set envs. unat (backBufferIndex e) < length (swapchainFenceValues st0)"
    and rng': "unat (backBufferIndex env) < length (swapchainFenceValues s)"
    by (simp_all add: len)
  have sl: "length (swapchain_signals (graphicsQueue s)) = length envs"
    using len snoc.prems(2) by simp
  show ?case
  proof (cases "m = length envs")
    case True
    with snoc.prems(4) have j: "j = backBufferIndex env" by (simp add: last_use_def)
    show ?thesis
      by (simp add: render_frame_signals [OF fr] True sl [symmetric] j)
  next
    case False
    with snoc.prems(4) have m: "m < length envs" by (simp add: last_use_def)
    from snoc.prems(4) m have ne: "backBufferIndex env \<noteq> j"
      by (auto simp: last_use_def nth_append dest: spec [of _ "length envs"])
    from snoc.prems(4) m have "last_use envs j m"
      by (auto simp: last_use_def nth_append split: if_splits)
    from snoc.IH [OF r snoc.prems(2) rng this]
    have ih: "swapchain_signals (graphicsQueue s) ! m = ucast (swapchainFenceValues s ! unat j)" .
    from ne have "unat (backBufferIndex env) \<noteq> unat j" by (simp add: word_unat_eq_iff)
    with ih m sl show ?thesis
      by (simp add: render_frame_signals [OF fr] render_frame_fields(2) [OF fr] nth_append)
  qed
qed

lemma run_frames_values:
  "run_frames f envs st0 = Some (Inr st) \<Longrightarrow>
   swapchain_signals (graphicsQueue st0) = [] \<Longrightarrow>
   swapchainFenceValues st0 ! unat (swapchainFrameIndex st0) = 0 \<Longrightarrow>
   \<forall>env\<in>set envs. unat (backBufferIndex env) < length (swapchainFenceValues st0) \<Longrightarrow>
   swapchainFenceValues st ! unat (swapchainFrameIndex st) = word_of_nat (length envs) \<and>
   swapchain_signals (graphicsQueue st) =
     map (\<lambda>m. ucast (word_of_nat (Suc m) :: u32)) [0..<length envs]"
proof (induction envs arbitrary: st rule: rev_induct)
  case Nil
  then show ?case by simp
next
  case (snoc env envs)
  from snoc.prems(1) obtain s where r: "run_frames f envs st0 = Some (Inr s)"
    and fr: "render_frame f env s = Some (Inr st)" by (rule run_frames_snoc_Inr)
  note len = run_frames_length [OF r]
  from snoc.prems(4) have rng: "\<forall>e\<in>set envs. unat (backBufferIndex e) < length (swapchainFenceValues st0)"
    and rng': "unat (backBufferIndex env) < length (swapchainFenceValues s)"
    by (simp_all add: len)
  from snoc.IH [OF r snoc.prems(2,3) rng]
  have v: "swapchainFenceValues s ! unat (swapchainFrameIndex s) = word_of_nat (length envs)"
    and sg: "swapchain_signals (graphicsQueue s) =
               map (\<lambda>m. ucast (word_of_nat (Suc m) :: u32)) [0..<length envs]"
    by simp_all
  have new: "swapchainFenceValues st ! unat (backBufferIndex env) = (word_of_nat (Suc (length envs)) :: u32)"
    using rng' by (simp add: render_frame_fields(2) [OF fr] v)
  have "swapchainFrameIndex st = backBufferIndex env"
    by (rule render_frame_fields(1) [OF fr])
  with new sg show ?case
    by (simp add: render_frame_signals [OF fr])
qed

text \<open>Arithmetic of the three slots, and when the frame-begin block returns.\<close>

lemma mod3_distinct: "m < n \<Longrightarrow> n \<le> m + 2 \<Longrightarrow> (s + m) mod 3 \<noteq> (s + n) mod (3::nat)"
proof -
  assume "m < n" "n \<le> m + 2"
  then have "n = m + 1 \<or> n = m + 2" by arith
  then show ?thesis
  proof
    assume "n = m + 1"
    then show ?thesis by (simp add: add.assoc [symmetric]) presburger
  next
    assume "n = m + 2"
    then show ?thesis by (simp add: add.assoc [symmetric]) presburger
  qed
qed

lemma mod3_shift: "3 \<le> n \<Longrightarrow> (s + (n - 3)) mod 3 = (s + n) mod (3::nat)"
proof -
  assume "3 \<le> n"
  then have "s + n = s + (n - 3) + 3" by simp
  then show ?thesis by (metis mod_add_self2)
qed

lemma round_robin_nth:
  assumes "round_robin s envs" and "m < length envs"
  shows "unat (backBufferIndex (envs ! m)) = (s + m) mod 3"
proof -
  from assms(1) have "map (\<lambda>env. unat (backBufferIndex env)) envs ! m =
                      map (\<lambda>m. (s + m) mod bufferingCount) [0..<length envs] ! m"
    by (simp add: round_robin_def)
  with assms(2) show ?thesis by (simp add: bufferingCount_def)
qed

lemma swapchain_begin_returns:
  assumes "\<not> hrSetEvent_failed env"
    and "now st \<le> t" and "ucast (swapchainFenceValues st ! unat (backBufferIndex env)) \<le> f t"
  shows "\<exists>st1. swapchain_begin f env st = Some (Inr st1)"
proof -
  let ?v = "ucast (swapchainFenceValues st ! unat (backBufferIndex env)) :: u64"
  from assms(2,3) have "?v \<le> f (now st + (t - now st))" by simp
  from wait_fence_returns [of ?v f "now st" "t - now st", OF this]
  obtain t' where "wait_fence f ?v (now st) = Some t'" ..
  with assms(1) show ?thesis by (simp add: swapchain_begin_cases)
qed

lemma swapchain_begin_None_iff:
  "swapchain_begin f env st = None \<longleftrightarrow>
      \<not> hrSetEvent_failed env \<and>
      (\<forall>t\<ge>now st. f t < ucast (swapchainFenceValues st ! unat (backBufferIndex env)))"
proof
  let ?v = "ucast (swapchainFenceValues st ! unat (backBufferIndex env)) :: u64"
  assume n: "swapchain_begin f env st = None"
  then have nf: "\<not> hrSetEvent_failed env" and lt: "\<not> ?v \<le> f (now st)"
    and w: "wait_fence f ?v (now st) = None"
    by (auto simp: swapchain_begin_cases split: if_splits)
  have "f t < ?v" if "now st \<le> t" for t
  proof (rule ccontr)
    assume "\<not> f t < ?v"
    then have "?v \<le> f (now st + (t - now st))" using that by (simp add: not_less)
    from wait_fence_returns [of ?v f "now st" "t - now st", OF this] w show False by simp
  qed
  with nf show "\<not> hrSetEvent_failed env \<and> (\<forall>t\<ge>now st. f t < ?v)" by blast
next
  let ?v = "ucast (swapchainFenceValues st ! unat (backBufferIndex env)) :: u64"
  assume h: "\<not> hrSetEvent_failed env \<and> (\<forall>t\<ge>now st. f t < ?v)"
  then have "wait_fence f ?v (now st) = None" by (simp add: wait_fence_None)
  moreover from h have "\<not> ?v \<le> f (now st)" by (simp add: not_le)
  ultimately show "swapchain_begin f env st = None"
    using h by (simp add: swapchain_begin_cases)
qed

lemma swapchain_begin_Inl_iff:
  "swapchain_begin f env st = Some (Inl e) \<longleftrightarrow>
      f (now st) < ucast (swapchainFenceValues st ! unat (backBufferIndex env)) \<and>
      hrSetEvent_failed env \<and> e = EXIT_FAILURE ''Fence SetEventOnCompletion failed.''"
  by (auto simp: swapchain_begin_cases not_le split: if_splits)

text \<open>Three and four iterations on the slots 0, 1, 2, 0 with a GPU that keeps up do return.\<close>

lemma three_frames_run:
  "\<exists>st. run_frames fence_ticking [frame_ok 0, frame_ok 1, frame_ok 2] renderer0 = Some (Inr st)"
proof -
  have "map_option (map_sum id (\<lambda>s. ()))
          (run_frames fence_ticking [frame_ok 0, frame_ok 1, frame_ok 2] renderer0) = Some (Inr ())"
    by code_simp
  then show ?thesis
    by (cases "run_frames fence_ticking [frame_ok 0, frame_ok 1, frame_ok 2] renderer0")
       (auto simp: map_sum_def split: sum.splits)
qed

lemma four_frames_run:
  "\<exists>st. run_frames fence_ticking ([frame_ok 0, frame_ok 1, frame_ok 2] @ [frame_ok 0]) renderer0 =
         Some (Inr st)"
proof -
  have "map_option (map_sum id (\<lambda>s. ()))
          (run_frames fence_ticking ([frame_ok 0, frame_ok 1, frame_ok 2] @ [frame_ok 0]) renderer0) =
        Some (Inr ())"
    by code_simp
  then show ?thesis
    by (cases "run_frames fence_ticking ([frame_ok 0, frame_ok 1, frame_ok 2] @ [frame_ok 0]) renderer0")
       (auto simp: map_sum_def split: sum.splits)
qed

section \<open>Properties of the statements\<close>

lemma call_simps:
  "calls (call f r) = (if progress r = Running then calls r @ [f] else calls r)"
  "progress (call f r) = progress r"
  "errors (call f r) = errors r"
  by (simp_all add: call_def)

lemma log_error_simps:
  "calls (log_error m i r) = calls r"
  "progress (log_error m i r) = progress r"
  by (simp_all add: log_error_def)

lemma return_with_simps:
  "calls (return_with c r) = calls r"
  "progress (return_with c r) = (if progress r = Running then Exited c else progress r)"
  by (simp_all add: return_with_def)

lemma wait_for_ever_simps:
  "calls (wait_for_ever r) = calls r"
  "progress (wait_for_ever r) = (if progress r = Running then Waiting else progress r)"
  by (simp_all add: wait_for_ever_def)

lemma only_calls_call: "f \<in> A \<Longrightarrow> only_calls A (call f)"
  by (auto simp: only_calls_def call_simps)

lemma only_calls_log_error: "only_calls A (log_error m i)"
  by (simp add: only_calls_def log_error_simps)

lemma only_calls_return_with: "only_calls A (return_with c)"
  by (simp add: only_calls_def return_with_simps)

lemma only_calls_wait_for_ever: "only_calls A wait_for_ever"
  by (simp add: only_calls_def wait_for_ever_simps)

lemma only_calls_block: "list_all (only_calls A) ss \<Longrightarrow> only_calls A (block ss)"
proof (induction ss)
  case Nil
  show ?case by (simp add: only_calls_def)
next
  case (Cons s ss)
  then have s: "only_calls A s" and ss: "only_calls A (block ss)" by simp_all
  show ?case
    unfolding only_calls_def
  proof
    fix r
    from ss have "set (calls (block ss (s r))) \<subseteq> set (calls (s r)) \<union> A"
      by (simp add: only_calls_def)
    moreover from s have "set (calls (s r)) \<subseteq> set (calls r) \<union> A"
      by (simp add: only_calls_def)
    ultimately show "set (calls (block (s # ss) r)) \<subseteq> set (calls r) \<union> A"
      by auto
  qed
qed

lemma only_calls_if_then: "only_calls A s \<Longrightarrow> only_calls A (if_then c s)"
  by (simp add: only_calls_def if_then_def)

lemma only_calls_for_each: "\<forall>i. only_calls A (body i) \<Longrightarrow> only_calls A (for_each n body)"
  unfolding for_each_def by (rule only_calls_block) (simp add: list_all_iff)

lemma only_calls_return_if: "only_calls A (return_if env m i c)"
  unfolding return_if_def
  by (intro only_calls_if_then only_calls_block)
     (simp add: only_calls_log_error only_calls_return_with)

lemma only_calls_log_if: "only_calls A (log_if env m i)"
  unfolding log_if_def by (intro only_calls_if_then only_calls_log_error)

lemmas only_calls_simps =
  only_calls_call only_calls_log_error only_calls_return_with only_calls_wait_for_ever
  only_calls_block only_calls_if_then only_calls_for_each only_calls_return_if only_calls_log_if

lemma steady_call: "steady (call f)"
  by (auto simp: steady_def call_simps)

lemma steady_log_error: "steady (log_error m i)"
  by (simp add: steady_def log_error_simps)

lemma steady_return_with: "steady (return_with c)"
  by (simp add: steady_def return_with_simps)

lemma steady_wait_for_ever: "steady wait_for_ever"
  by (simp add: steady_def wait_for_ever_simps)

lemma steady_block: "list_all steady ss \<Longrightarrow> steady (block ss)"
proof (induction ss)
  case Nil
  show ?case by (simp add: steady_def)
next
  case (Cons s ss)
  then have s: "steady s" and ss: "steady (block ss)" by simp_all
  show ?case
    unfolding steady_def
  proof (intro allI conjI impI)
    fix r
    from s ss show "set (calls r) \<subseteq> set (calls (block (s # ss) r))"
      unfolding steady_def by (metis block.simps(2) subset_trans)
    assume "progress (block (s # ss) r) = Running"
    with ss have "progress (s r) = Running" by (simp add: steady_def)
    with s show "progress r = Running" by (simp add: steady_def)
  qed
qed

lemma steady_if_then: "steady s \<Longrightarrow> steady (if_then c s)"
  by (simp add: steady_def if_then_def)

lemma steady_for_each: "\<forall>i. steady (body i) \<Longrightarrow> steady (for_each n body)"
  unfolding for_each_def by (rule steady_block) (simp add: list_all_iff)

lemma steady_return_if: "steady (return_if env m i c)"
  unfolding return_if_def
  by (intro steady_if_then steady_block) (simp add: steady_log_error steady_return_with)

lemma steady_log_if: "steady (log_if env m i)"
  unfolding log_if_def by (intro steady_if_then steady_log_error)

lemmas steady_simps =
  steady_call steady_log_error steady_return_with steady_wait_for_ever
  steady_block steady_if_then steady_for_each steady_return_if steady_log_if

lemma makes_call: "makes f (call f)"
  by (simp add: makes_def call_simps)

lemma makes_block:
  assumes "s \<in> set ss" and "makes f s" and "list_all steady ss"
  shows "makes f (block ss)"
  using assms
proof (induction ss)
  case Nil
  then show ?case by simp
next
  case (Cons t ts)
  from Cons.prems(3) have t: "steady t" and ts: "list_all steady ts" by simp_all
  from ts have sts: "steady (block ts)" by (rule steady_block)
  show ?case
  proof (cases "s \<in> set ts")
    case True
    from Cons.IH [OF True Cons.prems(2) ts] show ?thesis
      by (simp add: makes_def)
  next
    case False
    with Cons.prems(1) have st: "s = t" by simp
    show ?thesis
      unfolding makes_def
    proof (intro allI impI)
      fix r
      assume run: "progress (block (t # ts) r) = Running"
      with sts have "progress (t r) = Running" by (simp add: steady_def)
      with Cons.prems(2) st have "f \<in> set (calls (t r))" by (simp add: makes_def)
      moreover from sts have "set (calls (t r)) \<subseteq> set (calls (block ts (t r)))"
        by (simp add: steady_def)
      ultimately show "f \<in> set (calls (block (t # ts) r))" by auto
    qed
  qed
qed

lemma makes_if_then: "c \<Longrightarrow> makes f s \<Longrightarrow> makes f (if_then c s)"
  by (simp add: makes_def if_then_def)

lemma makes_for_each:
  assumes "0 < n" and "makes f (body 0)" and "\<forall>i. steady (body i)"
  shows "makes f (for_each n body)"
  unfolding for_each_def
proof (rule makes_block [where s = "body 0"])
  from assms(1) show "body 0 \<in> set (map body [0..<n])" by auto
  from assms(3) show "list_all steady (map body [0..<n])" by (simp add: list_all_iff)
qed (rule assms(2))

section \<open>The blocks of the Vulkan renderer\<close>

lemma block_two: "block [s, t] = (\<lambda>r. t (s r))"
  by (rule ext) simp

lemma only_calls_comp: "only_calls A s \<Longrightarrow> only_calls A t \<Longrightarrow> only_calls A (\<lambda>r. t (s r))"
  using only_calls_block [of A "[s, t]"] by (simp add: block_two)

lemma steady_comp: "steady s \<Longrightarrow> steady t \<Longrightarrow> steady (\<lambda>r. t (s r))"
  using steady_block [of "[s, t]"] by (simp add: block_two)

lemma find_queue_families_stmt:
  assumes "''vkGetPhysicalDeviceSurfaceSupportKHR'' \<in> A"
  shows "only_calls A (\<lambda>r. snd (find_queue_families qs i fam r)) \<and>
         steady (\<lambda>r. snd (find_queue_families qs i fam r))"
proof (induction qs arbitrary: i fam)
  case Nil
  show ?case by (cases fam) (simp add: only_calls_def steady_def)
next
  case (Cons q qs)
  obtain g p where fam: "fam = (g, p)" by (cases fam)
  let ?f = "''vkGetPhysicalDeviceSurfaceSupportKHR''"
  let ?g = "if g = - 1 \<and> queueFlags q AND VK_QUEUE_GRAPHICS_BIT \<noteq> 0 then word_of_nat i else g"
  let ?p = "if presentSupport q = VK_SUCCESS then word_of_nat i else p"
  have eq: "(\<lambda>r. snd (find_queue_families (q # qs) i fam r)) =
      (if p = - 1
       then if vrSupportKHR_failed q
            then block [call ?f, log_error ''Physical Device Surface Support failed.'' 0, return_with 0]
            else (\<lambda>r. snd (find_queue_families qs (Suc i) (?g, ?p) (call ?f r)))
       else (\<lambda>r. snd (find_queue_families qs (Suc i) (?g, p) r)))"
    by (rule ext) (simp add: fam Let_def)
  have c: "only_calls A (call ?f)" "steady (call ?f)"
    using assms by (simp_all add: only_calls_call steady_call)
  have b: "only_calls A (block [call ?f, log_error ''Physical Device Surface Support failed.'' 0, return_with 0])"
    "steady (block [call ?f, log_error ''Physical Device Surface Support failed.'' 0, return_with 0])"
    using assms by (simp_all add: only_calls_simps steady_simps)
  show ?case
    unfolding eq
    using b c only_calls_comp [OF c(1) Cons.IH [THEN conjunct1]]
      steady_comp [OF c(2) Cons.IH [THEN conjunct2]] Cons.IH
    by simp
qed


lemma stmtI:
  assumes "\<And>r. set (calls r) \<subseteq> set (calls (s r)) \<and> set (calls (s r)) \<subseteq> set (calls r) \<union> A \<and>
               (progress (s r) = Running \<longrightarrow> progress r = Running)"
  shows "only_calls A s \<and> steady s"
  using assms by (simp add: only_calls_def steady_def)

lemma select_physical_device_stmt:
  assumes A: "''vkEnumerateDeviceExtensionProperties'' \<in> A"
    "''vkGetPhysicalDeviceQueueFamilyProperties'' \<in> A"
    "''vkGetPhysicalDeviceSurfaceSupportKHR'' \<in> A"
  shows "only_calls A (\<lambda>r. snd (select_physical_device ds k r)) \<and>
         steady (\<lambda>r. snd (select_physical_device ds k r))"
proof -
  define Q where "Q = (\<lambda>(r :: run) (r' :: run). set (calls r) \<subseteq> set (calls r') \<and> set (calls r') \<subseteq> set (calls r) \<union> A \<and>
                         (progress r' = Running \<longrightarrow> progress r = Running))"
  have trans: "Q r r''" if "Q r r'" "Q r' r''" for r r' r''
    using that by (auto simp: Q_def)
  have stmt: "Q r (s r)" if "only_calls A s" "steady s" for s r
    using that by (simp add: Q_def only_calls_def steady_def)
  let ?e = "call ''vkEnumerateDeviceExtensionProperties''"
  let ?q = "block [call ''vkGetPhysicalDeviceQueueFamilyProperties'',
                   call ''vkGetPhysicalDeviceQueueFamilyProperties'']"
  have e: "Q r (?e r)" for r
    by (rule stmt) (simp_all add: only_calls_call steady_call A)
  have q: "Q r (?q r)" for r
    by (rule stmt [of ?q]) (simp_all add: only_calls_simps steady_simps A)
  have fail: "Q r (block [log_error m 0, return_with 1] r)" for r m
    by (rule stmt [of "block [log_error m 0, return_with 1]"])
       (simp_all add: only_calls_simps steady_simps)
  have fq: "Q r (snd (find_queue_families qs i fam r))" for r qs i fam
    using find_queue_families_stmt [OF A(3), of qs i fam]
    by (simp add: Q_def only_calls_def steady_def)
  have sel: "Q r (snd (select_physical_device ds k r))" for r
  proof (induction ds arbitrary: k r)
    case Nil
    show ?case by (simp add: Q_def)
  next
    case (Cons d ds)
    let ?r1 = "?e r"
    let ?r2 = "?e ?r1"
    let ?r3 = "?q ?r2"
    let ?r4 = "snd (find_queue_families (queueFamilies d) 0 (- 1, - 1) ?r3)"
    have q1: "Q r ?r1" by (rule e)
    have q2: "Q r ?r2" by (rule trans [OF q1 e])
    have q3: "Q r ?r3" by (rule trans [OF q2 q])
    have q4: "Q r ?r4" by (rule trans [OF q3 fq])
    have f1: "Q r (block [log_error ''Enumerate Devices extensions count failed!'' 0, return_with 1] ?r1)"
      by (rule trans [OF q1 fail])
    have f2: "Q r (block [log_error ''Enumerate Devices extensions failed!'' 0, return_with 1] ?r2)"
      by (rule trans [OF q2 fail])
    have n2: "Q r (snd (select_physical_device ds (Suc k) ?r2))"
      by (rule trans [OF q2 Cons.IH])
    have n4: "Q r (snd (select_physical_device ds (Suc k) ?r4))"
      by (rule trans [OF q4 Cons.IH])
    show ?case
      using f1 f2 n2 n4 q4 by (simp add: Let_def split_beta)
  qed
  show ?thesis
    by (rule stmtI) (use sel in \<open>simp add: Q_def\<close>)
qed

lemma vulkan_select_device_stmt:
  assumes A: "''vkEnumerateDeviceExtensionProperties'' \<in> A"
    "''vkGetPhysicalDeviceQueueFamilyProperties'' \<in> A"
    "''vkGetPhysicalDeviceSurfaceSupportKHR'' \<in> A"
  shows "only_calls A (vulkan_select_device env) \<and> steady (vulkan_select_device env)"
proof (rule stmtI)
  fix r
  let ?r' = "snd (select_physical_device (physicalDevices env) 0 r)"
  from select_physical_device_stmt [OF A, of "physicalDevices env" 0]
  have a: "set (calls r) \<subseteq> set (calls ?r')" "set (calls ?r') \<subseteq> set (calls r) \<union> A"
    "progress ?r' = Running \<longrightarrow> progress r = Running"
    by (simp_all add: only_calls_def steady_def)
  have b: "vulkan_select_device env r = ?r' \<or>
           vulkan_select_device env r =
             block [log_error ''No suitable PhysicalDevice found.'' 0, return_with 1] ?r'"
    by (simp add: vulkan_select_device_def split: prod.splits option.splits)
  have c: "set (calls (block [log_error ''No suitable PhysicalDevice found.'' 0, return_with 1] ?r')) =
             set (calls ?r')"
    "progress (block [log_error ''No suitable PhysicalDevice found.'' 0, return_with 1] ?r') = Running \<longrightarrow>
       progress ?r' = Running"
    by (simp_all add: log_error_simps return_with_simps)
  from a b c
  show "set (calls r) \<subseteq> set (calls (vulkan_select_device env r)) \<and>
        set (calls (vulkan_select_device env r)) \<subseteq> set (calls r) \<union> A \<and>
        (progress (vulkan_select_device env r) = Running \<longrightarrow> progress r = Running)"
    by (elim disjE) simp_all
qed

lemma compile_shader_eq:
  "CompileShaderFromFile env i =
     (if fires env ''Failed to open shader file {%1}'' i
      then log_error ''Failed to open shader file {%1}'' i
      else block [call ''CompileGlslToSpv'', log_if env ''Compile Shader {%1} failed!'' i])"
  by (rule ext) (simp add: CompileShaderFromFile_def)

lemma vulkan_blocks_steady:
  "steady (vulkan_GLFW env)" "steady (vulkan_Instance env)" "steady (vulkan_Surface env)"
  "steady (vulkan_Device env)" "steady (vulkan_Swapchain env)" "steady (vulkan_Commands env)"
  "steady (vulkan_Scene_Resources env)" "steady (vulkan_Render_Pass env)"
  "steady (vulkan_Framebuffers env)" "steady (vulkan_DescriptorSet env)"
  "steady (vulkan_Pipeline env)" "steady vulkan_Loop" "steady vulkan_Uninitialization"
  by (simp_all add: vulkan_GLFW_def vulkan_Instance_def vulkan_Surface_def vulkan_Device_def
      vulkan_Swapchain_def vulkan_Commands_def vulkan_Scene_Resources_def vulkan_Render_Pass_def
      vulkan_Framebuffers_def vulkan_DescriptorSet_def vulkan_Pipeline_def vulkan_Loop_def
      vulkan_Uninitialization_def FindMemoryType_def compile_shader_eq steady_simps
      vulkan_select_device_stmt [of UNIV, simplified])

lemma vulkan_blocks_only_calls:
  "only_calls (- set vulkan_upload_and_render_calls) (vulkan_GLFW env)" "only_calls (- set vulkan_upload_and_render_calls) (vulkan_Instance env)"
  "only_calls (- set vulkan_upload_and_render_calls) (vulkan_Surface env)" "only_calls (- set vulkan_upload_and_render_calls) (vulkan_Device env)"
  "only_calls (- set vulkan_upload_and_render_calls) (vulkan_Swapchain env)" "only_calls (- set vulkan_upload_and_render_calls) (vulkan_Commands env)"
  "only_calls (- set vulkan_upload_and_render_calls) (vulkan_Scene_Resources env)" "only_calls (- set vulkan_upload_and_render_calls) (vulkan_Render_Pass env)"
  "only_calls (- set vulkan_upload_and_render_calls) (vulkan_Framebuffers env)" "only_calls (- set vulkan_upload_and_render_calls) (vulkan_DescriptorSet env)"
  "only_calls (- set vulkan_upload_and_render_calls) (vulkan_Pipeline env)" "only_calls (- set vulkan_upload_and_render_calls) vulkan_Loop"
  "only_calls (- set vulkan_upload_and_render_calls) vulkan_Uninitialization"
  by (simp_all add: vulkan_GLFW_def vulkan_Instance_def vulkan_Surface_def vulkan_Device_def
      vulkan_Swapchain_def vulkan_Commands_def vulkan_Scene_Resources_def vulkan_Render_Pass_def
      vulkan_Framebuffers_def vulkan_DescriptorSet_def vulkan_Pipeline_def vulkan_Loop_def
      vulkan_Uninitialization_def FindMemoryType_def compile_shader_eq only_calls_simps
      vulkan_upload_and_render_calls_def
      vulkan_select_device_stmt [of "- set vulkan_upload_and_render_calls", unfolded vulkan_upload_and_render_calls_def, simplified])


lemma vulkan_Initialization_steady: "steady (vulkan_Initialization env)"
  by (simp add: vulkan_Initialization_def steady_block steady_call vulkan_blocks_steady)

lemma vulkan_main_calls:
  "set (calls (vulkan_main env)) \<inter> set vulkan_upload_and_render_calls = {}"
proof -
  have c: "only_calls (- set vulkan_upload_and_render_calls) (call ''SA::Debug::InitDefaultLogger'')"
    by (rule only_calls_call) (simp add: vulkan_upload_and_render_calls_def)
  have i: "only_calls (- set vulkan_upload_and_render_calls) (vulkan_Initialization env)"
    unfolding vulkan_Initialization_def
    by (rule only_calls_block) (simp add: vulkan_blocks_only_calls c)
  have "only_calls (- set vulkan_upload_and_render_calls)
          (block [vulkan_Initialization env, vulkan_Loop, vulkan_Uninitialization, return_with 0])"
    by (rule only_calls_block) (simp add: i vulkan_blocks_only_calls only_calls_return_with)
  then have "set (calls (vulkan_main env)) \<subseteq> set (calls run0) \<union> - set vulkan_upload_and_render_calls"
    unfolding vulkan_main_def only_calls_def by blast
  then show ?thesis by (auto simp: run0_def)
qed

lemma vulkan_Initialization_makes:
  "makes ''vkEnumeratePhysicalDevices'' (vulkan_Initialization env)"
  "makes ''vkCreateDevice'' (vulkan_Initialization env)"
  "makes ''vkCreateSwapchainKHR'' (vulkan_Initialization env)"
  "makes ''vkCreateGraphicsPipelines'' (vulkan_Initialization env)"
proof -
  have all: "list_all steady
     [call ''SA::Debug::InitDefaultLogger'', vulkan_GLFW env, vulkan_Instance env,
      vulkan_Surface env, vulkan_Device env, vulkan_Swapchain env, vulkan_Commands env,
      vulkan_Scene_Resources env, vulkan_Render_Pass env, vulkan_Framebuffers env,
      vulkan_DescriptorSet env, vulkan_Pipeline env]"
    by (simp add: steady_call vulkan_blocks_steady)
  have sel: "steady (vulkan_select_device env)"
    using vulkan_select_device_stmt [of UNIV env] by simp
  have d1: "makes ''vkEnumeratePhysicalDevices'' (vulkan_Device env)"
    unfolding vulkan_Device_def
    by (rule makes_block [where s = "call ''vkEnumeratePhysicalDevices''"])
       (simp_all add: makes_call steady_simps sel)
  have d2: "makes ''vkCreateDevice'' (vulkan_Device env)"
    unfolding vulkan_Device_def
    by (rule makes_block [where s = "call ''vkCreateDevice''"])
       (simp_all add: makes_call steady_simps sel)
  have s: "makes ''vkCreateSwapchainKHR'' (vulkan_Swapchain env)"
    unfolding vulkan_Swapchain_def
    by (rule makes_block [where s = "call ''vkCreateSwapchainKHR''"])
       (simp_all add: makes_call steady_simps)
  have p: "makes ''vkCreateGraphicsPipelines'' (vulkan_Pipeline env)"
    unfolding vulkan_Pipeline_def
    by (rule makes_block [where s = "call ''vkCreateGraphicsPipelines''"])
       (simp_all add: makes_call steady_simps compile_shader_eq)
  show "makes ''vkEnumeratePhysicalDevices'' (vulkan_Initialization env)"
    unfolding vulkan_Initialization_def
    by (rule makes_block [where s = "vulkan_Device env", OF _ d1 all]) simp
  show "makes ''vkCreateDevice'' (vulkan_Initialization env)"
    unfolding vulkan_Initialization_def
    by (rule makes_block [where s = "vulkan_Device env", OF _ d2 all]) simp
  show "makes ''vkCreateSwapchainKHR'' (vulkan_Initialization env)"
    unfolding vulkan_Initialization_def
    by (rule makes_block [where s = "vulkan_Swapchain env", OF _ s all]) simp
  show "makes ''vkCreateGraphicsPipelines'' (vulkan_Initialization env)"
    unfolding vulkan_Initialization_def
    by (rule makes_block [where s = "vulkan_Pipeline env", OF _ p all]) simp
qed

section \<open>The blocks of the DirectX12 renderers\<close>

lemma makes_return_with: "makes f (return_with c)"
  by (simp add: makes_def return_with_simps)

lemma WaitDeviceIdle_calls_steady: "steady (WaitDeviceIdle_calls env b)"
  by (simp add: WaitDeviceIdle_calls_def steady_simps)

lemma submit_checked_buffer:
  "submit_checked (SubmitBufferToGPU_calls env b) m =
     (if staging_fails env b
      then block [call ''CreateCommittedResource'', log_error ''Create Staging Buffer failed!'' 0,
                  log_error m 0, return_with 1]
      else block [call ''CreateCommittedResource'', call ''Map'', call ''std::memcpy'',
                  call ''Unmap'', call ''CopyBufferRegion'', call ''ResourceBarrier'',
                  call ''Close'', call ''ExecuteCommandLists'', WaitDeviceIdle_calls env b,
                  call ''Reset'', call ''Reset''])"
  by (rule ext) (simp add: submit_checked_def SubmitBufferToGPU_calls_def Let_def if_then_def)

lemma submit_checked_texture:
  "submit_checked (SubmitTextureToGPU_calls env t) m =
     (if staging_fails env t
      then block [call ''CreateCommittedResource'', log_error ''Create Staging Buffer failed!'' 0,
                  log_error m 0, return_with 1]
      else block [call ''CreateCommittedResource'', call ''Map'', call ''std::memcpy'',
                  call ''Unmap'', call ''GetDesc'',
                  for_each (mip_levels env t) (\<lambda>i. call ''CopyTextureRegion''),
                  call ''ResourceBarrier'', call ''Close'', call ''ExecuteCommandLists'',
                  WaitDeviceIdle_calls env t, call ''Reset'', call ''Reset''])"
  by (rule ext) (simp add: submit_checked_def SubmitTextureToGPU_calls_def Let_def if_then_def)

lemma submit_checked_steady:
  "steady (submit_checked (SubmitBufferToGPU_calls env b) m)"
  "steady (submit_checked (SubmitTextureToGPU_calls env b) m)"
  by (simp_all add: submit_checked_buffer submit_checked_texture steady_simps
      WaitDeviceIdle_calls_steady)

lemma dx12_buffer_steady: "steady (dx12_buffer env b m1 m2)"
  by (simp add: dx12_buffer_def submit_checked_steady steady_simps)

lemma dx12_texture_steady: "steady (dx12_texture env k t m1 m2)"
  by (simp add: dx12_texture_def submit_checked_steady steady_simps)

lemma dx12_buffer_makes:
  "makes ''CopyBufferRegion'' (dx12_buffer env b m1 m2)"
  "makes ''ExecuteCommandLists'' (dx12_buffer env b m1 m2)"
proof -
  have f: "makes f (submit_checked (SubmitBufferToGPU_calls env b) m2)"
    if "f = ''CopyBufferRegion'' \<or> f = ''ExecuteCommandLists''" for f
  proof (cases "staging_fails env b")
    case True
    show ?thesis
      unfolding submit_checked_buffer using True
      by (simp, intro makes_block [where s = "return_with 1"])
         (simp_all add: makes_return_with steady_simps)
  next
    case False
    show ?thesis
      unfolding submit_checked_buffer using False that
      by (simp, intro makes_block [where s = "call f"])
         (auto simp: makes_call steady_simps WaitDeviceIdle_calls_steady)
  qed
  have g: "makes f (dx12_buffer env b m1 m2)"
    if "f = ''CopyBufferRegion'' \<or> f = ''ExecuteCommandLists''" for f
    unfolding dx12_buffer_def
    by (rule makes_block [where s = "submit_checked (SubmitBufferToGPU_calls env b) m2"])
       (simp_all add: f [OF that] steady_simps submit_checked_steady)
  show "makes ''CopyBufferRegion'' (dx12_buffer env b m1 m2)" by (rule g) simp
  show "makes ''ExecuteCommandLists'' (dx12_buffer env b m1 m2)" by (rule g) simp
qed

lemma dx12_blocks_steady:
  "steady (dx12_GLFW env)" "steady (dx12_Factory env)" "steady (dx12_Device env)"
  "steady (dx12_Swapchain env)" "steady (dx12_Commands env)" "steady (dx12_Scene_Resources env)"
  "steady (dx12_Pipeline env)" "steady (dx12_Resources env)"
  by (simp_all add: dx12_GLFW_def dx12_Factory_def dx12_Device_def dx12_Swapchain_def
      dx12_Commands_def dx12_Scene_Resources_def dx12_Pipeline_def dx12_Resources_def
      steady_simps dx12_buffer_steady dx12_texture_steady)

lemma dx12_Initialization_makes:
  "makes ''EnumAdapterByGpuPreference'' (dx12_Initialization env)"
  "makes ''D3D12CreateDevice'' (dx12_Initialization env)"
  "makes ''CreateSwapChainForHwnd'' (dx12_Initialization env)"
  "makes ''CreateGraphicsPipelineState'' (dx12_Initialization env)"
  "makes ''CopyBufferRegion'' (dx12_Initialization env)"
  "makes ''ExecuteCommandLists'' (dx12_Initialization env)"
proof -
  have all: "list_all steady
     [call ''SA::Debug::InitDefaultLogger'', dx12_GLFW env, dx12_Factory env, dx12_Device env,
      dx12_Swapchain env, dx12_Commands env, dx12_Scene_Resources env, dx12_Pipeline env,
      dx12_Resources env]"
    by (simp add: steady_call dx12_blocks_steady)
  have d: "makes f (dx12_Device env)"
    if "f = ''EnumAdapterByGpuPreference'' \<or> f = ''D3D12CreateDevice''" for f
    unfolding dx12_Device_def
    by (rule makes_block [where s = "call f"]) (use that in \<open>auto simp: makes_call steady_simps\<close>)
  have s: "makes ''CreateSwapChainForHwnd'' (dx12_Swapchain env)"
    unfolding dx12_Swapchain_def
    by (rule makes_block [where s = "call ''CreateSwapChainForHwnd''"])
       (simp_all add: makes_call steady_simps)
  have p: "makes ''CreateGraphicsPipelineState'' (dx12_Pipeline env)"
    unfolding dx12_Pipeline_def
    by (rule makes_block [where s = "call ''CreateGraphicsPipelineState''"])
       (simp_all add: makes_call steady_simps)
  have r: "makes f (dx12_Resources env)"
    if "f = ''CopyBufferRegion'' \<or> f = ''ExecuteCommandLists''" for f
    unfolding dx12_Resources_def
    by (rule makes_block [where s = "dx12_buffer env ''sphereVertexBuffers[0]''
              ''Create Sphere Vertex Position Buffer failed!''
              ''Sphere Vertex Position Buffer submit failed!''"])
       (use that in \<open>auto simp: dx12_buffer_makes steady_simps dx12_buffer_steady dx12_texture_steady\<close>)
  show "makes ''EnumAdapterByGpuPreference'' (dx12_Initialization env)"
    unfolding dx12_Initialization_def
    by (rule makes_block [where s = "dx12_Device env", OF _ d all]) simp_all
  show "makes ''D3D12CreateDevice'' (dx12_Initialization env)"
    unfolding dx12_Initialization_def
    by (rule makes_block [where s = "dx12_Device env", OF _ d all]) simp_all
  show "makes ''CreateSwapChainForHwnd'' (dx12_Initialization env)"
    unfolding dx12_Initialization_def
    by (rule makes_block [where s = "dx12_Swapchain env", OF _ s all]) simp
  show "makes ''CreateGraphicsPipelineState'' (dx12_Initialization env)"
    unfolding dx12_Initialization_def
    by (rule makes_block [where s = "dx12_Pipeline env", OF _ p all]) simp
  show "makes ''CopyBufferRegion'' (dx12_Initialization env)"
    unfolding dx12_Initialization_def
    by (rule makes_block [where s = "dx12_Resources env", OF _ r all]) simp_all
  show "makes ''ExecuteCommandLists'' (dx12_Initialization env)"
    unfolding dx12_Initialization_def
    by (rule makes_block [where s = "dx12_Resources env", OF _ r all]) simp_all
qed


section \<open>The blocks of the second DirectX12 renderer\<close>

lemma second_SubmitBufferToGPU_eq:
  "second_SubmitBufferToGPU env b =
     (if staging_fails env b
      then block [call ''CreateCommittedResource'', log_error ''Create Staging Buffer failed!'' 0]
      else block [call ''CreateCommittedResource'', call ''Map'', call ''std::memcpy'',
                  call ''Unmap'', call ''CopyBufferRegion'', call ''ResourceBarrier'',
                  call ''Close'', call ''ExecuteCommandLists'', call ''Signal'',
                  call ''SetEventOnCompletion'', call ''WaitForSingleObject'',
                  if_then (never_signalled env b) wait_for_ever, call ''Reset'', call ''Reset''])"
  by (rule ext) (simp add: second_SubmitBufferToGPU_def Let_def)

lemma second_blocks_steady:
  "steady (second_GLFW env)" "steady (second_Factory env)" "steady (second_Device env)"
  "steady (second_Swapchain env)" "steady (second_Commands env)"
  "steady (second_buffer env b m)" "steady (second_texture env k m)"
  "steady (second_Resources env)" "steady (second_Uninitialization env)"
  "steady (second_iteration inp)"
  by (simp_all add: second_GLFW_def second_Factory_def second_Device_def second_Swapchain_def
      second_Commands_def second_buffer_def second_texture_def second_Resources_def
      second_Uninitialization_def second_iteration_def second_SubmitBufferToGPU_eq steady_simps)

lemma second_blocks_only_calls:
  "only_calls (- set d3d12_pipeline_and_render_calls) (second_GLFW env)"
  "only_calls (- set d3d12_pipeline_and_render_calls) (second_Factory env)"
  "only_calls (- set d3d12_pipeline_and_render_calls) (second_Device env)"
  "only_calls (- set d3d12_pipeline_and_render_calls) (second_Swapchain env)"
  "only_calls (- set d3d12_pipeline_and_render_calls) (second_Commands env)"
  "only_calls (- set d3d12_pipeline_and_render_calls) (second_Resources env)"
  "only_calls (- set d3d12_pipeline_and_render_calls) (second_Uninitialization env)"
  by (simp_all add: second_GLFW_def second_Factory_def second_Device_def second_Swapchain_def
      second_Commands_def second_buffer_def second_texture_def second_Resources_def
      second_Uninitialization_def second_SubmitBufferToGPU_eq only_calls_simps
      d3d12_pipeline_and_render_calls_def)

lemma second_Initialization_steady: "steady (second_Initialization env)"
  by (simp add: second_Initialization_def steady_block steady_call second_blocks_steady)

lemma second_Loop_calls:
  "set (calls r) \<subseteq> set (calls (snd (second_Loop inps closing r))) \<and>
   set (calls (snd (second_Loop inps closing r))) \<subseteq> set (calls r) \<union> set second_loop_calls \<and>
   (progress (snd (second_Loop inps closing r)) = Running \<longrightarrow> progress r = Running)"
proof (induction inps closing r rule: second_Loop.induct)
  case (1 inps r)
  show ?case by (auto simp: call_simps second_loop_calls_def)
next
  case (2 r)
  show ?case by simp
next
  case (3 inp inps r)
  let ?s = "block [call ''glfwWindowShouldClose'', second_iteration inp]"
  have eq: "second_iteration inp (call ''glfwWindowShouldClose'' r) = ?s r" by simp
  have o: "only_calls (set second_loop_calls) ?s"
    by (rule only_calls_block)
       (simp add: second_iteration_def only_calls_simps second_loop_calls_def)
  have st: "steady ?s"
    by (rule steady_block) (simp add: steady_call second_blocks_steady)
  from o st have a: "set (calls r) \<subseteq> set (calls (?s r))"
    "set (calls (?s r)) \<subseteq> set (calls r) \<union> set second_loop_calls"
    "progress (?s r) = Running \<longrightarrow> progress r = Running"
    unfolding only_calls_def steady_def by blast+
  from 3 [unfolded eq] a show ?case
    unfolding second_Loop.simps eq by blast
qed

lemma second_main_calls:
  "set (calls (second_main env inps)) \<inter> set d3d12_pipeline_and_render_calls = {}"
proof -
  let ?D = "- set d3d12_pipeline_and_render_calls"
  let ?r1 = "second_Initialization env run0"
  let ?r2 = "snd (second_Loop inps False ?r1)"
  have c: "only_calls ?D (call ''SA::Debug::InitDefaultLogger'')"
    by (rule only_calls_call) (simp add: d3d12_pipeline_and_render_calls_def)
  have "only_calls ?D (second_Initialization env)"
    unfolding second_Initialization_def
    by (rule only_calls_block) (simp add: second_blocks_only_calls c)
  then have "set (calls ?r1) \<subseteq> set (calls run0) \<union> ?D"
    unfolding only_calls_def by blast
  then have r1: "set (calls ?r1) \<subseteq> ?D"
    by (simp add: run0_def)
  have l: "set second_loop_calls \<subseteq> ?D"
    by (simp add: second_loop_calls_def d3d12_pipeline_and_render_calls_def)
  from second_Loop_calls [of ?r1 inps False] r1 l have r2: "set (calls ?r2) \<subseteq> ?D"
    by blast
  have "only_calls ?D (block [second_Uninitialization env, return_with 0])"
    by (rule only_calls_block) (simp add: second_blocks_only_calls only_calls_return_with)
  with r2 have r3: "set (calls (block [second_Uninitialization env, return_with 0] ?r2)) \<subseteq> ?D"
    unfolding only_calls_def by blast
  have "second_main env inps = ?r2 \<or>
        second_main env inps = block [second_Uninitialization env, return_with 0] ?r2"
    by (simp add: second_main_def split: prod.splits bool.splits)
  with r2 r3 show ?thesis by auto
qed

lemma second_Initialization_makes:
  "makes ''EnumAdapterByGpuPreference'' (second_Initialization env)"
  "makes ''D3D12CreateDevice'' (second_Initialization env)"
  "makes ''CreateSwapChainForHwnd'' (second_Initialization env)"
proof -
  have all: "list_all steady
     [call ''SA::Debug::InitDefaultLogger'', second_GLFW env, second_Factory env,
      second_Device env, second_Swapchain env, second_Commands env, second_Resources env]"
    by (simp add: steady_call second_blocks_steady)
  have d: "makes f (second_Device env)"
    if "f = ''EnumAdapterByGpuPreference'' \<or> f = ''D3D12CreateDevice''" for f
    unfolding second_Device_def
    by (rule makes_block [where s = "call f"]) (use that in \<open>auto simp: makes_call steady_simps\<close>)
  have s: "makes ''CreateSwapChainForHwnd'' (second_Swapchain env)"
    unfolding second_Swapchain_def
    by (rule makes_block [where s = "call ''CreateSwapChainForHwnd''"])
       (simp_all add: makes_call steady_simps)
  show "makes ''EnumAdapterByGpuPreference'' (second_Initialization env)"
    unfolding second_Initialization_def
    by (rule makes_block [where s = "second_Device env", OF _ d all]) simp_all
  show "makes ''D3D12CreateDevice'' (second_Initialization env)"
    unfolding second_Initialization_def
    by (rule makes_block [where s = "second_Device env", OF _ d all]) simp_all
  show "makes ''CreateSwapChainForHwnd'' (second_Initialization env)"
    unfolding second_Initialization_def
    by (rule makes_block [where s = "second_Swapchain env", OF _ s all]) simp
qed

lemma second_Initialization_uploads:
  assumes b: "(b, m) \<in> set
      [(''sphereVertexBuffers[0]'', ''Create Sphere Vertex Buffer failed!''),
       (''sphereVertexBuffers[1]'', ''Create Sphere Normal Buffer failed!''),
       (''sphereVertexBuffers[2]'', ''Create Sphere Tangent Buffer failed!''),
       (''sphereVertexBuffers[3]'', ''Create Sphere UV Buffer failed!''),
       (''sphereIndexBuffer'', ''Create Sphere Index Buffer failed!'')]"
    and ok: "\<not> staging_fails env b"
    and f: "f = ''CopyBufferRegion'' \<or> f = ''ExecuteCommandLists''"
  shows "makes f (second_Initialization env)"
proof -
  have all: "list_all steady
     [call ''SA::Debug::InitDefaultLogger'', second_GLFW env, second_Factory env,
      second_Device env, second_Swapchain env, second_Commands env, second_Resources env]"
    by (simp add: steady_call second_blocks_steady)
  have u: "makes f (second_SubmitBufferToGPU env b)"
    unfolding second_SubmitBufferToGPU_eq using ok
    by (simp, intro makes_block [where s = "call f"])
       (use f in \<open>auto simp: makes_call steady_simps\<close>)
  have sb: "steady (second_SubmitBufferToGPU env b)"
    by (simp add: second_SubmitBufferToGPU_eq steady_simps)
  have bu: "makes f (second_buffer env b m)"
    unfolding second_buffer_def
    by (rule makes_block [where s = "second_SubmitBufferToGPU env b"])
       (simp_all add: u sb steady_simps)
  have r: "makes f (second_Resources env)"
    unfolding second_Resources_def
    by (rule makes_block [where s = "second_buffer env b m"])
       (use b in \<open>auto simp: bu steady_simps second_blocks_steady\<close>)
  show ?thesis
    unfolding second_Initialization_def
    by (rule makes_block [where s = "second_Resources env", OF _ r all]) simp
qed


section \<open>Claims about the mip chain\<close>

text \<open>
  Claim C10.  \<open>GenerateMipMaps\<close> adds the chain size to the incoming value of
  \<open>_outTotalSize\<close> without zeroing it first: the reported total is the incoming value plus
  the chain size (in 32 bits), \<open>_data\<close> is resized to that total, and the total equals
  the chain size exactly when the incoming value is 0.
\<close>

theorem GenerateMipMaps_total_accumulates:
  assumes "GenerateMipMaps stbir e buf0 total0 exts0 c l = Some r"
  shows "outTotalSize r = total0 + chain_size e c l \<and>
         length (outData r) = unat (total0 + chain_size e c l) \<and>
         (outTotalSize r = chain_size e c l \<longleftrightarrow> total0 = 0)"
proof -
  have t: "outTotalSize r = total0 + chain_size e c l"
    using GenerateMipMaps_Some(3) [OF assms] by (simp add: total_is_offset)
  moreover have "length (outData r) = unat (outTotalSize r)"
    by (rule GenerateMipMaps_Some(5) [OF assms])
  ultimately show ?thesis by simp
qed

theorem GenerateMipMaps_total_accumulates_witness:
  "GenerateMipMaps resize_blank (Vec2ui 4 2) (replicate 8 0) 5 [] 1 1 =
     Some \<lparr>outMipLevels = 3, outTotalSize = 16,
           outExtents = [Vec2ui 4 2, Vec2ui 2 1, Vec2ui 1 1],
           outData = replicate 16 0, mipLog = []\<rparr> \<and>
   (16 :: u32) = 5 + chain_size (Vec2ui 4 2) 1 1 \<and>
   length (replicate 16 (0 :: u8)) = unat (5 + chain_size (Vec2ui 4 2) 1 1) \<and>
   ((16 :: u32) = chain_size (Vec2ui 4 2) 1 1 \<longleftrightarrow> (5 :: u32) = 0)"
proof -
  have run: "GenerateMipMaps resize_blank (Vec2ui 4 2) (replicate 8 0) 5 [] 1 1 =
     Some \<lparr>outMipLevels = 3, outTotalSize = 16,
           outExtents = [Vec2ui 4 2, Vec2ui 2 1, Vec2ui 1 1],
           outData = replicate 16 0, mipLog = []\<rparr>"
    by code_simp
  from GenerateMipMaps_total_accumulates [OF run] run show ?thesis
    by simp
qed

text \<open>
  Claim C5, as the source has it.  For a \<open>W \<times> H\<close> image with \<open>W, H \<ge> 1\<close>, the total
  that \<open>GenerateMipMaps\<close> reports is the incoming \<open>_outTotalSize\<close> plus the sum over the
  levels \<open>i = 0 .. mipLevels - 1\<close> of \<open>max 1 \<lfloor>W / 2^i\<rfloor> * max 1 \<lfloor>H / 2^i\<rfloor> * C\<close> (times
  \<open>_layerNum\<close>), in 32-bit arithmetic: the dimensions are rounded down, not up.  Called as
  \<open>main\<close> calls it, with \<open>_outTotalSize = 0\<close> and one layer, on a chain that fits 32 bits, it
  returns and the total is exactly that sum.
\<close>

theorem mip_chain_total_bytes:
  assumes nz: "W \<noteq> 0" "H \<noteq> 0"
  shows "(\<forall>r. GenerateMipMaps stbir (Vec2ui W H) buf0 total0 exts0 C L = Some r \<longrightarrow>
            unat (outTotalSize r) =
              (unat total0 + chain_bytes (unat W) (unat H) (unat C * unat L) (unat (outMipLevels r)))
                mod 2 ^ 32) \<and>
         (chain_bytes (unat W) (unat H) (unat C) (unat (mip_count (Vec2ui W H))) < 2 ^ 32 \<longrightarrow>
            (\<exists>r. GenerateMipMaps stbir (Vec2ui W H) buf0 0 exts0 C 1 = Some r \<and>
                 unat (outTotalSize r) =
                   chain_bytes (unat W) (unat H) (unat C) (unat (outMipLevels r))))"
proof -
  have part: "unat (outTotalSize r) =
      (unat t0 + chain_bytes (unat W) (unat H) (unat C * unat l) (unat (outMipLevels r))) mod 2 ^ 32"
    if gm: "GenerateMipMaps stbir (Vec2ui W H) buf0 t0 exts0 C l = Some r" for r t0 l
  proof -
    let ?N = "chain_bytes (unat W) (unat H) (unat C * unat l) (unat (mip_count (Vec2ui W H)))"
    have "outTotalSize r = t0 + chain_size (Vec2ui W H) C l"
      using GenerateMipMaps_Some(3) [OF gm] by (simp add: total_is_offset)
    also have "\<dots> = word_of_nat (unat t0 + ?N)"
      by (simp add: chain_size_of_nat [OF nz])
    finally have "unat (outTotalSize r) = (unat t0 + ?N) mod 2 ^ 32"
      by (simp only: unat_of_nat) simp
    then show ?thesis
      by (simp add: GenerateMipMaps_Some(2) [OF gm])
  qed
  have tot: "\<exists>r. GenerateMipMaps stbir (Vec2ui W H) buf0 0 exts0 C 1 = Some r \<and>
                 unat (outTotalSize r) = chain_bytes (unat W) (unat H) (unat C) (unat (outMipLevels r))"
    if fits: "chain_bytes (unat W) (unat H) (unat C) (unat (mip_count (Vec2ui W H))) < 2 ^ 32"
  proof -
    from GenerateMipMaps_returns [OF nz fits] obtain r where
      gm: "GenerateMipMaps stbir (Vec2ui W H) buf0 0 exts0 C 1 = Some r" ..
    from part [OF gm] fits have
      "unat (outTotalSize r) = chain_bytes (unat W) (unat H) (unat C) (unat (outMipLevels r))"
      by (simp add: GenerateMipMaps_Some(2) [OF gm])
    with gm show ?thesis by blast
  qed
  from part tot show ?thesis by blast
qed

theorem mip_chain_total_bytes_witness:
  "(3 :: u32) \<noteq> 0 \<and>
   chain_bytes (unat (3 :: u32)) (unat (3 :: u32)) (unat (1 :: u32)) (unat (mip_count (Vec2ui 3 3)))
     < 2 ^ 32 \<and>
   (\<exists>r. GenerateMipMaps resize_blank (Vec2ui 3 3) (replicate 9 7) 0 [] 1 1 = Some r \<and>
        unat (outTotalSize r) =
          chain_bytes (unat (3 :: u32)) (unat (3 :: u32)) (unat (1 :: u32)) (unat (outMipLevels r)))"
proof -
  have nz: "(3 :: u32) \<noteq> 0" by simp
  have "unat (mip_count (Vec2ui 3 3)) = 2" by code_simp
  moreover have "chain_bytes 3 3 1 2 = 10" by code_simp
  ultimately have fits: "chain_bytes (unat (3 :: u32)) (unat (3 :: u32)) (unat (1 :: u32))
                           (unat (mip_count (Vec2ui 3 3))) < 2 ^ 32"
    by simp
  note T = mip_chain_total_bytes [where W = 3 and H = 3 and C = 1 and stbir = resize_blank
      and ?buf0.0 = "replicate 9 7" and ?exts0.0 = "[]" and ?total0.0 = 0 and L = 1, OF nz nz]
  from T [THEN conjunct2, THEN mp, OF fits] nz fits show ?thesis
    by (intro conjI)
qed

text \<open>
  The formula of the specification rounds up.  On a \<open>3 \<times> 3\<close> image with one channel the
  source computes two levels, \<open>3 \<times> 3\<close> and \<open>1 \<times> 1\<close>, and reports 10 bytes; the formula
  gives \<open>9 + 4 = 13\<close>.
\<close>

theorem mip_chain_ceiling_counterexample:
  "GenerateMipMaps resize_blank (Vec2ui 3 3) (replicate 9 7) 0 [] 1 1 =
     Some \<lparr>outMipLevels = 2, outTotalSize = 10, outExtents = [Vec2ui 3 3, Vec2ui 1 1],
           outData = replicate 9 7 @ [0], mipLog = []\<rparr> \<and>
   spec_chain_bytes 3 3 1 2 = 13"
  by code_simp

section \<open>Claims about the uploads\<close>




text \<open>
  Claim C7, as the source has it.  \<open>SubmitBufferToGPU\<close> has no check of \<open>_size\<close> or
  \<open>_data\<close> and no \<open>InvalidArgument\<close> result.  It returns \<open>false\<close> exactly when the creation of
  the staging buffer fails, and has then logged that and recorded and submitted nothing; this
  is what happens for \<open>_size = 0\<close>, because the device rejects a buffer of width 0.  A null
  source with a non-zero \<open>_size\<close> is not detected: once the staging buffer is created the
  function has no defined result, whether \<open>Map\<close> fails or \<open>std::memcpy\<close> reads through the
  null pointer.  Whenever the function returns \<open>true\<close> it has submitted the copy of \<open>_size\<close>
  bytes and the barrier; and with a non-null source of at least \<open>_size\<close> bytes, a staging
  buffer that is created and mapped and a device fence that reaches its value, it does
  return \<open>true\<close>.
\<close>

theorem SubmitBufferToGPU_unvalidated:
  assumes lists: "cmdLists st \<noteq> []"
  shows "(\<forall>ok st'. SubmitBufferToGPU dfa env gpuBuffer size0 src stateAfter st = Some (ok, st') \<longrightarrow>
           (ok \<longleftrightarrow> size0 \<noteq> 0 \<and> \<not> hrStagBufferCreated_failed env) \<and>
           (\<not> ok \<longrightarrow> graphicsQueue st' = graphicsQueue st \<and> cmdLists st' = cmdLists st \<and>
                    logged st' = logged st @ [''Create Staging Buffer failed!'']) \<and>
           (ok \<longrightarrow> graphicsQueue st' = graphicsQueue st @
                    [ExecuteCommandLists (cmdLists st ! 0 @
                       [CopyBufferRegion gpuBuffer 0 (StagingBuffer (stagingId env)) 0 size0,
                        ResourceBarrier gpuBuffer D3D12_RESOURCE_STATE_COPY_DEST stateAfter]),
                     Signal DeviceFence (ucast (deviceFenceValue st))])) \<and>
         (size0 = 0 \<or> hrStagBufferCreated_failed env \<longrightarrow>
            SubmitBufferToGPU dfa env gpuBuffer size0 src stateAfter st =
              Some (False, st\<lparr>logged := logged st @ [''Create Staging Buffer failed!'']\<rparr>)) \<and>
         (size0 \<noteq> 0 \<and> \<not> hrStagBufferCreated_failed env \<and> src = None \<longrightarrow>
            SubmitBufferToGPU dfa env gpuBuffer size0 src stateAfter st = None) \<and>
         (size0 \<noteq> 0 \<and> \<not> hrStagBufferCreated_failed env \<and> \<not> hrMap_failed env \<and> src = Some bs \<and>
            unat size0 \<le> length bs \<and> ucast (deviceFenceValue st) \<le> dfa (now st + k) \<longrightarrow>
            (\<exists>st'. SubmitBufferToGPU dfa env gpuBuffer size0 src stateAfter st = Some (True, st')))"
proof -
  have f: "FAILED_hrStagBufferCreated env size0 \<longleftrightarrow> size0 = 0 \<or> hrStagBufferCreated_failed env"
    by (simp add: FAILED_hrStagBufferCreated_def)
  have a: "(ok \<longleftrightarrow> size0 \<noteq> 0 \<and> \<not> hrStagBufferCreated_failed env) \<and>
           (\<not> ok \<longrightarrow> graphicsQueue st' = graphicsQueue st \<and> cmdLists st' = cmdLists st \<and>
                    logged st' = logged st @ [''Create Staging Buffer failed!'']) \<and>
           (ok \<longrightarrow> graphicsQueue st' = graphicsQueue st @
                    [ExecuteCommandLists (cmdLists st ! 0 @
                       [CopyBufferRegion gpuBuffer 0 (StagingBuffer (stagingId env)) 0 size0,
                        ResourceBarrier gpuBuffer D3D12_RESOURCE_STATE_COPY_DEST stateAfter]),
                     Signal DeviceFence (ucast (deviceFenceValue st))])"
    if "SubmitBufferToGPU dfa env gpuBuffer size0 src stateAfter st = Some (ok, st')" for ok st'
    using SubmitBufferToGPU_result [OF that lists] f by simp
  have b: "SubmitBufferToGPU dfa env gpuBuffer size0 src stateAfter st =
              Some (False, st\<lparr>logged := logged st @ [''Create Staging Buffer failed!'']\<rparr>)"
    if "size0 = 0 \<or> hrStagBufferCreated_failed env"
    using that f by (simp add: SubmitBufferToGPU_def)
  have c: "SubmitBufferToGPU dfa env gpuBuffer size0 src stateAfter st = None"
    if "size0 \<noteq> 0 \<and> \<not> hrStagBufferCreated_failed env \<and> src = None"
    using that f by (simp add: SubmitBufferToGPU_def memcpy_src_def)
  have d: "\<exists>st'. SubmitBufferToGPU dfa env gpuBuffer size0 src stateAfter st = Some (True, st')"
    if "size0 \<noteq> 0 \<and> \<not> hrStagBufferCreated_failed env \<and> \<not> hrMap_failed env \<and> src = Some bs \<and>
        unat size0 \<le> length bs \<and> ucast (deviceFenceValue st) \<le> dfa (now st + k)"
  proof -
    from that f have nf: "\<not> FAILED_hrStagBufferCreated env size0" by simp
    from that have rest: "unat size0 \<le> length bs" "ucast (deviceFenceValue st) \<le> dfa (now st + k)"
      "\<not> hrMap_failed env" "src = Some bs" by simp_all
    from SubmitBufferToGPU_returns [where env = env and ?size0.0 = size0 and bs = bs and st = st
        and dfa = dfa and k = k and gpuBuffer = gpuBuffer and stateAfter = stateAfter,
        OF nf rest(1,2,3)] rest(4)
    show ?thesis by simp
  qed
  from a have A: "\<forall>ok st'. SubmitBufferToGPU dfa env gpuBuffer size0 src stateAfter st = Some (ok, st') \<longrightarrow>
           (ok \<longleftrightarrow> size0 \<noteq> 0 \<and> \<not> hrStagBufferCreated_failed env) \<and>
           (\<not> ok \<longrightarrow> graphicsQueue st' = graphicsQueue st \<and> cmdLists st' = cmdLists st \<and>
                    logged st' = logged st @ [''Create Staging Buffer failed!'']) \<and>
           (ok \<longrightarrow> graphicsQueue st' = graphicsQueue st @
                    [ExecuteCommandLists (cmdLists st ! 0 @
                       [CopyBufferRegion gpuBuffer 0 (StagingBuffer (stagingId env)) 0 size0,
                        ResourceBarrier gpuBuffer D3D12_RESOURCE_STATE_COPY_DEST stateAfter]),
                     Signal DeviceFence (ucast (deviceFenceValue st))])"
    by (intro allI impI)
  from b have B: "size0 = 0 \<or> hrStagBufferCreated_failed env \<longrightarrow>
            SubmitBufferToGPU dfa env gpuBuffer size0 src stateAfter st =
              Some (False, st\<lparr>logged := logged st @ [''Create Staging Buffer failed!'']\<rparr>)"
    by (intro impI)
  from c have C: "size0 \<noteq> 0 \<and> \<not> hrStagBufferCreated_failed env \<and> src = None \<longrightarrow>
            SubmitBufferToGPU dfa env gpuBuffer size0 src stateAfter st = None"
    by (intro impI)
  from d have D: "size0 \<noteq> 0 \<and> \<not> hrStagBufferCreated_failed env \<and> \<not> hrMap_failed env \<and> src = Some bs \<and>
            unat size0 \<le> length bs \<and> ucast (deviceFenceValue st) \<le> dfa (now st + k) \<longrightarrow>
            (\<exists>st'. SubmitBufferToGPU dfa env gpuBuffer size0 src stateAfter st = Some (True, st'))"
    by (intro impI)
  from A B C D show ?thesis by (intro conjI)
qed

theorem SubmitBufferToGPU_unvalidated_witness:
  "cmdLists renderer0 \<noteq> [] \<and>
   (12 :: u64) \<noteq> 0 \<and> \<not> hrStagBufferCreated_failed upload_ok \<and> \<not> hrMap_failed upload_ok \<and>
   unat (12 :: u64) \<le> length (replicate 12 (0 :: u8)) \<and>
   ucast (deviceFenceValue renderer0) \<le> fence_ticking (now renderer0 + 0) \<and>
   (\<exists>st'. SubmitBufferToGPU fence_ticking upload_ok
            (SphereVertexBuffer 0) 12 (Some (replicate 12 0)) 0x1 renderer0 = Some (True, st')) \<and>
   SubmitBufferToGPU fence_ticking upload_ok (SphereVertexBuffer 0) 0 (Some []) 0x1 renderer0 =
     Some (False, renderer0\<lparr>logged := logged renderer0 @ [''Create Staging Buffer failed!'']\<rparr>) \<and>
   SubmitBufferToGPU fence_ticking upload_ok (SphereVertexBuffer 0) 12 None 0x1 renderer0 = None"
proof -
  have lists: "cmdLists renderer0 \<noteq> []" by (simp add: renderer0_def)
  have a: "(12 :: u64) \<noteq> 0" "\<not> hrStagBufferCreated_failed upload_ok" "\<not> hrMap_failed upload_ok"
    by (simp_all add: upload_ok_def)
  have b: "unat (12 :: u64) \<le> length (replicate 12 (0 :: u8))" by simp
  have c: "ucast (deviceFenceValue renderer0) \<le> fence_ticking (now renderer0 + 0)"
    by (simp add: renderer0_def fence_ticking_def)
  note T = SubmitBufferToGPU_unvalidated [OF lists, where dfa = fence_ticking and env = upload_ok
      and gpuBuffer = "SphereVertexBuffer 0" and stateAfter = "0x1"]
  from T [where ?size0.0 = 12 and src = "Some (replicate 12 0)" and bs = "replicate 12 0" and k = 0,
      THEN conjunct2, THEN conjunct2, THEN conjunct2] a b c
  have r: "\<exists>st'. SubmitBufferToGPU fence_ticking upload_ok
            (SphereVertexBuffer 0) 12 (Some (replicate 12 0)) 0x1 renderer0 = Some (True, st')"
    by blast
  from T [where ?size0.0 = 0 and src = "Some []" and bs = "[]" and k = 0,
      THEN conjunct2, THEN conjunct1]
  have z: "SubmitBufferToGPU fence_ticking upload_ok (SphereVertexBuffer 0) 0 (Some []) 0x1 renderer0 =
     Some (False, renderer0\<lparr>logged := logged renderer0 @ [''Create Staging Buffer failed!'']\<rparr>)"
    by simp
  from T [where ?size0.0 = 12 and src = None and bs = "[]" and k = 0,
      THEN conjunct2, THEN conjunct2, THEN conjunct1] a
  have n: "SubmitBufferToGPU fence_ticking upload_ok (SphereVertexBuffer 0) 12 None 0x1 renderer0 = None"
    by simp
  from lists a b c r z n show ?thesis by (intro conjI)
qed

text \<open>
  Claim C7 as the specification states it fails for a null source.  An upload of 12 bytes
  from a null pointer, with a staging buffer that is created and mapped, does not fail with an
  error and return: \<open>std::memcpy\<close> reads through the null pointer, and the call has no defined
  result.
\<close>

theorem null_source_upload_counterexample:
  "SubmitBufferToGPU fence_ticking upload_ok (SphereVertexBuffer 0) 12 None 0x1 renderer0 = None"
  by code_simp

section \<open>Claims about the frame loop\<close>

text \<open>
  Claim C1.  Three slots, all fence values 0 at the start, back buffers handed out
  round-robin.  Before iteration \<open>k\<close> (after \<open>k - 1\<close> iterations that returned) the queue has
  been asked to signal the values \<open>1, 2, \<dots>, k - 1\<close>.  In the iterations 1 to 3 the
  frame-begin block returns at once, whatever the GPU has done.  In every iteration
  \<open>k \<ge> 4\<close> it returns exactly at the first tick at which the fence has reached the value
  signalled at the end of iteration \<open>k - 3\<close>, and it does return when the fence gets there
  and \<open>SetEventOnCompletion\<close> works.
\<close>

theorem round_robin_frame_waits:
  assumes init: "swapchainFenceValues st0 = [0, 0, 0]" "swapchain_signals (graphicsQueue st0) = []"
      "unat (swapchainFrameIndex st0) < 3"
    and rr: "round_robin s (pre @ [env])"
    and run: "run_frames f pre st0 = Some (Inr st)"
  shows "swapchain_signals (graphicsQueue st) =
           map (\<lambda>m. ucast (word_of_nat (Suc m) :: u32)) [0..<length pre] \<and>
         (length pre < 3 \<longrightarrow>
            (\<exists>st1. swapchain_begin f env (loop_inputs env st) = Some (Inr st1) \<and>
                   now st1 = now st + elapsed env)) \<and>
         (3 \<le> length pre \<longrightarrow>
            (\<forall>st1. swapchain_begin f env (loop_inputs env st) = Some (Inr st1) \<longrightarrow>
               first_reached f (swapchain_signals (graphicsQueue st) ! (length pre - 3))
                 (now st + elapsed env) (now st1)) \<and>
            (\<not> hrSetEvent_failed env \<and>
             (\<exists>t\<ge>now st + elapsed env. swapchain_signals (graphicsQueue st) ! (length pre - 3) \<le> f t) \<longrightarrow>
               (\<exists>st1. swapchain_begin f env (loop_inputs env st) = Some (Inr st1))))"
proof -
  let ?n = "length pre"
  let ?i = "backBufferIndex env"
  let ?st = "loop_inputs env st"
  have idx: "unat (backBufferIndex (pre ! m)) = (s + m) mod 3" if "m < ?n" for m
    using round_robin_nth [OF rr, of m] that by (simp add: nth_append)
  have idx': "unat ?i = (s + ?n) mod 3"
    using round_robin_nth [OF rr, of ?n] by simp
  have rng: "\<forall>e\<in>set pre. unat (backBufferIndex e) < length (swapchainFenceValues st0)"
  proof
    fix e assume "e \<in> set pre"
    then obtain m where "m < ?n" "e = pre ! m" by (auto simp: in_set_conv_nth)
    with idx [of m] show "unat (backBufferIndex e) < length (swapchainFenceValues st0)"
      by (simp add: init(1))
  qed
  have z: "swapchainFenceValues st0 ! unat (swapchainFrameIndex st0) = 0"
    using init(3) by (auto simp: init(1) nth_Cons' )
  have sg: "swapchain_signals (graphicsQueue st) = map (\<lambda>m. ucast (word_of_nat (Suc m) :: u32)) [0..<?n]"
    using run_frames_values [OF run init(2) z rng] by simp
  have early: "\<exists>st1. swapchain_begin f env ?st = Some (Inr st1) \<and> now st1 = now st + elapsed env"
    if n: "?n < 3"
  proof -
    have "backBufferIndex (pre ! m) \<noteq> ?i" if "m < ?n" for m
    proof
      assume "backBufferIndex (pre ! m) = ?i"
      then have "(s + m) mod 3 = (s + ?n) mod 3" using idx [OF that] idx' by simp
      moreover have "(s + m) mod 3 \<noteq> (s + ?n) mod 3"
        by (rule mod3_distinct) (use that n in simp_all)
      ultimately show False by simp
    qed
    then have "\<forall>m<?n. backBufferIndex (pre ! m) \<noteq> ?i" by blast
    from run_frames_unused [OF run this]
    have "swapchainFenceValues st ! unat ?i = swapchainFenceValues st0 ! unat ?i" .
    also have "\<dots> = 0" using idx' by (auto simp: init(1) nth_Cons')
    finally have "swapchainFenceValues ?st ! unat ?i = 0" by (simp add: loop_inputs_def)
    then have "ucast (swapchainFenceValues ?st ! unat ?i) \<le> f (now ?st)" by simp
    from swapchain_begin_no_wait [of ?st env f, OF this] show ?thesis
      by (simp add: loop_inputs_def)
  qed
  have late: "swapchain_signals (graphicsQueue st) ! (?n - 3) = ucast (swapchainFenceValues ?st ! unat ?i)"
    if n: "3 \<le> ?n"
  proof -
    have a: "?n - 3 < ?n" using n by simp
    have "unat (backBufferIndex (pre ! (?n - 3))) = unat ?i"
      using idx [OF a] idx' mod3_shift [OF n, of s] by simp
    then have b: "backBufferIndex (pre ! (?n - 3)) = ?i" by (simp add: word_unat_eq_iff)
    have c: "backBufferIndex (pre ! m') \<noteq> ?i" if "?n - 3 < m'" "m' < ?n" for m'
    proof
      assume "backBufferIndex (pre ! m') = ?i"
      then have "(s + m') mod 3 = (s + ?n) mod 3" using idx [OF that(2)] idx' by simp
      moreover have "(s + m') mod 3 \<noteq> (s + ?n) mod 3"
        by (rule mod3_distinct) (use that n in simp_all)
      ultimately show False by simp
    qed
    from a b c have "last_use pre ?i (?n - 3)" by (simp add: last_use_def)
    from run_frames_last_use [OF run init(2) rng this] show ?thesis
      by (simp add: loop_inputs_def)
  qed
  have l1: "first_reached f (swapchain_signals (graphicsQueue st) ! (?n - 3)) (now st + elapsed env) (now st1)"
    if "3 \<le> ?n" "swapchain_begin f env ?st = Some (Inr st1)" for st1
    using swapchain_begin_Inr(2) [OF that(2)] late [OF that(1)] by (simp add: loop_inputs_def)
  have l2: "\<exists>st1. swapchain_begin f env ?st = Some (Inr st1)"
    if "3 \<le> ?n" "\<not> hrSetEvent_failed env" "now st + elapsed env \<le> t"
       "swapchain_signals (graphicsQueue st) ! (?n - 3) \<le> f t" for t
    by (rule swapchain_begin_returns [OF that(2), of _ t]) (use that late [OF that(1)] in \<open>simp_all add: loop_inputs_def\<close>)
  from sg early l1 l2 show ?thesis by blast
qed

theorem round_robin_frame_waits_witness:
  "swapchainFenceValues renderer0 = [0, 0, 0] \<and>
   swapchain_signals (graphicsQueue renderer0) = [] \<and>
   unat (swapchainFrameIndex renderer0) < 3 \<and>
   round_robin 0 ([frame_ok 0, frame_ok 1, frame_ok 2] @ [frame_ok 0]) \<and>
   (\<exists>st. run_frames fence_ticking [frame_ok 0, frame_ok 1, frame_ok 2] renderer0 = Some (Inr st) \<and>
         swapchain_signals (graphicsQueue st) =
           map (\<lambda>m. ucast (word_of_nat (Suc m) :: u32))
             [0..<length [frame_ok 0, frame_ok 1, frame_ok 2]])"
proof -
  have i1: "swapchainFenceValues renderer0 = [0, 0, 0]"
    and i2: "swapchain_signals (graphicsQueue renderer0) = []"
    and i3: "unat (swapchainFrameIndex renderer0) < 3"
    by (simp_all add: renderer0_def)
  have rr: "round_robin 0 ([frame_ok 0, frame_ok 1, frame_ok 2] @ [frame_ok 0])"
    by code_simp
  from three_frames_run obtain st where
    run: "run_frames fence_ticking [frame_ok 0, frame_ok 1, frame_ok 2] renderer0 = Some (Inr st)" ..
  from round_robin_frame_waits [OF i1 i2 i3 rr run]
  have "swapchain_signals (graphicsQueue st) =
          map (\<lambda>m. ucast (word_of_nat (Suc m) :: u32))
            [0..<length [frame_ok 0, frame_ok 1, frame_ok 2]]"
    by (rule conjunct1)
  with run i1 i2 i3 rr show ?thesis by blast
qed

text \<open>
  Claim C2.  In every iteration the only command list that is reset and re-recorded is the
  one of the slot \<open>i\<close> that \<open>GetCurrentBackBufferIndex\<close> returned for this frame, and this
  happens after the frame-begin block has returned, at a time at which the swapchain fence
  has reached \<open>swapchainFenceValues[i]\<close>; that value is the one the queue was asked to
  signal when the slot was last used, so the slot is never re-recorded before the GPU has
  signalled its last use.
\<close>

theorem slot_reset_only_after_fence:
  assumes run: "run_frames f pre st0 = Some (Inr st)"
    and init: "swapchain_signals (graphicsQueue st0) = []"
    and rng: "\<forall>e\<in>set pre. unat (backBufferIndex e) < length (swapchainFenceValues st0)"
    and frame: "render_frame f env st = Some (Inr st')"
  shows "\<exists>st1. swapchain_begin f env (loop_inputs env st) = Some (Inr st1) \<and>
           swapchainFrameIndex st1 = backBufferIndex env \<and>
           ucast (swapchainFenceValues st ! unat (backBufferIndex env)) \<le> f (now st1) \<and>
           (\<forall>m. last_use pre (backBufferIndex env) m \<longrightarrow>
                swapchain_signals (graphicsQueue st) ! m \<le> f (now st1)) \<and>
           cmdLists st1 = cmdLists st \<and>
           cmdLists (register_commands (update_camera env st1)) =
             (cmdLists st)[unat (backBufferIndex env) := frame_commands (backBufferIndex env)] \<and>
           now (register_commands (update_camera env st1)) = now st1 \<and>
           swapchain_end env (register_commands (update_camera env st1)) = Inr st'"
proof -
  from render_frame_Inr [OF frame] obtain st1 where
    b: "swapchain_begin f env (loop_inputs env st) = Some (Inr st1)" and
    e: "swapchain_end env (register_commands (update_camera env st1)) = Inr st'" by blast
  note b1 = swapchain_begin_Inr(1) [OF b]
  have i: "swapchainFrameIndex st1 = backBufferIndex env" by (subst b1) simp
  have c: "cmdLists st1 = cmdLists st" by (subst b1) (simp add: loop_inputs_def)
  have r: "ucast (swapchainFenceValues st ! unat (backBufferIndex env)) \<le> f (now st1)"
    using swapchain_begin_Inr(2) [OF b] by (simp add: first_reached_def loop_inputs_def)
  have l: "swapchain_signals (graphicsQueue st) ! m \<le> f (now st1)"
    if "last_use pre (backBufferIndex env) m" for m
    using run_frames_last_use [OF run init rng that] r by simp
  have rc: "cmdLists (register_commands (update_camera env st1)) =
             (cmdLists st)[unat (backBufferIndex env) := frame_commands (backBufferIndex env)]"
    by (simp add: register_commands_eq update_camera_def i c)
  have t: "now (register_commands (update_camera env st1)) = now st1"
    by (simp add: register_commands_eq update_camera_def)
  from b i r l c rc t e show ?thesis by blast
qed

theorem slot_reset_only_after_fence_witness:
  "swapchain_signals (graphicsQueue renderer0) = [] \<and>
   (\<exists>st st1. run_frames fence_ticking [frame_ok 0, frame_ok 1, frame_ok 2] renderer0 = Some (Inr st) \<and>
       swapchain_begin fence_ticking (frame_ok 0) (loop_inputs (frame_ok 0) st) = Some (Inr st1) \<and>
       swapchainFrameIndex st1 = backBufferIndex (frame_ok 0) \<and>
       ucast (swapchainFenceValues st ! unat (backBufferIndex (frame_ok 0))) \<le> fence_ticking (now st1) \<and>
       swapchain_signals (graphicsQueue st) ! 0 \<le> fence_ticking (now st1))"
proof -
  let ?pre = "[frame_ok 0, frame_ok 1, frame_ok 2]"
  have init: "swapchain_signals (graphicsQueue renderer0) = []"
    by (simp add: renderer0_def)
  have rng: "\<forall>e\<in>set ?pre. unat (backBufferIndex e) < length (swapchainFenceValues renderer0)"
    by (simp add: frame_ok_def renderer0_def)
  have lu: "last_use ?pre (backBufferIndex (frame_ok 0)) 0"
    by (simp add: last_use_def frame_ok_def nth_Cons')
  from four_frames_run obtain st' where
    "run_frames fence_ticking (?pre @ [frame_ok 0]) renderer0 = Some (Inr st')" ..
  then obtain st where run: "run_frames fence_ticking ?pre renderer0 = Some (Inr st)"
    and frame: "render_frame fence_ticking (frame_ok 0) st = Some (Inr st')"
    by (rule run_frames_snoc_Inr)
  from slot_reset_only_after_fence [OF run init rng frame] lu run init show ?thesis
    by blast
qed

text \<open>
  Claim C3, as the source has it.  An iteration that goes through puts the recorded command
  list of the slot on the graphics queue, then \<open>Present\<close>, then a \<open>Signal\<close> of the slot's new
  fence value; that value is the fence value of the slot of the previous iteration plus one
  (\<open>prevFenceValue\<close> is read before the frame index is updated), so the signalled values go
  up by one per frame whatever slot is used; and no time passes on the CPU between the end
  of the frame-begin block and the end of the iteration.
\<close>

theorem frame_signal_is_previous_frame_plus_one:
  assumes run: "render_frame f env st = Some (Inr st')"
    and slot: "unat (backBufferIndex env) < length (swapchainFenceValues st)"
  shows "graphicsQueue st' = graphicsQueue st @
           [ExecuteCommandLists (cmdLists st' ! unat (backBufferIndex env)), Present 1 0,
            Signal SwapchainFence
              (ucast (swapchainFenceValues st ! unat (swapchainFrameIndex st) + 1))] \<and>
         swapchainFenceValues st' ! unat (backBufferIndex env) =
           swapchainFenceValues st ! unat (swapchainFrameIndex st) + 1 \<and>
         (\<exists>st1. swapchain_begin f env (loop_inputs env st) = Some (Inr st1) \<and> now st' = now st1)"
proof -
  have v: "swapchainFenceValues st' ! unat (backBufferIndex env) =
           swapchainFenceValues st ! unat (swapchainFrameIndex st) + 1"
    using slot by (simp add: render_frame_fields(2) [OF run])
  from render_frame_Inr [OF run] obtain st1 where
    b: "swapchain_begin f env (loop_inputs env st) = Some (Inr st1)" and
    e: "swapchain_end env (register_commands (update_camera env st1)) = Inr st'" by blast
  have "now st' = now st1"
    by (subst swapchain_end_Inr [OF e]) (simp add: register_commands_eq update_camera_def)
  with b have "\<exists>st1. swapchain_begin f env (loop_inputs env st) = Some (Inr st1) \<and> now st' = now st1"
    by blast
  with v render_frame_fields(4) [OF run] show ?thesis by simp
qed

theorem frame_signal_is_previous_frame_plus_one_witness:
  "unat (backBufferIndex (frame_ok 0)) < length (swapchainFenceValues renderer3) \<and>
   (\<exists>st'. render_frame fence_ticking (frame_ok 0) renderer3 = Some (Inr st') \<and>
      swapchainFenceValues st' ! unat (backBufferIndex (frame_ok 0)) =
        swapchainFenceValues renderer3 ! unat (swapchainFrameIndex renderer3) + 1)"
proof -
  have slot: "unat (backBufferIndex (frame_ok 0)) < length (swapchainFenceValues renderer3)"
    by (simp add: frame_ok_def renderer3_def renderer0_def)
  have "map_option (map_sum id (\<lambda>s. ())) (render_frame fence_ticking (frame_ok 0) renderer3) =
        Some (Inr ())"
    by code_simp
  then obtain st' where run: "render_frame fence_ticking (frame_ok 0) renderer3 = Some (Inr st')"
    by (cases "render_frame fence_ticking (frame_ok 0) renderer3")
       (auto simp: map_sum_def split: sum.splits)
  from frame_signal_is_previous_frame_plus_one [OF run slot] run slot show ?thesis
    by blast
qed

text \<open>
  Slot 0 holds the fence value 1 after the frames on the slots 0, 1, 2; the fourth frame,
  on slot 0 again, signals 4 and not \<open>1 + 1\<close>.
\<close>

theorem slot_value_plus_one_counterexample:
  "map_option (map_sum id swapchainFenceValues)
     (run_frames fence_ticking [frame_ok 0, frame_ok 1, frame_ok 2] renderer0) = Some (Inr [1, 2, 3]) \<and>
   map_option (map_sum id (swapchain_signals \<circ> graphicsQueue))
     (run_frames fence_ticking [frame_ok 0, frame_ok 1, frame_ok 2, frame_ok 0] renderer0) =
     Some (Inr [1, 2, 3, 4])"
  by code_simp

text \<open>
  Claim C8, as the source has it.  The frame-begin block takes no deadline and asks the
  surface nothing: the wait is \<open>WaitForSingleObjectEx(..., INFINITE, ...)\<close>.  It ends the
  program with \<open>EXIT_FAILURE\<close> exactly when the fence has not reached the slot's value and
  \<open>SetEventOnCompletion\<close> fails; and it never returns exactly when \<open>SetEventOnCompletion\<close>
  works and the fence never reaches the value.
\<close>

theorem swapchain_begin_waits_without_bound:
  "(swapchain_begin f env st = Some (Inl e) \<longleftrightarrow>
      f (now st) < ucast (swapchainFenceValues st ! unat (backBufferIndex env)) \<and>
      hrSetEvent_failed env \<and> e = EXIT_FAILURE ''Fence SetEventOnCompletion failed.'') \<and>
   (swapchain_begin f env st = None \<longleftrightarrow>
      \<not> hrSetEvent_failed env \<and>
      (\<forall>t\<ge>now st. f t < ucast (swapchainFenceValues st ! unat (backBufferIndex env))))"
  using swapchain_begin_Inl_iff [of f env st e] swapchain_begin_None_iff [of f env st] by blast

theorem swapchain_begin_waits_without_bound_witness:
  "fence_stalled (now renderer3) <
     ucast (swapchainFenceValues renderer3 ! unat (backBufferIndex (frame_no_event 0))) \<and>
   hrSetEvent_failed (frame_no_event 0) \<and>
   swapchain_begin fence_stalled (frame_no_event 0) renderer3 =
     Some (Inl (EXIT_FAILURE ''Fence SetEventOnCompletion failed.''))"
proof -
  have a: "fence_stalled (now renderer3) <
     ucast (swapchainFenceValues renderer3 ! unat (backBufferIndex (frame_no_event 0)))"
    by (simp add: fence_stalled_def renderer3_def renderer0_def frame_no_event_def)
  have b: "hrSetEvent_failed (frame_no_event 0)" by (simp add: frame_no_event_def)
  from swapchain_begin_waits_without_bound
         [of fence_stalled "frame_no_event 0" renderer3 "EXIT_FAILURE ''Fence SetEventOnCompletion failed.''"]
       a b
  show ?thesis by blast
qed

text \<open>
  With the slot's fence value at 1 and a GPU that completes nothing, the frame-begin block
  does not return, whatever deadline a caller has in mind.
\<close>

theorem frame_begin_never_times_out_counterexample:
  "swapchain_begin fence_stalled (frame_ok 0) renderer3 = None"
proof -
  have "\<not> hrSetEvent_failed (frame_ok 0)" by (simp add: frame_ok_def)
  moreover have "\<forall>t\<ge>now renderer3. fence_stalled t <
      ucast (swapchainFenceValues renderer3 ! unat (backBufferIndex (frame_ok 0)))"
    by (simp add: fence_stalled_def renderer3_def renderer0_def frame_ok_def)
  ultimately show ?thesis unfolding swapchain_begin_None_iff by blast
qed

section \<open>Claims about the programs as a whole\<close>

lemma draw_in_frame: "DrawIndexedInstanced \<in> set (frame_commands i)"
  by (simp add: frame_commands_def)

text \<open>
  Claim C6, as the sources have it.  Of the three programs only the DirectX12 renderer does
  all of what the claim lists.  Whenever its initialisation gets to the loop it has asked for
  the adapter and created the device, created the swapchain, created the pipeline state, and
  recorded and executed the copy of a buffer; and every iteration of its loop that returns
  puts the frame's command list, with its draw call, on the queue, then \<open>Present\<close> and the
  fence signal.  The initialisation of the Vulkan renderer, when it gets to the "Loop" block,
  has enumerated the physical devices and created the device, the swapchain and the graphics
  pipeline; but from its first statement to its \<open>return\<close> this \<open>main\<close> creates, maps and copies
  no buffer, records no command and submits and presents nothing, and its "Loop" block does
  nothing.  The initialisation of the second DirectX12 renderer, when it gets to the loop, has
  asked for the adapter and created the device and the swapchain, and has recorded and
  executed the copy of a buffer unless the staging buffer of every one of its uploads failed
  to be created; but this \<open>main\<close> builds no root signature and no pipeline state, records no
  draw and presents nothing, and its loop only asks whether the window is to close, polls the
  events, reads the Escape key and closes the window.
\<close>

theorem only_dx12_renderer_renders:
  "(progress (dx12_Initialization env run0) = Running \<longrightarrow>
      ''EnumAdapterByGpuPreference'' \<in> set (calls (dx12_Initialization env run0)) \<and>
      ''D3D12CreateDevice'' \<in> set (calls (dx12_Initialization env run0)) \<and>
      ''CreateSwapChainForHwnd'' \<in> set (calls (dx12_Initialization env run0)) \<and>
      ''CreateGraphicsPipelineState'' \<in> set (calls (dx12_Initialization env run0)) \<and>
      ''CopyBufferRegion'' \<in> set (calls (dx12_Initialization env run0)) \<and>
      ''ExecuteCommandLists'' \<in> set (calls (dx12_Initialization env run0))) \<and>
   (render_frame f fenv st = Some (Inr st') \<and> unat (backBufferIndex fenv) < length (cmdLists st) \<longrightarrow>
      graphicsQueue st' = graphicsQueue st @
        [ExecuteCommandLists (frame_commands (backBufferIndex fenv)), Present 1 0,
         Signal SwapchainFence (ucast (swapchainFenceValues st' ! unat (backBufferIndex fenv)))] \<and>
      DrawIndexedInstanced \<in> set (frame_commands (backBufferIndex fenv))) \<and>
   (progress (vulkan_Initialization venv run0) = Running \<longrightarrow>
      ''vkEnumeratePhysicalDevices'' \<in> set (calls (vulkan_Initialization venv run0)) \<and>
      ''vkCreateDevice'' \<in> set (calls (vulkan_Initialization venv run0)) \<and>
      ''vkCreateSwapchainKHR'' \<in> set (calls (vulkan_Initialization venv run0)) \<and>
      ''vkCreateGraphicsPipelines'' \<in> set (calls (vulkan_Initialization venv run0))) \<and>
   set (calls (vulkan_main venv)) \<inter> set vulkan_upload_and_render_calls = {} \<and>
   vulkan_Loop r = r \<and>
   (progress (second_Initialization senv run0) = Running \<longrightarrow>
      ''EnumAdapterByGpuPreference'' \<in> set (calls (second_Initialization senv run0)) \<and>
      ''D3D12CreateDevice'' \<in> set (calls (second_Initialization senv run0)) \<and>
      ''CreateSwapChainForHwnd'' \<in> set (calls (second_Initialization senv run0))) \<and>
   (progress (second_Initialization senv run0) = Running \<and>
    (\<not> staging_fails senv ''sphereVertexBuffers[0]'' \<or> \<not> staging_fails senv ''sphereVertexBuffers[1]'' \<or>
     \<not> staging_fails senv ''sphereVertexBuffers[2]'' \<or> \<not> staging_fails senv ''sphereVertexBuffers[3]'' \<or>
     \<not> staging_fails senv ''sphereIndexBuffer'') \<longrightarrow>
      ''CopyBufferRegion'' \<in> set (calls (second_Initialization senv run0)) \<and>
      ''ExecuteCommandLists'' \<in> set (calls (second_Initialization senv run0))) \<and>
   set (calls (second_main senv inps)) \<inter> set d3d12_pipeline_and_render_calls = {} \<and>
   set (calls (snd (second_Loop inps closing r))) \<subseteq> set (calls r) \<union> set second_loop_calls"
proof -
  have A: "progress (dx12_Initialization env run0) = Running \<longrightarrow>
      ''EnumAdapterByGpuPreference'' \<in> set (calls (dx12_Initialization env run0)) \<and>
      ''D3D12CreateDevice'' \<in> set (calls (dx12_Initialization env run0)) \<and>
      ''CreateSwapChainForHwnd'' \<in> set (calls (dx12_Initialization env run0)) \<and>
      ''CreateGraphicsPipelineState'' \<in> set (calls (dx12_Initialization env run0)) \<and>
      ''CopyBufferRegion'' \<in> set (calls (dx12_Initialization env run0)) \<and>
      ''ExecuteCommandLists'' \<in> set (calls (dx12_Initialization env run0))"
    using dx12_Initialization_makes [of env] unfolding makes_def by blast
  have b: "graphicsQueue st' = graphicsQueue st @
        [ExecuteCommandLists (frame_commands (backBufferIndex fenv)), Present 1 0,
         Signal SwapchainFence (ucast (swapchainFenceValues st' ! unat (backBufferIndex fenv)))]"
    if "render_frame f fenv st = Some (Inr st')" "unat (backBufferIndex fenv) < length (cmdLists st)"
    using render_frame_fields(4) [OF that(1)] that(2) by (simp add: render_frame_fields(3) [OF that(1)])
  have B: "render_frame f fenv st = Some (Inr st') \<and> unat (backBufferIndex fenv) < length (cmdLists st) \<longrightarrow>
      graphicsQueue st' = graphicsQueue st @
        [ExecuteCommandLists (frame_commands (backBufferIndex fenv)), Present 1 0,
         Signal SwapchainFence (ucast (swapchainFenceValues st' ! unat (backBufferIndex fenv)))] \<and>
      DrawIndexedInstanced \<in> set (frame_commands (backBufferIndex fenv))"
    using b draw_in_frame by blast
  have C: "progress (vulkan_Initialization venv run0) = Running \<longrightarrow>
      ''vkEnumeratePhysicalDevices'' \<in> set (calls (vulkan_Initialization venv run0)) \<and>
      ''vkCreateDevice'' \<in> set (calls (vulkan_Initialization venv run0)) \<and>
      ''vkCreateSwapchainKHR'' \<in> set (calls (vulkan_Initialization venv run0)) \<and>
      ''vkCreateGraphicsPipelines'' \<in> set (calls (vulkan_Initialization venv run0))"
    using vulkan_Initialization_makes [of venv] unfolding makes_def by blast
  have D: "set (calls (vulkan_main venv)) \<inter> set vulkan_upload_and_render_calls = {}"
    by (rule vulkan_main_calls)
  have E: "vulkan_Loop r = r"
    by (simp add: vulkan_Loop_def)
  have F: "progress (second_Initialization senv run0) = Running \<longrightarrow>
      ''EnumAdapterByGpuPreference'' \<in> set (calls (second_Initialization senv run0)) \<and>
      ''D3D12CreateDevice'' \<in> set (calls (second_Initialization senv run0)) \<and>
      ''CreateSwapChainForHwnd'' \<in> set (calls (second_Initialization senv run0))"
    using second_Initialization_makes [of senv] unfolding makes_def by blast
  have g: "f \<in> set (calls (second_Initialization senv run0))"
    if run: "progress (second_Initialization senv run0) = Running"
      and f: "f = ''CopyBufferRegion'' \<or> f = ''ExecuteCommandLists''"
      and ok: "\<not> staging_fails senv ''sphereVertexBuffers[0]'' \<or> \<not> staging_fails senv ''sphereVertexBuffers[1]'' \<or>
         \<not> staging_fails senv ''sphereVertexBuffers[2]'' \<or> \<not> staging_fails senv ''sphereVertexBuffers[3]'' \<or>
         \<not> staging_fails senv ''sphereIndexBuffer''" for f
  proof -
    from ok obtain b m where bm: "(b, m) \<in> set
      [(''sphereVertexBuffers[0]'', ''Create Sphere Vertex Buffer failed!''),
       (''sphereVertexBuffers[1]'', ''Create Sphere Normal Buffer failed!''),
       (''sphereVertexBuffers[2]'', ''Create Sphere Tangent Buffer failed!''),
       (''sphereVertexBuffers[3]'', ''Create Sphere UV Buffer failed!''),
       (''sphereIndexBuffer'', ''Create Sphere Index Buffer failed!'')]"
      and nb: "\<not> staging_fails senv b"
      by (elim disjE) force+
    from second_Initialization_uploads [OF bm nb f] run show ?thesis
      by (simp add: makes_def)
  qed
  have G: "progress (second_Initialization senv run0) = Running \<and>
    (\<not> staging_fails senv ''sphereVertexBuffers[0]'' \<or> \<not> staging_fails senv ''sphereVertexBuffers[1]'' \<or>
     \<not> staging_fails senv ''sphereVertexBuffers[2]'' \<or> \<not> staging_fails senv ''sphereVertexBuffers[3]'' \<or>
     \<not> staging_fails senv ''sphereIndexBuffer'') \<longrightarrow>
      ''CopyBufferRegion'' \<in> set (calls (second_Initialization senv run0)) \<and>
      ''ExecuteCommandLists'' \<in> set (calls (second_Initialization senv run0))"
    using g by blast
  have H: "set (calls (second_main senv inps)) \<inter> set d3d12_pipeline_and_render_calls = {}"
    by (rule second_main_calls)
  have I: "set (calls (snd (second_Loop inps closing r))) \<subseteq> set (calls r) \<union> set second_loop_calls"
    using second_Loop_calls [of r inps closing] by blast
  from A B C D E F G H I show ?thesis by (intro conjI)
qed

theorem only_dx12_renderer_renders_witness:
  "progress (dx12_Initialization all_well run0) = Running \<and>
   ''EnumAdapterByGpuPreference'' \<in> set (calls (dx12_Initialization all_well run0)) \<and>
   ''CreateSwapChainForHwnd'' \<in> set (calls (dx12_Initialization all_well run0)) \<and>
   ''CreateGraphicsPipelineState'' \<in> set (calls (dx12_Initialization all_well run0)) \<and>
   ''CopyBufferRegion'' \<in> set (calls (dx12_Initialization all_well run0)) \<and>
   ''ExecuteCommandLists'' \<in> set (calls (dx12_Initialization all_well run0)) \<and>
   unat (backBufferIndex (frame_ok 0)) < length (cmdLists renderer3) \<and>
   (\<exists>st'. render_frame fence_ticking (frame_ok 0) renderer3 = Some (Inr st') \<and>
      graphicsQueue st' = graphicsQueue renderer3 @
        [ExecuteCommandLists (frame_commands (backBufferIndex (frame_ok 0))), Present 1 0,
         Signal SwapchainFence
           (ucast (swapchainFenceValues st' ! unat (backBufferIndex (frame_ok 0))))]) \<and>
   progress (vulkan_Initialization vulkan_all_well run0) = Running \<and>
   ''vkEnumeratePhysicalDevices'' \<in> set (calls (vulkan_Initialization vulkan_all_well run0)) \<and>
   ''vkCreateSwapchainKHR'' \<in> set (calls (vulkan_Initialization vulkan_all_well run0)) \<and>
   ''vkCreateGraphicsPipelines'' \<in> set (calls (vulkan_Initialization vulkan_all_well run0)) \<and>
   progress (second_Initialization all_well run0) = Running \<and>
   \<not> staging_fails all_well ''sphereVertexBuffers[0]'' \<and>
   ''CreateSwapChainForHwnd'' \<in> set (calls (second_Initialization all_well run0)) \<and>
   ''CopyBufferRegion'' \<in> set (calls (second_Initialization all_well run0))"
proof -
  note T = only_dx12_renderer_renders [where env = all_well and f = fence_ticking
      and fenv = "frame_ok 0" and st = renderer3 and venv = vulkan_all_well and senv = all_well
      and r = run0 and inps = "[]" and closing = False]
  have p1: "progress (dx12_Initialization all_well run0) = Running" by code_simp
  have p2: "progress (vulkan_Initialization vulkan_all_well run0) = Running" by code_simp
  have p3: "progress (second_Initialization all_well run0) = Running" by code_simp
  have p4: "\<not> staging_fails all_well ''sphereVertexBuffers[0]''" by (simp add: all_well_def)
  have slot: "unat (backBufferIndex (frame_ok 0)) < length (cmdLists renderer3)"
    by (simp add: frame_ok_def renderer3_def renderer0_def)
  have "map_option (map_sum id (\<lambda>s. ())) (render_frame fence_ticking (frame_ok 0) renderer3) =
        Some (Inr ())"
    by code_simp
  then obtain st' where run: "render_frame fence_ticking (frame_ok 0) renderer3 = Some (Inr st')"
    by (cases "render_frame fence_ticking (frame_ok 0) renderer3")
       (auto simp: map_sum_def split: sum.splits)
  note a = T [where st' = st', THEN conjunct1, THEN mp, OF p1]
  from T [where st' = st', THEN conjunct2, THEN conjunct1] run slot
  have b: "\<exists>st'. render_frame fence_ticking (frame_ok 0) renderer3 = Some (Inr st') \<and>
      graphicsQueue st' = graphicsQueue renderer3 @
        [ExecuteCommandLists (frame_commands (backBufferIndex (frame_ok 0))), Present 1 0,
         Signal SwapchainFence
           (ucast (swapchainFenceValues st' ! unat (backBufferIndex (frame_ok 0))))]"
    by blast
  note c = T [where st' = st', THEN conjunct2, THEN conjunct2, THEN conjunct1, THEN mp, OF p2]
  note d = T [where st' = st', THEN conjunct2, THEN conjunct2, THEN conjunct2, THEN conjunct2,
      THEN conjunct2, THEN conjunct1, THEN mp, OF p3]
  from T [where st' = st', THEN conjunct2, THEN conjunct2, THEN conjunct2, THEN conjunct2,
      THEN conjunct2, THEN conjunct2, THEN conjunct1] p3 p4
  have e: "''CopyBufferRegion'' \<in> set (calls (second_Initialization all_well run0))"
    by blast
  from p1 a slot b p2 c p3 p4 d e show ?thesis by blast
qed

text \<open>
  Claim C6 as the specification states it fails for the Vulkan renderer.  With every check
  passing, its \<open>main\<close> makes the calls below, in this order, and returns 0: it creates the
  device, the swapchain, the depth image and the pipeline, and destroys them again.  No buffer
  is created or copied, no frame is drawn and nothing is submitted or presented.
\<close>

theorem vulkan_renderer_counterexample:
  "calls (vulkan_main vulkan_all_well) =
     [''SA::Debug::InitDefaultLogger'', ''glfwSetErrorCallback'', ''glfwInit'',
      ''glfwWindowHint'', ''glfwCreateWindow'', ''glfwSetInputMode'',
      ''glfwGetRequiredInstanceExtensions'', ''vkCreateInstance'', ''glfwCreateWindowSurface'',
      ''vkEnumeratePhysicalDevices'', ''vkEnumeratePhysicalDevices'',
      ''vkEnumerateDeviceExtensionProperties'', ''vkEnumerateDeviceExtensionProperties'',
      ''vkGetPhysicalDeviceQueueFamilyProperties'',
      ''vkGetPhysicalDeviceQueueFamilyProperties'', ''vkGetPhysicalDeviceSurfaceSupportKHR'',
      ''vkGetPhysicalDeviceSurfaceSupportKHR'', ''vkCreateDevice'', ''vkGetDeviceQueue'',
      ''vkGetDeviceQueue'', ''vkGetPhysicalDeviceSurfaceCapabilitiesKHR'',
      ''vkGetPhysicalDeviceSurfaceFormatsKHR'', ''vkGetPhysicalDeviceSurfaceFormatsKHR'',
      ''vkGetPhysicalDeviceSurfacePresentModesKHR'',
      ''vkGetPhysicalDeviceSurfacePresentModesKHR'', ''vkCreateSwapchainKHR'',
      ''vkGetSwapchainImagesKHR'', ''vkCreateImageView'', ''vkCreateImageView'',
      ''vkCreateImageView'', ''vkCreateSemaphore'', ''vkCreateSemaphore'', ''vkCreateFence'',
      ''vkCreateSemaphore'', ''vkCreateSemaphore'', ''vkCreateFence'', ''vkCreateSemaphore'',
      ''vkCreateSemaphore'', ''vkCreateFence'', ''vkCreateCommandPool'',
      ''vkAllocateCommandBuffers'', ''vkCreateImage'', ''vkGetImageMemoryRequirements'',
      ''vkGetPhysicalDeviceMemoryProperties'', ''vkAllocateMemory'', ''vkBindImageMemory'',
      ''vkCreateImageView'', ''vkCreateRenderPass'', ''vkCreateFramebuffer'',
      ''vkCreateFramebuffer'', ''vkCreateFramebuffer'', ''vkCreateDescriptorSetLayout'',
      ''vkCreatePipelineLayout'', ''CompileGlslToSpv'', ''vkCreateShaderModule'',
      ''CompileGlslToSpv'', ''vkCreateShaderModule'', ''vkCreateGraphicsPipelines'',
      ''vkDestroyPipeline'', ''vkDestroyShaderModule'', ''vkDestroyShaderModule'',
      ''vkDestroyPipelineLayout'', ''vkDestroyDescriptorSetLayout'', ''vkDestroyFramebuffer'',
      ''vkDestroyFramebuffer'', ''vkDestroyFramebuffer'', ''vkDestroyRenderPass'',
      ''vkDestroyImageView'', ''vkFreeMemory'', ''vkDestroyImage'', ''vkFreeCommandBuffers'',
      ''vkDestroyCommandPool'', ''vkDestroySemaphore'', ''vkDestroySemaphore'',
      ''vkDestroyFence'', ''vkDestroySemaphore'', ''vkDestroySemaphore'', ''vkDestroyFence'',
      ''vkDestroySemaphore'', ''vkDestroySemaphore'', ''vkDestroyFence'',
      ''vkDestroyImageView'', ''vkDestroyImageView'', ''vkDestroyImageView'',
      ''vkDestroySwapchainKHR'', ''vkDestroyDevice'', ''vkDestroySurfaceKHR'',
      ''vkDestroyInstance'', ''glfwDestroyWindow'', ''glfwTerminate''] \<and>
   errors (vulkan_main vulkan_all_well) = [] \<and>
   progress (vulkan_main vulkan_all_well) = Exited 0 \<and>
   calls (vulkan_Loop (vulkan_Initialization vulkan_all_well run0)) =
     calls (vulkan_Initialization vulkan_all_well run0)"
  by code_simp

text \<open>
  Claim C9 at the input where the source departs from it.  \<open>stbir_resize_uint8_linear\<close>
  fails while \<open>GenerateMipMaps\<close> builds level 1 of a \<open>2 \<times> 2\<close> texture at startup: the failure
  is logged, \<open>GenerateMipMaps\<close> returns \<open>void\<close>, and \<open>main\<close> goes on to create the texture and
  to upload the unfinished chain instead of returning \<open>EXIT_FAILURE\<close>.
\<close>

theorem mip_failure_is_only_logged:
  "load_albedo_texture resize_fail fence_ticking texture_2x2 renderer0 =
     Some (Inr \<lparr>swapchainFrameIndex = 0, swapchainFenceValues = [0, 0, 0], deviceFenceValue = 1,
            cmdLists = [[], [], []],
            graphicsQueue =
              [ExecuteCommandLists
                 [CopyTextureRegion (Texture 0) 0 (StagingBuffer 0) 0 2 2 8,
                  CopyTextureRegion (Texture 0) 1 (StagingBuffer 0) 16 1 1 4,
                  ResourceBarrier (Texture 0) D3D12_RESOURCE_STATE_COPY_DEST
                    D3D12_RESOURCE_STATE_PIXEL_SHADER_RESOURCE],
               Signal DeviceFence 0],
            mapped = [(StagingBuffer 0, replicate 16 9 @ replicate 4 0)],
            logged = [''Mip map creation failed!''], now = 0\<rparr>)"
  by code_simp

end
